theory Spec2Isabelle
  imports Complex_Main
begin

section \<open>Arrays\<close>

text \<open>
  The layers of \<^verbatim>\<open>layers.py\<close> compute on numpy arrays. An array is modelled by its shape
  and by the function from an index (one natural number per axis) to the entry stored
  there; only the entries at indices inside the shape are meaningful. Entries are real
  numbers: IEEE rounding, infinities and NaN are outside the model, and where numpy would
  answer with \<^verbatim>\<open>inf\<close> or \<^verbatim>\<open>nan\<close> (a division by zero, the root of a negative number, the mean
  of an empty window) the model has the value of HOL's total function. Sizes, strides and
  paddings are natural numbers. Every exception the Python code can raise on such inputs
  is a value of type \<open>error\<close>; a call that raises returns \<open>Inl\<close> of it.
\<close>

datatype error = ValueError | IndexError | ZeroDivisionError | KeyError | AttributeError | TypeError

record ndarray =
  shape :: "nat list"
  entry :: "nat list \<Rightarrow> real"

definition in_shape :: "nat list \<Rightarrow> nat list \<Rightarrow> bool" where
  "in_shape sh idx = list_all2 (\<lambda>j d. j < d) idx sh"

text \<open>\<^verbatim>\<open>np.zeros(dims)\<close>: a negative dimension raises ValueError.\<close>

definition np_zeros :: "int list \<Rightarrow> error + ndarray" where
  "np_zeros ds =
     (if list_ex (\<lambda>d. d < 0) ds then Inl ValueError
      else Inr \<lparr>shape = map nat ds, entry = (\<lambda>idx. 0)\<rparr>)"

text \<open>
  Broadcasting of two shapes, as numpy does it: the shapes are aligned at their last
  axis, and two aligned dimensions must be equal or one of them 1. \<open>bshape_rev\<close> works on
  the reversed shapes.
\<close>

fun bshape_rev :: "nat list \<Rightarrow> nat list \<Rightarrow> nat list option" where
  "bshape_rev [] ys = Some ys"
| "bshape_rev (x # xs) [] = Some (x # xs)"
| "bshape_rev (x # xs) (y # ys) =
     (if x = y then map_option (Cons x) (bshape_rev xs ys)
      else if y = 1 then map_option (Cons x) (bshape_rev xs ys)
      else if x = 1 then map_option (Cons y) (bshape_rev xs ys)
      else None)"

definition bshape :: "nat list \<Rightarrow> nat list \<Rightarrow> nat list option" where
  "bshape a b = map_option rev (bshape_rev (rev a) (rev b))"

text \<open>The index an operand of shape \<open>sh\<close> is read at, for the index \<open>idx\<close> of the broadcast result.\<close>

definition bidx :: "nat list \<Rightarrow> nat list \<Rightarrow> nat list" where
  "bidx sh idx = map2 (\<lambda>d j. if d = 1 then 0 else j) sh (drop (length idx - length sh) idx)"

text \<open>An elementwise unary function, and an elementwise binary operator with broadcasting.\<close>

definition ew1 :: "(real \<Rightarrow> real) \<Rightarrow> ndarray \<Rightarrow> ndarray" where
  "ew1 g A = \<lparr>shape = shape A, entry = (\<lambda>idx. g (entry A idx))\<rparr>"

definition ew2 :: "(real \<Rightarrow> real \<Rightarrow> real) \<Rightarrow> ndarray \<Rightarrow> ndarray \<Rightarrow> error + ndarray" where
  "ew2 g A B =
     (case bshape (shape A) (shape B) of
        None \<Rightarrow> Inl ValueError
      | Some sh \<Rightarrow>
          Inr \<lparr>shape = sh,
               entry = (\<lambda>idx. g (entry A (bidx (shape A) idx)) (entry B (bidx (shape B) idx)))\<rparr>)"

text \<open>\<^verbatim>\<open>np.sum(A)\<close>: the sum of all entries, axis by axis.\<close>

fun sum_idx :: "nat list \<Rightarrow> (nat list \<Rightarrow> real) \<Rightarrow> real" where
  "sum_idx [] g = g []"
| "sum_idx (n # ns) g = (\<Sum>k\<leftarrow>[0..<n]. sum_idx ns (\<lambda>idx. g (k # idx)))"

definition np_sum :: "ndarray \<Rightarrow> real" where
  "np_sum A = sum_idx (shape A) (entry A)"

text \<open>\<^verbatim>\<open>for j in range(n): body\<close>, on a state, stopping at the first exception.\<close>

primrec for_range :: "nat \<Rightarrow> (nat \<Rightarrow> 's \<Rightarrow> error + 's) \<Rightarrow> 's \<Rightarrow> error + 's" where
  "for_range 0 body st = Inr st"
| "for_range (Suc n) body st =
     (case for_range n body st of Inl e \<Rightarrow> Inl e | Inr st' \<Rightarrow> body n st')"

text \<open>Sequencing of calls that can raise: the first exception ends the computation.\<close>

definition ebind :: "error + 'a \<Rightarrow> ('a \<Rightarrow> error + 'b) \<Rightarrow> error + 'b" where
  "ebind r k = (case r of Inl e \<Rightarrow> Inl e | Inr v \<Rightarrow> k v)"

text \<open>\<^verbatim>\<open>A[idx]\<close> with one integer per axis: an index outside the shape raises IndexError.\<close>

definition item :: "ndarray \<Rightarrow> nat list \<Rightarrow> error + real" where
  "item A idx = (if in_shape (shape A) idx then Inr (entry A idx) else Inl IndexError)"

text \<open>\<^verbatim>\<open>A[idx] = v\<close> with one integer per axis.\<close>

definition set_item :: "ndarray \<Rightarrow> nat list \<Rightarrow> real \<Rightarrow> error + ndarray" where
  "set_item A idx v =
     (if in_shape (shape A) idx then Inr (A\<lparr>entry := (entry A)(idx := v)\<rparr>) else Inl IndexError)"

text \<open>\<^verbatim>\<open>A[c, ...]\<close>.\<close>

definition subarray :: "ndarray \<Rightarrow> nat \<Rightarrow> error + ndarray" where
  "subarray A c =
     (case shape A of
        [] \<Rightarrow> Inl IndexError
      | n # sh \<Rightarrow>
          if c < n then Inr \<lparr>shape = sh, entry = (\<lambda>idx. entry A (c # idx))\<rparr>
          else Inl IndexError)"

text \<open>
  \<^verbatim>\<open>X[i, :, h_start:h_end, w_start:w_end]\<close> on an array of four axes. A slice never raises:
  its bounds are clipped to the axis, so a window that reaches past the border of \<open>X\<close> is
  smaller than asked for.
\<close>

definition window :: "ndarray \<Rightarrow> nat \<Rightarrow> nat \<Rightarrow> nat \<Rightarrow> nat \<Rightarrow> nat \<Rightarrow> error + ndarray" where
  "window X i h_start h_end w_start w_end =
     (case shape X of
        [m, C, H, W] \<Rightarrow>
          if i < m then
            Inr \<lparr>shape = [C, min h_end H - min h_start H, min w_end W - min w_start W],
                 entry = (\<lambda>idx. entry X [i, idx ! 0, min h_start H + idx ! 1,
                                           min w_start W + idx ! 2])\<rparr>
          else Inl IndexError
      | _ \<Rightarrow> Inl IndexError)"

text \<open>
  \<^verbatim>\<open>A[c, ...] += R\<close>: \<open>R\<close> must broadcast to the shape of \<^verbatim>\<open>A[c, ...]\<close>, else ValueError.
\<close>

definition iadd_sub :: "ndarray \<Rightarrow> nat \<Rightarrow> ndarray \<Rightarrow> error + ndarray" where
  "iadd_sub A c R =
     (case shape A of
        [] \<Rightarrow> Inl IndexError
      | n # sh \<Rightarrow>
          if c < n then
            if bshape sh (shape R) = Some sh then
              Inr (A\<lparr>entry := (\<lambda>idx.
                     case idx of
                       [] \<Rightarrow> entry A idx
                     | a # r \<Rightarrow>
                         if a = c \<and> in_shape sh r
                         then entry A idx + entry R (bidx (shape R) r)
                         else entry A idx)\<rparr>)
            else Inl ValueError
          else Inl IndexError)"

text \<open>
  \<^verbatim>\<open>A[i, :, h_start:h_end, w_start:w_end] += R\<close> on an array of four axes: \<open>R\<close> must
  broadcast to the shape of the (clipped) window.
\<close>

definition iadd_window ::
  "ndarray \<Rightarrow> nat \<Rightarrow> nat \<Rightarrow> nat \<Rightarrow> nat \<Rightarrow> nat \<Rightarrow> ndarray \<Rightarrow> error + ndarray" where
  "iadd_window A i h_start h_end w_start w_end R =
     (case shape A of
        [m, C, H, W] \<Rightarrow>
          if i < m then
            let h0 = min h_start H; h1 = min h_end H;
                w0 = min w_start W; w1 = min w_end W;
                sh = [C, h1 - h0, w1 - w0]
            in if bshape sh (shape R) = Some sh then
                 Inr (A\<lparr>entry := (\<lambda>idx.
                        case idx of
                          [i', k, y, x] \<Rightarrow>
                            if i' = i \<and> k < C \<and> h0 \<le> y \<and> y < h1 \<and> w0 \<le> x \<and> x < w1
                            then entry A idx + entry R (bidx (shape R) [k, y - h0, x - w0])
                            else entry A idx
                        | _ \<Rightarrow> entry A idx)\<rparr>)
               else Inl ValueError
          else Inl IndexError
      | _ \<Rightarrow> Inl IndexError)"

text \<open>\<^verbatim>\<open>A[:, c, ...]\<close>.\<close>

definition take_axis1 :: "ndarray \<Rightarrow> nat \<Rightarrow> error + ndarray" where
  "take_axis1 A c =
     (case shape A of
        n0 # n1 # sh \<Rightarrow>
          if c < n1 then
            Inr \<lparr>shape = n0 # sh,
                 entry = (\<lambda>idx. case idx of [] \<Rightarrow> 0 | a # r \<Rightarrow> entry A (a # c # r))\<rparr>
          else Inl IndexError
      | _ \<Rightarrow> Inl IndexError)"

text \<open>\<^verbatim>\<open>A[c, ...] = v\<close> for a number \<open>v\<close>.\<close>

definition fill_sub :: "ndarray \<Rightarrow> nat \<Rightarrow> real \<Rightarrow> error + ndarray" where
  "fill_sub A c v =
     (case shape A of
        [] \<Rightarrow> Inl IndexError
      | n # sh \<Rightarrow>
          if c < n then
            Inr (A\<lparr>entry := (\<lambda>idx.
                   case idx of
                     [] \<Rightarrow> entry A idx
                   | a # r \<Rightarrow> if a = c \<and> in_shape sh r then v else entry A idx)\<rparr>)
          else Inl IndexError)"

text \<open>
  \<^verbatim>\<open>np.rot90(A)\<close>, with numpy's default arguments \<^verbatim>\<open>k=1, axes=(0, 1)\<close>, is
  \<^verbatim>\<open>transpose(flip(A, 1), (1, 0, 2, ...))\<close>: the rotation is in the plane of the first two
  axes of \<open>A\<close>, whatever the number of axes. An array of fewer than two axes raises ValueError.
\<close>

definition np_flip1 :: "ndarray \<Rightarrow> ndarray" where
  "np_flip1 A =
     A\<lparr>entry := (\<lambda>idx. case idx of
                    a # b # r \<Rightarrow> entry A (a # (shape A ! 1 - 1 - b) # r)
                  | _ \<Rightarrow> entry A idx)\<rparr>"

definition np_swap01 :: "ndarray \<Rightarrow> ndarray" where
  "np_swap01 A =
     \<lparr>shape = (case shape A of n0 # n1 # sh \<Rightarrow> n1 # n0 # sh | sh \<Rightarrow> sh),
      entry = (\<lambda>idx. case idx of a # b # r \<Rightarrow> entry A (b # a # r) | _ \<Rightarrow> entry A idx)\<rparr>"

definition np_rot90 :: "ndarray \<Rightarrow> error + ndarray" where
  "np_rot90 A = (if length (shape A) < 2 then Inl ValueError else Inr (np_swap01 (np_flip1 A)))"

text \<open>
  \<^verbatim>\<open>int(a / b)\<close> for integers \<open>a\<close> and \<open>b \<noteq> 0\<close>: the quotient, rounded towards zero (Python's
  \<^verbatim>\<open>/\<close> is the true division, and \<^verbatim>\<open>int\<close> cuts the fraction off).
\<close>

definition int_truediv :: "int \<Rightarrow> int \<Rightarrow> int" where
  "int_truediv a b = sgn a * sgn b * (\<bar>a\<bar> div \<bar>b\<bar>)"

section \<open>Conv\<close>

record Conv =
  Conv_n_F :: nat
  Conv_f :: nat
  Conv_n_C :: nat
  Conv_s :: nat
  Conv_p :: nat
  Conv_W_val :: ndarray
  Conv_W_grad :: ndarray
  Conv_b_val :: ndarray
  Conv_b_grad :: ndarray
  Conv_cache :: "ndarray option"

text \<open>
  The constructor. \<open>randW\<close> and \<open>randb\<close> stand for the numbers \<^verbatim>\<open>np.random.randn\<close> draws
  for the weights and the biases.
\<close>

definition Conv_init ::
  "nat \<Rightarrow> nat \<Rightarrow> nat \<Rightarrow> nat \<Rightarrow> nat \<Rightarrow> (nat list \<Rightarrow> real) \<Rightarrow> (nat list \<Rightarrow> real) \<Rightarrow> Conv" where
  "Conv_init nb_filters filter_size nb_channels stride padding randW randb =
     \<lparr>Conv_n_F = nb_filters, Conv_f = filter_size, Conv_n_C = nb_channels,
      Conv_s = stride, Conv_p = padding,
      Conv_W_val = \<lparr>shape = [nb_filters, nb_channels, filter_size, filter_size], entry = randW\<rparr>,
      Conv_W_grad = \<lparr>shape = [nb_filters, nb_channels, filter_size, filter_size],
                     entry = (\<lambda>idx. 0)\<rparr>,
      Conv_b_val = \<lparr>shape = [nb_filters, 1], entry = randb\<rparr>,
      Conv_b_grad = \<lparr>shape = [nb_filters, 1], entry = (\<lambda>idx. 0)\<rparr>,
      Conv_cache = None\<rparr>"

text \<open>\<^verbatim>\<open>int((n_prev + 2 * p - f) / s) + 1\<close>; a stride of 0 raises ZeroDivisionError.\<close>

definition out_dim :: "nat \<Rightarrow> nat \<Rightarrow> nat \<Rightarrow> nat \<Rightarrow> error + int" where
  "out_dim n_prev p f s =
     (if s = 0 then Inl ZeroDivisionError
      else Inr (int_truediv (int n_prev + 2 * int p - int f) (int s) + 1))"

text \<open>The body of the four loops of \<open>Conv.forward\<close>: one entry of \<open>out\<close>.\<close>

definition Conv_forward_cell ::
  "Conv \<Rightarrow> ndarray \<Rightarrow> nat \<Rightarrow> nat \<Rightarrow> nat \<Rightarrow> nat \<Rightarrow> ndarray \<Rightarrow> error + ndarray" where
  "Conv_forward_cell L X i c h w out =
     (let h_start = h * Conv_s L; h_end = h_start + Conv_f L;
          w_start = w * Conv_s L; w_end = w_start + Conv_f L
      in ebind (window X i h_start h_end w_start w_end) (\<lambda>win.
         ebind (subarray (Conv_W_val L) c) (\<lambda>Wc.
         ebind (ew2 (*) win Wc) (\<lambda>prod.
         ebind (item (Conv_b_val L) [c, 0]) (\<lambda>bc.
         set_item out [i, c, h, w] (np_sum prod + bc))))))"

definition Conv_forward :: "Conv \<Rightarrow> ndarray \<Rightarrow> error + Conv \<times> ndarray" where
  "Conv_forward L X =
     (case shape X of
        [m, n_C_prev, n_H_prev, n_W_prev] \<Rightarrow>
          ebind (out_dim n_H_prev (Conv_p L) (Conv_f L) (Conv_s L)) (\<lambda>n_H.
          ebind (out_dim n_W_prev (Conv_p L) (Conv_f L) (Conv_s L)) (\<lambda>n_W.
          ebind (np_zeros [int m, int (Conv_n_F L), n_H, n_W]) (\<lambda>out0.
          ebind (for_range m (\<lambda>i.
                 for_range (Conv_n_F L) (\<lambda>c.
                 for_range (nat n_H) (\<lambda>h.
                 for_range (nat n_W) (\<lambda>w.
                   Conv_forward_cell L X i c h w)))) out0) (\<lambda>out.
          Inr (L\<lparr>Conv_cache := Some X\<rparr>, out)))))
      | _ \<Rightarrow> Inl ValueError)"

text \<open>
  The body of the four loops of \<open>Conv.backward\<close>, on the pair of the weight gradient and
  \<open>dX\<close>. Python reads the target of \<^verbatim>\<open>+=\<close> before it evaluates the right-hand side.
\<close>

definition Conv_backward_cell ::
  "Conv \<Rightarrow> ndarray \<Rightarrow> ndarray \<Rightarrow> ndarray \<Rightarrow> nat \<Rightarrow> nat \<Rightarrow> nat \<Rightarrow> nat \<Rightarrow>
     ndarray \<times> ndarray \<Rightarrow> error + ndarray \<times> ndarray" where
  "Conv_backward_cell L X dout W_rot i c h w st =
     (let h_start = h * Conv_s L; h_end = h_start + Conv_f L;
          w_start = w * Conv_s L; w_end = w_start + Conv_f L
      in ebind (subarray (fst st) c) (\<lambda>_.
         ebind (item dout [i, c, h, w]) (\<lambda>d.
         ebind (window X i h_start h_end w_start w_end) (\<lambda>win.
         ebind (iadd_sub (fst st) c (ew1 (\<lambda>t. d * t) win)) (\<lambda>W_grad.
         ebind (window (snd st) i h_start h_end w_start w_end) (\<lambda>_.
         ebind (item dout [i, c, h, w]) (\<lambda>d'.
         ebind (subarray W_rot c) (\<lambda>Wr.
         ebind (iadd_window (snd st) i h_start h_end w_start w_end (ew1 (\<lambda>t. d' * t) Wr)) (\<lambda>dX.
         Inr (W_grad, dX))))))))))"

text \<open>The loop \<^verbatim>\<open>for c in range(self.n_F): self.b['grad'][c, ...] = np.sum(dout[:, c, ...])\<close>.\<close>

definition Conv_backward_bias :: "ndarray \<Rightarrow> nat \<Rightarrow> ndarray \<Rightarrow> error + ndarray" where
  "Conv_backward_bias dout c b_grad =
     ebind (take_axis1 dout c) (\<lambda>D. fill_sub b_grad c (np_sum D))"

text \<open>
  \<open>Conv.backward\<close> returns \<^verbatim>\<open>dX, self.W['grad'], self.b['grad']\<close>; the model returns the layer
  as well. Before any forward call the cache is \<^verbatim>\<open>None\<close>, and \<^verbatim>\<open>X.shape\<close> raises
  AttributeError.
\<close>

definition Conv_backward :: "Conv \<Rightarrow> ndarray \<Rightarrow> error + Conv \<times> ndarray \<times> ndarray \<times> ndarray" where
  "Conv_backward L dout =
     (case Conv_cache L of
        None \<Rightarrow> Inl AttributeError
      | Some X \<Rightarrow>
         (case shape X of
            [m_X, n_C, n_H, n_W] \<Rightarrow>
              (case shape dout of
                 [m, n_C_dout, n_H_dout, n_W_dout] \<Rightarrow>
                   ebind (np_rot90 (Conv_W_val L)) (\<lambda>R1.
                   ebind (np_rot90 R1) (\<lambda>W_rot.
                   ebind (for_range m (\<lambda>i.
                          for_range n_C_dout (\<lambda>c.
                          for_range n_H_dout (\<lambda>h.
                          for_range n_W_dout (\<lambda>w.
                            Conv_backward_cell L X dout W_rot i c h w))))
                            (Conv_W_grad L, \<lparr>shape = shape X, entry = (\<lambda>idx. 0)\<rparr>)) (\<lambda>st.
                   ebind (for_range (Conv_n_F L) (Conv_backward_bias dout) (Conv_b_grad L)) (\<lambda>b_grad.
                   Inr (L\<lparr>Conv_W_grad := fst st, Conv_b_grad := b_grad\<rparr>,
                        snd st, fst st, b_grad)))))
               | _ \<Rightarrow> Inl ValueError)
          | _ \<Rightarrow> Inl ValueError))"

section \<open>TanH\<close>

record TanH =
  TanH_alpha :: real
  TanH_cache :: "ndarray option"

text \<open>\<^verbatim>\<open>TanH(alpha = 1.7159)\<close>: \<open>None\<close> stands for the omitted argument.\<close>

definition TanH_init :: "real option \<Rightarrow> TanH" where
  "TanH_init a = \<lparr>TanH_alpha = (case a of None \<Rightarrow> 1.7159 | Some v \<Rightarrow> v), TanH_cache = None\<rparr>"

definition TanH_forward :: "TanH \<Rightarrow> ndarray \<Rightarrow> TanH \<times> ndarray" where
  "TanH_forward L X =
     (L\<lparr>TanH_cache := Some X\<rparr>, ew1 (\<lambda>t. TanH_alpha L * t) (ew1 tanh X))"

text \<open>\<^verbatim>\<open>np.tanh(None)\<close>, before any forward call, raises TypeError.\<close>

definition TanH_backward :: "TanH \<Rightarrow> ndarray \<Rightarrow> error + ndarray" where
  "TanH_backward L new_deltaL =
     (case TanH_cache L of
        None \<Rightarrow> Inl TypeError
      | Some X \<Rightarrow> ew2 (*) new_deltaL (ew1 (\<lambda>t. 1 - t) (ew1 (\<lambda>t. t\<^sup>2) (ew1 tanh X))))"

section \<open>AvgPool\<close>

text \<open>
  \<^verbatim>\<open>np.mean(A)\<close> without an axis: the sum of all entries of \<open>A\<close>, over all its axes, divided
  by their number.
\<close>

definition np_mean :: "ndarray \<Rightarrow> real" where
  "np_mean A = np_sum A / real (prod_list (shape A))"

text \<open>
  \<^verbatim>\<open>np.full(sh, v)\<close>.
\<close>

definition np_full :: "nat list \<Rightarrow> real \<Rightarrow> ndarray" where
  "np_full sh v = \<lparr>shape = sh, entry = (\<lambda>idx. v)\<rparr>"

text \<open>
  \<^verbatim>\<open>A[i, :, h, w] = v\<close> for a number \<open>v\<close>, on an array of four axes: the entry of every
  channel at \<open>(i, h, w)\<close> becomes \<open>v\<close>.
\<close>

definition set_channels :: "ndarray \<Rightarrow> nat \<Rightarrow> nat \<Rightarrow> nat \<Rightarrow> real \<Rightarrow> error + ndarray" where
  "set_channels A i h w v =
     (case shape A of
        [m, C, H, W] \<Rightarrow>
          if i < m \<and> h < H \<and> w < W then
            Inr (A\<lparr>entry := (\<lambda>idx.
                   case idx of
                     [i', k, h', w'] \<Rightarrow>
                       if i' = i \<and> k < C \<and> h' = h \<and> w' = w then v else entry A idx
                   | _ \<Rightarrow> entry A idx)\<rparr>)
          else Inl IndexError
      | _ \<Rightarrow> Inl IndexError)"

text \<open>
  \<^verbatim>\<open>A[i, c, h_start:h_end, w_start:w_end] += R\<close> on an array of four axes: \<open>R\<close> must
  broadcast to the shape of the (clipped) window.
\<close>

definition iadd_window2 ::
  "ndarray \<Rightarrow> nat \<Rightarrow> nat \<Rightarrow> nat \<Rightarrow> nat \<Rightarrow> nat \<Rightarrow> nat \<Rightarrow> ndarray \<Rightarrow> error + ndarray" where
  "iadd_window2 A i c h_start h_end w_start w_end R =
     (case shape A of
        [m, C, H, W] \<Rightarrow>
          if i < m \<and> c < C then
            let h0 = min h_start H; h1 = min h_end H;
                w0 = min w_start W; w1 = min w_end W;
                sh = [h1 - h0, w1 - w0]
            in if bshape sh (shape R) = Some sh then
                 Inr (A\<lparr>entry := (\<lambda>idx.
                        case idx of
                          [i', k, y, x] \<Rightarrow>
                            if i' = i \<and> k = c \<and> h0 \<le> y \<and> y < h1 \<and> w0 \<le> x \<and> x < w1
                            then entry A idx + entry R (bidx (shape R) [y - h0, x - w0])
                            else entry A idx
                        | _ \<Rightarrow> entry A idx)\<rparr>)
               else Inl ValueError
          else Inl IndexError
      | _ \<Rightarrow> Inl IndexError)"

record AvgPool =
  AvgPool_f :: nat
  AvgPool_s :: nat
  AvgPool_cache :: "ndarray option"

definition AvgPool_init :: "nat \<Rightarrow> nat \<Rightarrow> AvgPool" where
  "AvgPool_init filter_size stride =
     \<lparr>AvgPool_f = filter_size, AvgPool_s = stride, AvgPool_cache = None\<rparr>"

text \<open>
  \<^verbatim>\<open>int((n_prev - f) / s) + 1\<close>.
\<close>

definition pool_dim :: "nat \<Rightarrow> nat \<Rightarrow> nat \<Rightarrow> error + int" where
  "pool_dim n_prev f s =
     (if s = 0 then Inl ZeroDivisionError
      else Inr (int_truediv (int n_prev - int f) (int s) + 1))"

text \<open>
  The body of the three loops of \<open>AvgPool.forward\<close>. There is no loop over the channels:
  the mean is taken of the window with all its channels, and stored at every channel.
\<close>

definition AvgPool_forward_cell ::
  "AvgPool \<Rightarrow> ndarray \<Rightarrow> nat \<Rightarrow> nat \<Rightarrow> nat \<Rightarrow> ndarray \<Rightarrow> error + ndarray" where
  "AvgPool_forward_cell L X i h w A_pool =
     (let h_start = h * AvgPool_s L; h_end = h_start + AvgPool_f L;
          w_start = w * AvgPool_s L; w_end = w_start + AvgPool_f L
      in ebind (window X i h_start h_end w_start w_end) (\<lambda>win.
         set_channels A_pool i h w (np_mean win)))"

text \<open>
  \<open>AvgPool.forward\<close> sets the cache last, after the loops.
\<close>

definition AvgPool_forward :: "AvgPool \<Rightarrow> ndarray \<Rightarrow> error + AvgPool \<times> ndarray" where
  "AvgPool_forward L X =
     (case shape X of
        [m, n_C_prev, n_H_prev, n_W_prev] \<Rightarrow>
          ebind (pool_dim n_H_prev (AvgPool_f L) (AvgPool_s L)) (\<lambda>n_H.
          ebind (pool_dim n_W_prev (AvgPool_f L) (AvgPool_s L)) (\<lambda>n_W.
          ebind (np_zeros [int m, int n_C_prev, n_H, n_W]) (\<lambda>A0.
          ebind (for_range m (\<lambda>i.
                 for_range (nat n_H) (\<lambda>h.
                 for_range (nat n_W) (\<lambda>w.
                   AvgPool_forward_cell L X i h w))) A0) (\<lambda>A_pool.
          Inr (L\<lparr>AvgPool_cache := Some X\<rparr>, A_pool)))))
      | _ \<Rightarrow> Inl ValueError)"

text \<open>
  The body of the four loops of \<open>AvgPool.backward\<close>, on \<open>dX\<close>. Before any forward call the
  cache is \<^verbatim>\<open>None\<close> and \<^verbatim>\<open>np.copy(None)\<close> is an array without axes that holds \<^verbatim>\<open>None\<close>, here
  \<open>None\<close>: indexing it raises IndexError.
\<close>

definition AvgPool_backward_cell ::
  "AvgPool \<Rightarrow> ndarray \<Rightarrow> nat \<Rightarrow> nat \<Rightarrow> nat \<Rightarrow> nat \<Rightarrow> nat \<Rightarrow> nat \<Rightarrow>
     ndarray option \<Rightarrow> error + ndarray option" where
  "AvgPool_backward_cell L dout n_H n_W i c h w dX =
     (let h_start = h * AvgPool_s L; h_end = h_start + AvgPool_f L;
          w_start = w * AvgPool_s L; w_end = w_start + AvgPool_f L
      in ebind (item dout [i, c, h, w]) (\<lambda>d.
         let average = d / real (n_H * n_W);
             filter_average = np_full [AvgPool_f L, AvgPool_f L] average
         in case dX of
              None \<Rightarrow> Inl IndexError
            | Some A \<Rightarrow>
                ebind (iadd_window2 A i c h_start h_end w_start w_end filter_average) (\<lambda>A'.
                Inr (Some A'))))"

text \<open>
  \<open>AvgPool.backward\<close> starts from \<^verbatim>\<open>dX = np.copy(X)\<close>, the cached input, and returns \<open>dX\<close>.
\<close>

definition AvgPool_backward :: "AvgPool \<Rightarrow> ndarray \<Rightarrow> error + ndarray option" where
  "AvgPool_backward L dout =
     (case shape dout of
        [m, n_C, n_H, n_W] \<Rightarrow>
          for_range m (\<lambda>i.
          for_range n_C (\<lambda>c.
          for_range n_H (\<lambda>h.
          for_range n_W (\<lambda>w.
            AvgPool_backward_cell L dout n_H n_W i c h w)))) (AvgPool_cache L)
      | _ \<Rightarrow> Inl ValueError)"

section \<open>Fc\<close>

text \<open>
  \<^verbatim>\<open>np.dot(A, B)\<close>: the product of the entries when one argument has no axis; otherwise the
  sum of products over the last axis of \<open>A\<close> and the last axis but one of \<open>B\<close> (its only axis
  when \<open>B\<close> has one axis). For two matrices this is the matrix product. The two axes summed
  over must have the same length, else ValueError.
\<close>

definition np_dot :: "ndarray \<Rightarrow> ndarray \<Rightarrow> error + ndarray" where
  "np_dot A B =
     (if shape A = [] \<or> shape B = [] then ew2 (*) A B
      else if length (shape B) = 1 then
        if last (shape A) = hd (shape B) then
          Inr \<lparr>shape = butlast (shape A),
               entry = (\<lambda>idx. \<Sum>k\<leftarrow>[0..<last (shape A)]. entry A (idx @ [k]) * entry B [k])\<rparr>
        else Inl ValueError
      else
        if last (shape A) = shape B ! (length (shape B) - 2) then
          Inr \<lparr>shape = butlast (shape A) @ butlast (butlast (shape B)) @ [last (shape B)],
               entry = (\<lambda>idx.
                  let ia = take (length (shape A) - 1) idx;
                      ib = drop (length (shape A) - 1) idx
                  in \<Sum>k\<leftarrow>[0..<last (shape A)].
                       entry A (ia @ [k]) * entry B (butlast ib @ [k, last ib]))\<rparr>
        else Inl ValueError)"

text \<open>
  \<^verbatim>\<open>A.T\<close>: the axes of \<open>A\<close> in the reverse order.
\<close>

definition np_T :: "ndarray \<Rightarrow> ndarray" where
  "np_T A = \<lparr>shape = rev (shape A), entry = (\<lambda>idx. entry A (rev idx))\<rparr>"

text \<open>
  \<^verbatim>\<open>np.sum(A, axis = 0)\<close>: the sum along the first axis; an array without axes raises
  numpy's AxisError, which is a ValueError.
\<close>

definition np_sum_axis0 :: "ndarray \<Rightarrow> error + ndarray" where
  "np_sum_axis0 A =
     (case shape A of
        [] \<Rightarrow> Inl ValueError
      | n # sh \<Rightarrow> Inr \<lparr>shape = sh, entry = (\<lambda>idx. \<Sum>k\<leftarrow>[0..<n]. entry A (k # idx))\<rparr>)"

record Fc =
  Fc_row :: nat
  Fc_col :: nat
  Fc_W_val :: ndarray
  Fc_W_grad :: ndarray
  Fc_b_val :: ndarray
  Fc_b_grad :: ndarray
  Fc_cache :: "ndarray option"

text \<open>
  The constructor. Both gradients start as the number 0, modelled as an array without
  axes; \<open>randW\<close> and \<open>randb\<close> stand for the numbers \<^verbatim>\<open>np.random.randn\<close> draws.
\<close>

definition Fc_init :: "nat \<Rightarrow> nat \<Rightarrow> (nat list \<Rightarrow> real) \<Rightarrow> (nat list \<Rightarrow> real) \<Rightarrow> Fc" where
  "Fc_init row column randW randb =
     \<lparr>Fc_row = row, Fc_col = column,
      Fc_W_val = \<lparr>shape = [row, column], entry = randW\<rparr>,
      Fc_W_grad = \<lparr>shape = [], entry = (\<lambda>idx. 0)\<rparr>,
      Fc_b_val = \<lparr>shape = [row, 1], entry = randb\<rparr>,
      Fc_b_grad = \<lparr>shape = [], entry = (\<lambda>idx. 0)\<rparr>,
      Fc_cache = None\<rparr>"

definition Fc_forward :: "Fc \<Rightarrow> ndarray \<Rightarrow> error + Fc \<times> ndarray" where
  "Fc_forward L fc =
     ebind (np_dot (Fc_W_val L) fc) (\<lambda>D.
     ebind (ew2 (+) D (Fc_b_val L)) (\<lambda>A_fc.
     Inr (L\<lparr>Fc_cache := Some fc\<rparr>, A_fc)))"

text \<open>
  \<open>Fc.backward\<close>. Before any forward call the cache is \<^verbatim>\<open>None\<close> and \<^verbatim>\<open>fc.shape\<close> raises
  AttributeError; \<^verbatim>\<open>1/m\<close> raises ZeroDivisionError when the first axis of the cache is empty.
\<close>

definition Fc_backward :: "Fc \<Rightarrow> ndarray \<Rightarrow> error + Fc \<times> ndarray \<times> ndarray \<times> ndarray" where
  "Fc_backward L deltaL =
     (case Fc_cache L of
        None \<Rightarrow> Inl AttributeError
      | Some fc \<Rightarrow>
         (case shape fc of
            [] \<Rightarrow> Inl IndexError
          | m # _ \<Rightarrow>
              if m = 0 then Inl ZeroDivisionError
              else
                ebind (np_dot deltaL (np_T fc)) (\<lambda>D.
                let W_grad = ew1 (\<lambda>t. (1 / real m) * t) D in
                ebind (np_sum_axis0 deltaL) (\<lambda>S.
                let b_grad = ew1 (\<lambda>t. (1 / real m) * t) S in
                ebind (np_dot (np_T (Fc_W_val L)) deltaL) (\<lambda>new_deltaL.
                Inr (L\<lparr>Fc_W_grad := W_grad, Fc_b_grad := b_grad\<rparr>,
                     new_deltaL, W_grad, b_grad))))))"

section \<open>AdamGD\<close>

text \<open>
  A parameter or gradient collection is a Python dict from names to arrays. The optimizer
  keeps a reference to the dict it is given and assigns to its keys, so the dicts live in a
  store: a reference is a number, and the store gives the dict at each reference.
\<close>

type_synonym pdict = "string \<Rightarrow> ndarray option"

type_synonym heap = "nat \<Rightarrow> pdict"

text \<open>
  \<^verbatim>\<open>d[k]\<close> raises KeyError when the key is absent.
\<close>

definition lookup :: "pdict \<Rightarrow> string \<Rightarrow> error + ndarray" where
  "lookup d k = (case d k of None \<Rightarrow> Inl KeyError | Some v \<Rightarrow> Inr v)"

text \<open>
  \<^verbatim>\<open>np.zeros(A.shape)\<close>: the lengths of the axes of an array are never negative.
\<close>

definition zeros :: "nat list \<Rightarrow> ndarray" where
  "zeros sh = \<lparr>shape = sh, entry = (\<lambda>idx. 0)\<rparr>"

text \<open>
  The fields of an \<open>AdamGD\<close> object: the four numbers, the reference to the parameter dict, and
  the first (\<open>vd\<close>) and second (\<open>sd\<close>) moment of each of the ten parameters.
\<close>

record AdamGD =
  Adam_lr :: real
  Adam_beta1 :: real
  Adam_beta2 :: real
  Adam_epsilon :: real
  Adam_params :: nat
  Adam_vdW1 :: ndarray
  Adam_vdW2 :: ndarray
  Adam_vdW3 :: ndarray
  Adam_vdW4 :: ndarray
  Adam_vdW5 :: ndarray
  Adam_vdb1 :: ndarray
  Adam_vdb2 :: ndarray
  Adam_vdb3 :: ndarray
  Adam_vdb4 :: ndarray
  Adam_vdb5 :: ndarray
  Adam_sdW1 :: ndarray
  Adam_sdW2 :: ndarray
  Adam_sdW3 :: ndarray
  Adam_sdW4 :: ndarray
  Adam_sdW5 :: ndarray
  Adam_sdb1 :: ndarray
  Adam_sdb2 :: ndarray
  Adam_sdb3 :: ndarray
  Adam_sdb4 :: ndarray
  Adam_sdb5 :: ndarray

text \<open>
  The constructor stores the reference it is given and reads the shapes of the ten parameters,
  in the order \<open>W1, b1, W2, b2, ...\<close>.
\<close>

definition AdamGD_init :: "real \<Rightarrow> real \<Rightarrow> real \<Rightarrow> real \<Rightarrow> nat \<Rightarrow> heap \<Rightarrow> error + AdamGD" where
  "AdamGD_init lr beta1 beta2 epsilon params h =
     ebind (lookup (h params) ''W1'') (\<lambda>W1.
     ebind (lookup (h params) ''b1'') (\<lambda>b1.
     ebind (lookup (h params) ''W2'') (\<lambda>W2.
     ebind (lookup (h params) ''b2'') (\<lambda>b2.
     ebind (lookup (h params) ''W3'') (\<lambda>W3.
     ebind (lookup (h params) ''b3'') (\<lambda>b3.
     ebind (lookup (h params) ''W4'') (\<lambda>W4.
     ebind (lookup (h params) ''b4'') (\<lambda>b4.
     ebind (lookup (h params) ''W5'') (\<lambda>W5.
     ebind (lookup (h params) ''b5'') (\<lambda>b5.
     Inr \<lparr>Adam_lr = lr, Adam_beta1 = beta1, Adam_beta2 = beta2, Adam_epsilon = epsilon,
          Adam_params = params,
          Adam_vdW1 = zeros (shape W1),
          Adam_vdW2 = zeros (shape W2),
          Adam_vdW3 = zeros (shape W3),
          Adam_vdW4 = zeros (shape W4),
          Adam_vdW5 = zeros (shape W5),
          Adam_vdb1 = zeros (shape b1),
          Adam_vdb2 = zeros (shape b2),
          Adam_vdb3 = zeros (shape b3),
          Adam_vdb4 = zeros (shape b4),
          Adam_vdb5 = zeros (shape b5),
          Adam_sdW1 = zeros (shape W1),
          Adam_sdW2 = zeros (shape W2),
          Adam_sdW3 = zeros (shape W3),
          Adam_sdW4 = zeros (shape W4),
          Adam_sdW5 = zeros (shape W5),
          Adam_sdb1 = zeros (shape b1),
          Adam_sdb2 = zeros (shape b2),
          Adam_sdb3 = zeros (shape b3),
          Adam_sdb4 = zeros (shape b4),
          Adam_sdb5 = zeros (shape b5)\<rparr>))))))))))"

text \<open>
  The three right-hand sides of \<open>update_params\<close>, as numpy evaluates them: a number times an
  array is taken entry by entry, and two arrays are broadcast against each other.
  \<^verbatim>\<open>beta1 * v + (1 - beta1) * g\<close>, \<^verbatim>\<open>beta2 * s + (1 - beta2) * g**2\<close> and
  \<^verbatim>\<open>p - lr * v / (np.sqrt(s) + epsilon)\<close>.
\<close>

definition momentum :: "real \<Rightarrow> ndarray \<Rightarrow> ndarray \<Rightarrow> error + ndarray" where
  "momentum beta v g = ew2 (+) (ew1 (\<lambda>t. beta * t) v) (ew1 (\<lambda>t. (1 - beta) * t) g)"

definition rmsprop :: "real \<Rightarrow> ndarray \<Rightarrow> ndarray \<Rightarrow> error + ndarray" where
  "rmsprop beta s g =
     ew2 (+) (ew1 (\<lambda>t. beta * t) s) (ew1 (\<lambda>t. (1 - beta) * t) (ew1 (\<lambda>t. t\<^sup>2) g))"

definition descent :: "real \<Rightarrow> real \<Rightarrow> ndarray \<Rightarrow> ndarray \<Rightarrow> ndarray \<Rightarrow> error + ndarray" where
  "descent lr epsilon p v s =
     ebind (ew2 (/) (ew1 (\<lambda>t. lr * t) v) (ew1 (\<lambda>t. t + epsilon) (ew1 sqrt s))) (\<lambda>q.
     ew2 (-) p q)"

text \<open>
  The three kinds of statement of \<open>update_params\<close>: an assignment to a first moment, to a second
  moment, and to a key of the parameter dict (which changes the dict in the store).
\<close>

definition momentum_stmt ::
  "(AdamGD \<Rightarrow> ndarray) \<Rightarrow> ((ndarray \<Rightarrow> ndarray) \<Rightarrow> AdamGD \<Rightarrow> AdamGD) \<Rightarrow> string \<Rightarrow>
     pdict \<Rightarrow> AdamGD \<Rightarrow> error + AdamGD" where
  "momentum_stmt get upd key grads self =
     ebind (lookup grads key) (\<lambda>g.
     ebind (momentum (Adam_beta1 self) (get self) g) (\<lambda>v.
     Inr (upd (\<lambda>_. v) self)))"

definition rmsprop_stmt ::
  "(AdamGD \<Rightarrow> ndarray) \<Rightarrow> ((ndarray \<Rightarrow> ndarray) \<Rightarrow> AdamGD \<Rightarrow> AdamGD) \<Rightarrow> string \<Rightarrow>
     pdict \<Rightarrow> AdamGD \<Rightarrow> error + AdamGD" where
  "rmsprop_stmt get upd key grads self =
     ebind (lookup grads key) (\<lambda>g.
     ebind (rmsprop (Adam_beta2 self) (get self) g) (\<lambda>s.
     Inr (upd (\<lambda>_. s) self)))"

definition param_stmt ::
  "(AdamGD \<Rightarrow> ndarray) \<Rightarrow> (AdamGD \<Rightarrow> ndarray) \<Rightarrow> string \<Rightarrow> AdamGD \<Rightarrow> heap \<Rightarrow> error + heap" where
  "param_stmt vd sd key self h =
     ebind (lookup (h (Adam_params self)) key) (\<lambda>p.
     ebind (descent (Adam_lr self) (Adam_epsilon self) p (vd self) (sd self)) (\<lambda>p'.
     Inr (h(Adam_params self := (h (Adam_params self))(key \<mapsto> p')))))"

text \<open>
  \<open>AdamGD.update_params\<close>: the thirty assignments in the order of the source; it returns
  \<^verbatim>\<open>self.params\<close>, the reference. The result is the new object, the reference returned and the
  new store.
\<close>

definition update_params :: "AdamGD \<Rightarrow> pdict \<Rightarrow> heap \<Rightarrow> error + AdamGD \<times> nat \<times> heap" where
  "update_params self grads h =
     ebind (momentum_stmt Adam_vdW1 Adam_vdW1_update ''dW1'' grads self) (\<lambda>self.
     ebind (momentum_stmt Adam_vdW2 Adam_vdW2_update ''dW2'' grads self) (\<lambda>self.
     ebind (momentum_stmt Adam_vdW3 Adam_vdW3_update ''dW3'' grads self) (\<lambda>self.
     ebind (momentum_stmt Adam_vdW4 Adam_vdW4_update ''dW4'' grads self) (\<lambda>self.
     ebind (momentum_stmt Adam_vdW5 Adam_vdW5_update ''dW5'' grads self) (\<lambda>self.
     ebind (momentum_stmt Adam_vdb1 Adam_vdb1_update ''db1'' grads self) (\<lambda>self.
     ebind (momentum_stmt Adam_vdb2 Adam_vdb2_update ''db2'' grads self) (\<lambda>self.
     ebind (momentum_stmt Adam_vdb3 Adam_vdb3_update ''db3'' grads self) (\<lambda>self.
     ebind (momentum_stmt Adam_vdb4 Adam_vdb4_update ''db4'' grads self) (\<lambda>self.
     ebind (momentum_stmt Adam_vdb5 Adam_vdb5_update ''db5'' grads self) (\<lambda>self.
     ebind (rmsprop_stmt Adam_sdW1 Adam_sdW1_update ''dW1'' grads self) (\<lambda>self.
     ebind (rmsprop_stmt Adam_sdW2 Adam_sdW2_update ''dW2'' grads self) (\<lambda>self.
     ebind (rmsprop_stmt Adam_sdW3 Adam_sdW3_update ''dW3'' grads self) (\<lambda>self.
     ebind (rmsprop_stmt Adam_sdW4 Adam_sdW4_update ''dW4'' grads self) (\<lambda>self.
     ebind (rmsprop_stmt Adam_sdW5 Adam_sdW5_update ''dW5'' grads self) (\<lambda>self.
     ebind (rmsprop_stmt Adam_sdb1 Adam_sdb1_update ''db1'' grads self) (\<lambda>self.
     ebind (rmsprop_stmt Adam_sdb2 Adam_sdb2_update ''db2'' grads self) (\<lambda>self.
     ebind (rmsprop_stmt Adam_sdb3 Adam_sdb3_update ''db3'' grads self) (\<lambda>self.
     ebind (rmsprop_stmt Adam_sdb4 Adam_sdb4_update ''db4'' grads self) (\<lambda>self.
     ebind (rmsprop_stmt Adam_sdb5 Adam_sdb5_update ''db5'' grads self) (\<lambda>self.
     ebind (param_stmt Adam_vdW1 Adam_sdW1 ''W1'' self h) (\<lambda>h.
     ebind (param_stmt Adam_vdW2 Adam_sdW2 ''W2'' self h) (\<lambda>h.
     ebind (param_stmt Adam_vdW3 Adam_sdW3 ''W3'' self h) (\<lambda>h.
     ebind (param_stmt Adam_vdW4 Adam_sdW4 ''W4'' self h) (\<lambda>h.
     ebind (param_stmt Adam_vdW5 Adam_sdW5 ''W5'' self h) (\<lambda>h.
     ebind (param_stmt Adam_vdb1 Adam_sdb1 ''b1'' self h) (\<lambda>h.
     ebind (param_stmt Adam_vdb2 Adam_sdb2 ''b2'' self h) (\<lambda>h.
     ebind (param_stmt Adam_vdb3 Adam_sdb3 ''b3'' self h) (\<lambda>h.
     ebind (param_stmt Adam_vdb4 Adam_sdb4 ''b4'' self h) (\<lambda>h.
     ebind (param_stmt Adam_vdb5 Adam_sdb5 ''b5'' self h) (\<lambda>h.
     Inr (self, Adam_params self, h)))))))))))))))))))))))))))))))"

section \<open>Notions used in the statements and proofs\<close>

text \<open>
  \<open>ovw A P V\<close> is \<open>A\<close> with the entries at the indices in \<open>P\<close> overwritten by \<open>V\<close>, and
  \<open>acc A D\<close> is \<open>A\<close> with \<open>D\<close> added entry by entry: the two shapes an array takes after a
  loop of assignments, and after a loop of \<^verbatim>\<open>+=\<close>.
\<close>

definition ovw :: "ndarray \<Rightarrow> (nat list \<Rightarrow> bool) \<Rightarrow> (nat list \<Rightarrow> real) \<Rightarrow> ndarray" where
  "ovw A P V = A\<lparr>entry := (\<lambda>idx. if P idx then V idx else entry A idx)\<rparr>"

definition acc :: "ndarray \<Rightarrow> (nat list \<Rightarrow> real) \<Rightarrow> ndarray" where
  "acc A D = A\<lparr>entry := (\<lambda>idx. entry A idx + D idx)\<rparr>"

text \<open>The shapes the constructor of \<open>Conv\<close> gives the parameters and their gradients.\<close>

definition Conv_wf :: "Conv \<Rightarrow> bool" where
  "Conv_wf L =
     (shape (Conv_W_val L) = [Conv_n_F L, Conv_n_C L, Conv_f L, Conv_f L]
      \<and> shape (Conv_W_grad L) = [Conv_n_F L, Conv_n_C L, Conv_f L, Conv_f L]
      \<and> shape (Conv_b_val L) = [Conv_n_F L, 1]
      \<and> shape (Conv_b_grad L) = [Conv_n_F L, 1])"

text \<open>\<^verbatim>\<open>np.array(xs)\<close> for a nested list of four levels, and the layers of the examples.\<close>

definition array4 :: "real list list list list \<Rightarrow> ndarray" where
  "array4 xs =
     \<lparr>shape = [length xs, length (xs ! 0), length (xs ! 0 ! 0), length (xs ! 0 ! 0 ! 0)],
      entry = (\<lambda>idx. xs ! (idx ! 0) ! (idx ! 1) ! (idx ! 2) ! (idx ! 3))\<rparr>"

definition ex_X33 :: ndarray where
  "ex_X33 = array4 [[[[1, 2, 3], [4, 5, 6], [7, 8, 9]]]]"

definition ex_conv_pad :: Conv where
  "ex_conv_pad = Conv_init 1 3 1 1 1 (\<lambda>idx. 1) (\<lambda>idx. 0)"

definition ex_conv_big :: Conv where
  "ex_conv_big = Conv_init 1 2 1 2 0 (\<lambda>idx. 1) (\<lambda>idx. 0)"

definition ex_conv :: Conv where
  "ex_conv = Conv_init 1 2 1 1 0 (entry (array4 [[[[1, 0], [0, 1]]]])) (\<lambda>idx. 10)"

text \<open>
  The array \<^verbatim>\<open>np.rot90(np.rot90(A))\<close> computes: \<open>A\<close> reversed along its first two axes.
\<close>

definition flip01 :: "ndarray \<Rightarrow> ndarray" where
  "flip01 A =
     A\<lparr>entry := (\<lambda>idx. case idx of
                    a # b # r \<Rightarrow> entry A ((shape A ! 0 - 1 - a) # (shape A ! 1 - 1 - b) # r)
                  | _ \<Rightarrow> entry A idx)\<rparr>"

text \<open>
  What the iteration \<open>(i, c, h, w)\<close> of \<open>Conv.backward\<close> adds to the weight gradient at the
  index \<open>idx\<close>, and what it adds to \<open>dX\<close>, when the window lies inside \<open>X\<close>.
\<close>

definition dW_term ::
  "ndarray \<Rightarrow> ndarray \<Rightarrow> nat \<Rightarrow> nat \<Rightarrow> nat \<Rightarrow> nat \<Rightarrow> nat \<Rightarrow> nat \<Rightarrow> nat \<Rightarrow> nat list \<Rightarrow> real" where
  "dW_term X dout s f C i c h w idx =
     (case idx of
        [] \<Rightarrow> 0
      | a # r \<Rightarrow>
          if a = c \<and> in_shape [C, f, f] r
          then entry dout [i, c, h, w] * entry X [i, r ! 0, h * s + r ! 1, w * s + r ! 2]
          else 0)"

definition dX_term ::
  "ndarray \<Rightarrow> ndarray \<Rightarrow> nat \<Rightarrow> nat \<Rightarrow> nat \<Rightarrow> nat \<Rightarrow> nat \<Rightarrow> nat \<Rightarrow> nat \<Rightarrow> nat list \<Rightarrow> real" where
  "dX_term W_rot dout s f C i c h w idx =
     (case idx of
        [i', k, y, x] \<Rightarrow>
          if i' = i \<and> k < C \<and> h * s \<le> y \<and> y < h * s + f \<and> w * s \<le> x \<and> x < w * s + f
          then entry dout [i, c, h, w] * entry W_rot [c, k, y - h * s, x - w * s]
          else 0
      | _ \<Rightarrow> 0)"

text \<open>
  The layer \<open>ex_conv\<close> after \<open>forward\<close> on \<open>ex_X33\<close>, and a layer of two filters after
  \<open>forward\<close> on an input of shape \<open>[1, 1, 2, 2]\<close>.
\<close>

definition ex_conv_fwd :: Conv where
  "ex_conv_fwd = ex_conv\<lparr>Conv_cache := Some ex_X33\<rparr>"

definition ex_conv2 :: Conv where
  "ex_conv2 =
     (Conv_init 2 2 1 1 0 (entry (array4 [[[[1, 2], [3, 4]]], [[[5, 6], [7, 8]]]])) (\<lambda>idx. 0))
       \<lparr>Conv_cache := Some (array4 [[[[1, 1], [1, 1]]]])\<rparr>"

text \<open>
  An input of two channels, all 1 in the first and all 3 in the second.
\<close>

definition ex_X1222 :: ndarray where
  "ex_X1222 = array4 [[[[1, 1], [1, 1]], [[3, 3], [3, 3]]]]"

text \<open>
  What the iteration \<open>(i, c, h, w)\<close> of \<open>AvgPool.backward\<close> adds to \<open>dX\<close> at the index \<open>idx\<close>,
  when the window lies inside \<open>X\<close>.
\<close>

definition pool_term ::
  "ndarray \<Rightarrow> nat \<Rightarrow> nat \<Rightarrow> nat \<Rightarrow> nat \<Rightarrow> nat \<Rightarrow> nat \<Rightarrow> nat \<Rightarrow> nat \<Rightarrow> nat list \<Rightarrow> real" where
  "pool_term dout s f n_H n_W i c h w idx =
     (case idx of
        [i', k, y, x] \<Rightarrow>
          if i' = i \<and> k = c \<and> h * s \<le> y \<and> y < h * s + f \<and> w * s \<le> x \<and> x < w * s + f
          then entry dout [i, c, h, w] / real (n_H * n_W)
          else 0
      | _ \<Rightarrow> 0)"

text \<open>
  A pooling layer with a 2 by 2 window and stride 1, after \<open>forward\<close> on an input of 3 rows and
  4 columns: its output has 2 rows and 3 columns.
\<close>

definition ex_X34 :: ndarray where
  "ex_X34 = array4 [[[[1, 2, 3, 4], [5, 6, 7, 8], [9, 10, 11, 12]]]]"

definition ex_pool34 :: AvgPool where
  "ex_pool34 = (AvgPool_init 2 1)\<lparr>AvgPool_cache := Some ex_X34\<rparr>"

text \<open>
  \<^verbatim>\<open>np.array(xs)\<close> for a list of rows, and a layer of the examples: one row, two columns,
  after \<open>forward\<close> on an input of shape \<open>[2, 3]\<close>.
\<close>

definition array2 :: "real list list \<Rightarrow> ndarray" where
  "array2 xs = \<lparr>shape = [length xs, length (xs ! 0)], entry = (\<lambda>idx. xs ! (idx ! 0) ! (idx ! 1))\<rparr>"

definition ex_fc :: Fc where
  "ex_fc = (Fc_init 1 2 (entry (array2 [[2, 3]])) (\<lambda>idx. 0))
             \<lparr>Fc_cache := Some (array2 [[1, 2, 3], [4, 5, 6]])\<rparr>"

text \<open>
  A layer of two rows and two columns with the identity for its weights, after \<open>forward\<close> on
  an input of shape \<open>[2, 3]\<close>: two input features, three samples.
\<close>

definition ex_fc2 :: Fc where
  "ex_fc2 = (Fc_init 2 2 (entry (array2 [[1, 0], [0, 1]])) (\<lambda>idx. 0))
              \<lparr>Fc_cache := Some (array2 [[1, 2, 3], [4, 5, 6]])\<rparr>"

text \<open>
  The states of a \<open>Conv\<close> layer in its lifetime: the state the constructor gives, and the
  state after every call of \<open>forward\<close> or \<open>backward\<close> that returns, on any argument. (A call
  that raises ends the run: its exception goes to the caller.)
\<close>

inductive Conv_reachable :: "Conv \<Rightarrow> bool" where
  init: "Conv_reachable (Conv_init nb_filters filter_size nb_channels stride padding randW randb)"
| forward: "Conv_reachable L \<Longrightarrow> Conv_forward L X = Inr (L', out) \<Longrightarrow> Conv_reachable L'"
| backward: "Conv_reachable L \<Longrightarrow> Conv_backward L dout = Inr (L', dX, gW, gb) \<Longrightarrow> Conv_reachable L'"

text \<open>
  The layer \<open>ex_conv\<close> after \<open>forward\<close> on \<open>ex_X33\<close> and \<open>backward\<close> on a \<open>dout\<close> of ones.
\<close>

definition ex_conv_bwd :: Conv where
  "ex_conv_bwd = fst (projr (Conv_backward ex_conv_fwd (array4 [[[[1, 1], [1, 1]]]])))"

text \<open>
  The ten parameter names, and the first and second moment the optimizer keeps for a name.
\<close>

definition tracked :: "string list" where
  "tracked = [''W1'', ''W2'', ''W3'', ''W4'', ''W5'', ''b1'', ''b2'', ''b3'', ''b4'', ''b5'']"

definition first_moment :: "AdamGD \<Rightarrow> string \<Rightarrow> ndarray" where
  "first_moment A k =
     (if k = ''W1'' then Adam_vdW1 A else
     (if k = ''W2'' then Adam_vdW2 A else
     (if k = ''W3'' then Adam_vdW3 A else
     (if k = ''W4'' then Adam_vdW4 A else
     (if k = ''W5'' then Adam_vdW5 A else
     (if k = ''b1'' then Adam_vdb1 A else
     (if k = ''b2'' then Adam_vdb2 A else
     (if k = ''b3'' then Adam_vdb3 A else
     (if k = ''b4'' then Adam_vdb4 A else
      Adam_vdb5 A)))))))))"

definition second_moment :: "AdamGD \<Rightarrow> string \<Rightarrow> ndarray" where
  "second_moment A k =
     (if k = ''W1'' then Adam_sdW1 A else
     (if k = ''W2'' then Adam_sdW2 A else
     (if k = ''W3'' then Adam_sdW3 A else
     (if k = ''W4'' then Adam_sdW4 A else
     (if k = ''W5'' then Adam_sdW5 A else
     (if k = ''b1'' then Adam_sdb1 A else
     (if k = ''b2'' then Adam_sdb2 A else
     (if k = ''b3'' then Adam_sdb3 A else
     (if k = ''b4'' then Adam_sdb4 A else
      Adam_sdb5 A)))))))))"

text \<open>
  The arrays the three right-hand sides give when they do not raise.
\<close>

definition mom :: "real \<Rightarrow> ndarray \<Rightarrow> ndarray \<Rightarrow> ndarray" where
  "mom beta v g = projr (momentum beta v g)"

definition rms :: "real \<Rightarrow> ndarray \<Rightarrow> ndarray \<Rightarrow> ndarray" where
  "rms beta s g = projr (rmsprop beta s g)"

definition desc :: "real \<Rightarrow> real \<Rightarrow> ndarray \<Rightarrow> ndarray \<Rightarrow> ndarray \<Rightarrow> ndarray" where
  "desc lr epsilon p v s = projr (descent lr epsilon p v s)"

text \<open>
  The entry of \<open>A\<close> that numpy reads at the index \<open>idx\<close> of a result \<open>A\<close> is broadcast to: the entry
  at \<open>idx\<close> itself when \<open>idx\<close> is an index of \<open>A\<close>.
\<close>

definition bcast :: "ndarray \<Rightarrow> nat list \<Rightarrow> real" where
  "bcast A idx = entry A (bidx (shape A) idx)"

text \<open>
  An example: five weights of shape \<open>[2]\<close> and value 1, five biases of shape \<open>[2, 1]\<close> with the
  entries 0 and 1; gradients of value 2 and shape \<open>[2]\<close> for the weights, and for the biases
  gradients \<open>[4, 4, 2]\<close> of shape \<open>[3]\<close>, the shape \<open>Fc.backward\<close> gives a bias gradient on three
  samples; the same gradients with one of shape \<open>[3]\<close> for \<open>W1\<close>; and the optimizer constructed
  with \<open>lr = 1\<close>, \<open>beta1 = 1/2\<close>, \<open>beta2 = 3/4\<close> and \<open>epsilon = 1\<close> on a store that has the parameters
  at every reference.
\<close>

definition ex_params :: pdict where
  "ex_params k =
     (if k \<in> set [''W1'', ''W2'', ''W3'', ''W4'', ''W5'']
      then Some \<lparr>shape = [2], entry = (\<lambda>idx. 1)\<rparr>
      else if k \<in> set [''b1'', ''b2'', ''b3'', ''b4'', ''b5'']
      then Some (array2 [[0], [1]])
      else None)"

definition ex_grads :: pdict where
  "ex_grads k =
     (if k \<in> set [''dW1'', ''dW2'', ''dW3'', ''dW4'', ''dW5'']
      then Some \<lparr>shape = [2], entry = (\<lambda>idx. 2)\<rparr>
      else if k \<in> set [''db1'', ''db2'', ''db3'', ''db4'', ''db5'']
      then Some \<lparr>shape = [3], entry = (\<lambda>idx. if idx = [2] then 2 else 4)\<rparr>
      else None)"

definition ex_grads_bad :: pdict where
  "ex_grads_bad = ex_grads(''dW1'' \<mapsto> \<lparr>shape = [3], entry = (\<lambda>idx. 2)\<rparr>)"

definition ex_adam :: AdamGD where
  "ex_adam = projr (AdamGD_init 1 (1 / 2) (3 / 4) 1 0 (\<lambda>r. ex_params))"

section \<open>Facts about arrays\<close>

lemma bshape_rev_same: "bshape_rev xs xs = Some xs"
  by (induction xs) simp_all

lemma bshape_same: "bshape sh sh = Some sh"
  by (simp add: bshape_def bshape_rev_same)

lemma bidx_in_shape: "in_shape sh idx \<Longrightarrow> bidx sh idx = idx"
proof -
  assume "in_shape sh idx"
  then have a: "list_all2 (\<lambda>j d. j < d) idx sh"
    by (simp add: in_shape_def)
  then have len: "length idx = length sh"
    by (rule list_all2_lengthD)
  from a have "map2 (\<lambda>d j. if d = 1 then 0 else j) sh idx = idx"
    by (induction idx sh rule: list_all2_induct) auto
  with len show ?thesis
    by (simp add: bidx_def)
qed

lemma ebind_Inr [simp]: "ebind (Inr v) k = k v"
  by (simp add: ebind_def)

lemma ebind_Inl [simp]: "ebind (Inl e) k = Inl e"
  by (simp add: ebind_def)

lemma shape_ovw [simp]: "shape (ovw A P V) = shape A"
  by (simp add: ovw_def)

lemma shape_acc [simp]: "shape (acc A D) = shape A"
  by (simp add: acc_def)

lemma ovw_ovw: "ovw (ovw A Q V) P V = ovw A (\<lambda>idx. Q idx \<or> P idx) V"
  by (simp add: ovw_def fun_eq_iff)

lemma ovw_none: "ovw A (\<lambda>idx. False) V = A"
  by (simp add: ovw_def)

lemma for_range_ovw:
  assumes body: "\<And>j t. j < n \<Longrightarrow> shape t = sh \<Longrightarrow> body j t = Inr (ovw t (P j) V)"
    and sh: "shape t = sh"
  shows "for_range n body t = Inr (ovw t (\<lambda>idx. \<exists>j<n. P j idx) V)"
  using body
proof (induction n)
  case 0
  show ?case by (simp add: ovw_none)
next
  case (Suc n)
  have IH: "for_range n body t = Inr (ovw t (\<lambda>idx. \<exists>j<n. P j idx) V)"
    using Suc.prems by (intro Suc.IH) simp
  have step: "body n (ovw t (\<lambda>idx. \<exists>j<n. P j idx) V)
      = Inr (ovw (ovw t (\<lambda>idx. \<exists>j<n. P j idx) V) (P n) V)"
    using sh by (intro Suc.prems) simp_all
  have "(\<lambda>idx. (\<exists>j<n. P j idx) \<or> P n idx) = (\<lambda>idx. \<exists>j<Suc n. P j idx)"
    by (auto simp add: fun_eq_iff less_Suc_eq)
  then show ?case
    by (simp add: IH step ovw_ovw)
qed

lemma acc_acc: "acc (acc A D) E = acc A (\<lambda>idx. D idx + E idx)"
  by (simp add: acc_def fun_eq_iff)

lemma acc_zero: "acc A (\<lambda>idx. 0) = A"
  by (simp add: acc_def)

lemma for_range_acc:
  assumes body: "\<And>j t. j < n \<Longrightarrow> shape t = sh \<Longrightarrow> body j t = Inr (acc t (D j))"
    and sh: "shape t = sh"
  shows "for_range n body t = Inr (acc t (\<lambda>idx. \<Sum>j\<leftarrow>[0..<n]. D j idx))"
  using body
proof (induction n)
  case 0
  show ?case by (simp add: acc_zero)
next
  case (Suc n)
  have IH: "for_range n body t = Inr (acc t (\<lambda>idx. \<Sum>j\<leftarrow>[0..<n]. D j idx))"
    using Suc.prems by (intro Suc.IH) simp
  have step: "body n (acc t (\<lambda>idx. \<Sum>j\<leftarrow>[0..<n]. D j idx))
      = Inr (acc (acc t (\<lambda>idx. \<Sum>j\<leftarrow>[0..<n]. D j idx)) (D n))"
    using sh by (intro Suc.prems) simp_all
  show ?case
    by (simp add: IH step acc_acc)
qed

lemma in_shape_Cons [simp]: "in_shape (n # sh) (k # idx) = (k < n \<and> in_shape sh idx)"
  by (simp add: in_shape_def)

lemma in_shape_Nil [simp]: "in_shape [] idx = (idx = [])"
  by (simp add: in_shape_def)

lemma in_shape_Nil2 [simp]: "in_shape sh [] = (sh = [])"
  by (simp add: in_shape_def)

lemma sum_idx_cong:
  "(\<And>idx. in_shape sh idx \<Longrightarrow> g idx = g' idx) \<Longrightarrow> sum_idx sh g = sum_idx sh g'"
proof (induction sh arbitrary: g g')
  case Nil
  then show ?case by simp
next
  case (Cons n sh)
  have "sum_idx sh (\<lambda>idx. g (k # idx)) = sum_idx sh (\<lambda>idx. g' (k # idx))" if "k < n" for k
    using that by (intro Cons.IH Cons.prems) simp
  then have "map (\<lambda>k. sum_idx sh (\<lambda>idx. g (k # idx))) [0..<n]
      = map (\<lambda>k. sum_idx sh (\<lambda>idx. g' (k # idx))) [0..<n]"
    by simp
  then show ?case
    by (simp only: sum_idx.simps)
qed

lemma Conv_forward_cell_ok:
  assumes X: "shape X = [m, C, H, W]"
    and Wv: "shape (Conv_W_val L) = [Conv_n_F L, C, Conv_f L, Conv_f L]"
    and bv: "shape (Conv_b_val L) = [Conv_n_F L, 1]"
    and out: "shape out = [m, Conv_n_F L, nH, nW]"
    and i: "i < m" and c: "c < Conv_n_F L" and h: "h < nH" and w: "w < nW"
    and fitH: "h * Conv_s L + Conv_f L \<le> H" and fitW: "w * Conv_s L + Conv_f L \<le> W"
  shows "Conv_forward_cell L X i c h w out =
    Inr (ovw out (\<lambda>idx. idx = [i, c, h, w])
      (\<lambda>idx. (\<Sum>k\<leftarrow>[0..<C]. \<Sum>a\<leftarrow>[0..<Conv_f L]. \<Sum>b\<leftarrow>[0..<Conv_f L].
                 entry X [idx ! 0, k, idx ! 2 * Conv_s L + a, idx ! 3 * Conv_s L + b]
                 * entry (Conv_W_val L) [idx ! 1, k, a, b])
              + entry (Conv_b_val L) [idx ! 1, 0]))"
proof -
  let ?f = "Conv_f L" and ?s = "Conv_s L"
  define WIN where "WIN = \<lparr>shape = [C, ?f, ?f],
      entry = (\<lambda>idx. entry X [i, idx ! 0, h * ?s + idx ! 1, w * ?s + idx ! 2])\<rparr>"
  define WC where "WC = \<lparr>shape = [C, ?f, ?f], entry = (\<lambda>idx. entry (Conv_W_val L) (c # idx))\<rparr>"
  define P where "P = \<lparr>shape = [C, ?f, ?f],
      entry = (\<lambda>idx. entry WIN (bidx [C, ?f, ?f] idx) * entry WC (bidx [C, ?f, ?f] idx))\<rparr>"
  have win: "window X i (h * ?s) (h * ?s + ?f) (w * ?s) (w * ?s + ?f) = Inr WIN"
    using X i fitH fitW by (simp add: window_def min_def WIN_def)
  have sub: "subarray (Conv_W_val L) c = Inr WC"
    using Wv c by (simp add: subarray_def WC_def)
  have mul: "ew2 (*) WIN WC = Inr P"
    by (simp add: ew2_def bshape_same P_def WIN_def WC_def)
  have "np_sum P = sum_idx [C, ?f, ?f] (entry P)"
    by (simp add: np_sum_def P_def del: sum_idx.simps)
  also have "\<dots> = sum_idx [C, ?f, ?f] (\<lambda>idx. entry WIN idx * entry WC idx)"
    by (rule sum_idx_cong) (simp add: P_def bidx_in_shape)
  also have "\<dots> = (\<Sum>k\<leftarrow>[0..<C]. \<Sum>a\<leftarrow>[0..<?f]. \<Sum>b\<leftarrow>[0..<?f].
                 entry X [i, k, h * ?s + a, w * ?s + b] * entry (Conv_W_val L) [c, k, a, b])"
    by (simp add: WIN_def WC_def)
  finally have np: "np_sum P = (\<Sum>k\<leftarrow>[0..<C]. \<Sum>a\<leftarrow>[0..<?f]. \<Sum>b\<leftarrow>[0..<?f].
                 entry X [i, k, h * ?s + a, w * ?s + b] * entry (Conv_W_val L) [c, k, a, b])" .
  have it: "item (Conv_b_val L) [c, 0] = Inr (entry (Conv_b_val L) [c, 0])"
    using bv c by (simp add: item_def)
  have "Conv_forward_cell L X i c h w out =
    Inr (out\<lparr>entry := (entry out)([i, c, h, w] :=
      (\<Sum>k\<leftarrow>[0..<C]. \<Sum>a\<leftarrow>[0..<?f]. \<Sum>b\<leftarrow>[0..<?f].
                 entry X [i, k, h * ?s + a, w * ?s + b] * entry (Conv_W_val L) [c, k, a, b])
              + entry (Conv_b_val L) [c, 0])\<rparr>)"
    using out i c h w
    by (simp add: Conv_forward_cell_def win sub mul np it set_item_def)
  also have "out\<lparr>entry := (entry out)([i, c, h, w] :=
      (\<Sum>k\<leftarrow>[0..<C]. \<Sum>a\<leftarrow>[0..<?f]. \<Sum>b\<leftarrow>[0..<?f].
                 entry X [i, k, h * ?s + a, w * ?s + b] * entry (Conv_W_val L) [c, k, a, b])
              + entry (Conv_b_val L) [c, 0])\<rparr>
    = ovw out (\<lambda>idx. idx = [i, c, h, w])
      (\<lambda>idx. (\<Sum>k\<leftarrow>[0..<C]. \<Sum>a\<leftarrow>[0..<?f]. \<Sum>b\<leftarrow>[0..<?f].
                 entry X [idx ! 0, k, idx ! 2 * ?s + a, idx ! 3 * ?s + b]
                 * entry (Conv_W_val L) [idx ! 1, k, a, b])
              + entry (Conv_b_val L) [idx ! 1, 0])"
    by (simp add: ovw_def fun_eq_iff)
  finally show ?thesis .
qed

lemma Conv_forward_loops:
  assumes X: "shape X = [m, C, H, W]"
    and Wv: "shape (Conv_W_val L) = [Conv_n_F L, C, Conv_f L, Conv_f L]"
    and bv: "shape (Conv_b_val L) = [Conv_n_F L, 1]"
    and out: "shape out = [m, Conv_n_F L, nH, nW]"
    and fitH: "\<And>h. h < nH \<Longrightarrow> h * Conv_s L + Conv_f L \<le> H"
    and fitW: "\<And>w. w < nW \<Longrightarrow> w * Conv_s L + Conv_f L \<le> W"
  shows "for_range m (\<lambda>i. for_range (Conv_n_F L) (\<lambda>c. for_range nH (\<lambda>h. for_range nW (\<lambda>w.
            Conv_forward_cell L X i c h w)))) out =
    Inr (ovw out (\<lambda>idx. \<exists>i<m. \<exists>c<Conv_n_F L. \<exists>h<nH. \<exists>w<nW. idx = [i, c, h, w])
      (\<lambda>idx. (\<Sum>k\<leftarrow>[0..<C]. \<Sum>a\<leftarrow>[0..<Conv_f L]. \<Sum>b\<leftarrow>[0..<Conv_f L].
                 entry X [idx ! 0, k, idx ! 2 * Conv_s L + a, idx ! 3 * Conv_s L + b]
                 * entry (Conv_W_val L) [idx ! 1, k, a, b])
              + entry (Conv_b_val L) [idx ! 1, 0]))"
  apply (rule for_range_ovw [where sh = "[m, Conv_n_F L, nH, nW]"])
   apply (rule for_range_ovw [where sh = "[m, Conv_n_F L, nH, nW]"])
    apply (rule for_range_ovw [where sh = "[m, Conv_n_F L, nH, nW]"])
     apply (rule for_range_ovw [where sh = "[m, Conv_n_F L, nH, nW]"])
      apply (rule Conv_forward_cell_ok [OF X Wv bv])
            apply (simp_all add: out fitH fitW)
  done

lemma int_truediv_nat: "int_truediv (int a) (int b) = int (a div b)"
  by (cases "a = 0"; cases "b = 0") (simp_all add: int_truediv_def zdiv_int)

lemma out_dim_fit:
  assumes "0 < s" and "((n + 2 * p - f) div s) * s + f \<le> n"
  shows "out_dim n p f s = Inr (int ((n + 2 * p - f) div s + 1))"
proof -
  have "f \<le> n + 2 * p"
    using assms(2) by simp
  then have e: "int n + 2 * int p - int f = int (n + 2 * p - f)"
    by (simp add: of_nat_diff)
  show ?thesis
    unfolding out_dim_def e int_truediv_nat using assms(1) by simp
qed

lemma window_fits:
  assumes "0 < (s::nat)" and "q * s + f \<le> n" and "h < q + 1"
  shows "h * s + f \<le> n"
proof -
  have "h \<le> q" using assms(3) by simp
  then have "h * s \<le> q * s" by (rule mult_le_mono1)
  then show ?thesis using assms(2) by linarith
qed

lemma np_rot90_twice:
  assumes "shape A = n0 # n1 # sh"
  shows "ebind (np_rot90 A) np_rot90 = Inr (flip01 A)"
proof -
  have "np_swap01 (np_flip1 (np_swap01 (np_flip1 A))) = flip01 A"
    using assms
    by (auto simp add: np_swap01_def np_flip1_def flip01_def fun_eq_iff split: list.splits)
  then show ?thesis
    using assms by (simp add: np_rot90_def np_swap01_def np_flip1_def)
qed

lemma for_range_acc2:
  assumes body: "\<And>j t. j < n \<Longrightarrow> shape (fst t) = sh1 \<Longrightarrow> shape (snd t) = sh2 \<Longrightarrow>
      body j t = Inr (acc (fst t) (D j), acc (snd t) (E j))"
    and sh: "shape (fst t) = sh1" "shape (snd t) = sh2"
  shows "for_range n body t =
     Inr (acc (fst t) (\<lambda>idx. \<Sum>j\<leftarrow>[0..<n]. D j idx), acc (snd t) (\<lambda>idx. \<Sum>j\<leftarrow>[0..<n]. E j idx))"
  using body
proof (induction n)
  case 0
  show ?case by (simp add: acc_zero)
next
  case (Suc n)
  let ?t = "(acc (fst t) (\<lambda>idx. \<Sum>j\<leftarrow>[0..<n]. D j idx), acc (snd t) (\<lambda>idx. \<Sum>j\<leftarrow>[0..<n]. E j idx))"
  have IH: "for_range n body t = Inr ?t"
    using Suc.prems by (intro Suc.IH) simp
  have step: "body n ?t = Inr (acc (fst ?t) (D n), acc (snd ?t) (E n))"
    using sh by (intro Suc.prems) simp_all
  show ?case
    by (simp add: IH step acc_acc)
qed

lemma acc_eqI: "(\<And>idx. g idx = entry A idx + D idx) \<Longrightarrow> A\<lparr>entry := g\<rparr> = acc A D"
  by (simp add: acc_def fun_eq_iff)

lemma bidx_window:
  assumes "k < C" and "hs \<le> y" and "y < hs + f" and "ws \<le> x" and "x < ws + f"
  shows "bidx [C, f, f] [k, y - hs, x - ws] = [k, y - hs, x - ws]"
proof (rule bidx_in_shape)
  have "y - hs < f" "x - ws < f"
    using assms by arith+
  then show "in_shape [C, f, f] [k, y - hs, x - ws]"
    using assms(1) by simp
qed

lemma Conv_backward_cell_ok:
  assumes X: "shape X = [mX, C, H, W]"
    and d: "shape dout = [m, nF, nH, nW]"
    and Wr: "shape W_rot = [nF, C, Conv_f L, Conv_f L]"
    and g: "shape (fst st) = [nF, C, Conv_f L, Conv_f L]"
    and dX: "shape (snd st) = [mX, C, H, W]"
    and i: "i < m" and mm: "m \<le> mX" and c: "c < nF" and h: "h < nH" and w: "w < nW"
    and fitH: "h * Conv_s L + Conv_f L \<le> H" and fitW: "w * Conv_s L + Conv_f L \<le> W"
  shows "Conv_backward_cell L X dout W_rot i c h w st =
    Inr (acc (fst st) (dW_term X dout (Conv_s L) (Conv_f L) C i c h w),
         acc (snd st) (dX_term W_rot dout (Conv_s L) (Conv_f L) C i c h w))"
proof -
  let ?f = "Conv_f L" and ?s = "Conv_s L"
  define WIN where "WIN = \<lparr>shape = [C, ?f, ?f],
      entry = (\<lambda>idx. entry X [i, idx ! 0, h * ?s + idx ! 1, w * ?s + idx ! 2])\<rparr>"
  define WIN' where "WIN' = \<lparr>shape = [C, ?f, ?f],
      entry = (\<lambda>idx. entry (snd st) [i, idx ! 0, h * ?s + idx ! 1, w * ?s + idx ! 2])\<rparr>"
  define WR where "WR = \<lparr>shape = [C, ?f, ?f], entry = (\<lambda>idx. entry W_rot (c # idx))\<rparr>"
  define G where "G = \<lparr>shape = [C, ?f, ?f], entry = (\<lambda>idx. entry (fst st) (c # idx))\<rparr>"
  have iX: "i < mX" using i mm by simp
  have sub: "subarray (fst st) c = Inr G"
    using g c by (simp add: subarray_def G_def)
  have it: "item dout [i, c, h, w] = Inr (entry dout [i, c, h, w])"
    using d i c h w by (simp add: item_def)
  have win: "window X i (h * ?s) (h * ?s + ?f) (w * ?s) (w * ?s + ?f) = Inr WIN"
    using X iX fitH fitW by (simp add: window_def min_def WIN_def)
  have win': "window (snd st) i (h * ?s) (h * ?s + ?f) (w * ?s) (w * ?s + ?f) = Inr WIN'"
    using dX iX fitH fitW by (simp add: window_def min_def WIN'_def)
  have subr: "subarray W_rot c = Inr WR"
    using Wr c by (simp add: subarray_def WR_def)
  have a1: "iadd_sub (fst st) c (ew1 (\<lambda>t. entry dout [i, c, h, w] * t) WIN)
      = Inr (acc (fst st) (dW_term X dout ?s ?f C i c h w))"
    using g c
    apply (simp add: iadd_sub_def ew1_def WIN_def bshape_same)
    apply (rule acc_eqI)
    apply (auto simp add: dW_term_def bidx_in_shape split: list.splits)
    done
  have a2: "iadd_window (snd st) i (h * ?s) (h * ?s + ?f) (w * ?s) (w * ?s + ?f)
        (ew1 (\<lambda>t. entry dout [i, c, h, w] * t) WR)
      = Inr (acc (snd st) (dX_term W_rot dout ?s ?f C i c h w))"
    using dX iX fitH fitW
    apply (simp add: iadd_window_def ew1_def WR_def bshape_same min_def Let_def)
    apply (rule acc_eqI)
    apply (auto simp add: dX_term_def bidx_window split: list.splits)
    done
  show ?thesis
    by (simp add: Conv_backward_cell_def Let_def sub it win win' subr a1 a2)
qed

lemma ovw_eqI:
  "(\<And>idx. g idx = (if P idx then V idx else entry A idx)) \<Longrightarrow> A\<lparr>entry := g\<rparr> = ovw A P V"
  by (simp add: ovw_def fun_eq_iff)

lemma Conv_backward_loops:
  assumes X: "shape X = [mX, C, H, W]"
    and d: "shape dout = [m, nF, nH, nW]"
    and Wr: "shape W_rot = [nF, C, Conv_f L, Conv_f L]"
    and g: "shape (fst st) = [nF, C, Conv_f L, Conv_f L]"
    and dX: "shape (snd st) = [mX, C, H, W]"
    and mm: "m \<le> mX"
    and fitH: "\<And>h. h < nH \<Longrightarrow> h * Conv_s L + Conv_f L \<le> H"
    and fitW: "\<And>w. w < nW \<Longrightarrow> w * Conv_s L + Conv_f L \<le> W"
  shows "for_range m (\<lambda>i. for_range nF (\<lambda>c. for_range nH (\<lambda>h. for_range nW (\<lambda>w.
            Conv_backward_cell L X dout W_rot i c h w)))) st =
    Inr (acc (fst st) (\<lambda>idx. \<Sum>i\<leftarrow>[0..<m]. \<Sum>c\<leftarrow>[0..<nF]. \<Sum>h\<leftarrow>[0..<nH]. \<Sum>w\<leftarrow>[0..<nW].
                dW_term X dout (Conv_s L) (Conv_f L) C i c h w idx),
         acc (snd st) (\<lambda>idx. \<Sum>i\<leftarrow>[0..<m]. \<Sum>c\<leftarrow>[0..<nF]. \<Sum>h\<leftarrow>[0..<nH]. \<Sum>w\<leftarrow>[0..<nW].
                dX_term W_rot dout (Conv_s L) (Conv_f L) C i c h w idx))"
  apply (rule for_range_acc2 [where ?sh1.0 = "[nF, C, Conv_f L, Conv_f L]" and ?sh2.0 = "[mX, C, H, W]"])
    apply (rule for_range_acc2 [where ?sh1.0 = "[nF, C, Conv_f L, Conv_f L]" and ?sh2.0 = "[mX, C, H, W]"])
      apply (rule for_range_acc2 [where ?sh1.0 = "[nF, C, Conv_f L, Conv_f L]" and ?sh2.0 = "[mX, C, H, W]"])
        apply (rule for_range_acc2 [where ?sh1.0 = "[nF, C, Conv_f L, Conv_f L]" and ?sh2.0 = "[mX, C, H, W]"])
          apply (rule Conv_backward_cell_ok [OF X d Wr])
                  apply (simp_all add: g dX mm fitH fitW)
  done

lemma in_shape_one [simp]: "in_shape [Suc 0] r = (r = [0])"
  by (cases r) auto

lemma Conv_backward_bias_ok:
  assumes d: "shape dout = [m, nF, nH, nW]"
    and b: "shape b_grad = [n, 1]"
    and c: "c < nF" "c < n"
  shows "Conv_backward_bias dout c b_grad =
    Inr (ovw b_grad (\<lambda>idx. idx = [c, 0])
          (\<lambda>idx. \<Sum>i\<leftarrow>[0..<m]. \<Sum>h\<leftarrow>[0..<nH]. \<Sum>w\<leftarrow>[0..<nW]. entry dout [i, hd idx, h, w]))"
  using d b c
  apply (simp add: Conv_backward_bias_def take_axis1_def fill_sub_def np_sum_def)
  apply (rule ovw_eqI)
  apply (auto split: list.splits)
  done

lemma Conv_backward_bias_loop:
  assumes d: "shape dout = [m, nF, nH, nW]"
    and b: "shape b_grad = [nF, 1]"
  shows "for_range nF (Conv_backward_bias dout) b_grad =
    Inr (ovw b_grad (\<lambda>idx. \<exists>c<nF. idx = [c, 0])
          (\<lambda>idx. \<Sum>i\<leftarrow>[0..<m]. \<Sum>h\<leftarrow>[0..<nH]. \<Sum>w\<leftarrow>[0..<nW]. entry dout [i, hd idx, h, w]))"
  apply (rule for_range_ovw [where sh = "[nF, 1]"])
   apply (rule Conv_backward_bias_ok [OF d])
     apply (simp_all add: b)
  done

lemma shape_flip01 [simp]: "shape (flip01 A) = shape A"
  by (simp add: flip01_def)

lemma Conv_backward_result:
  assumes cache: "Conv_cache L = Some X"
    and X: "shape X = [mX, C, H, W]"
    and wf: "Conv_wf L"
    and C: "C = Conv_n_C L"
    and d: "shape dout = [m, Conv_n_F L, nH, nW]"
    and mm: "m \<le> mX"
    and fitH: "\<And>h. h < nH \<Longrightarrow> h * Conv_s L + Conv_f L \<le> H"
    and fitW: "\<And>w. w < nW \<Longrightarrow> w * Conv_s L + Conv_f L \<le> W"
    and gW: "gW = acc (Conv_W_grad L)
        (\<lambda>idx. \<Sum>i\<leftarrow>[0..<m]. \<Sum>c\<leftarrow>[0..<Conv_n_F L]. \<Sum>h\<leftarrow>[0..<nH]. \<Sum>w\<leftarrow>[0..<nW].
                dW_term X dout (Conv_s L) (Conv_f L) C i c h w idx)"
    and dX: "dX = acc \<lparr>shape = shape X, entry = (\<lambda>idx. 0)\<rparr>
        (\<lambda>idx. \<Sum>i\<leftarrow>[0..<m]. \<Sum>c\<leftarrow>[0..<Conv_n_F L]. \<Sum>h\<leftarrow>[0..<nH]. \<Sum>w\<leftarrow>[0..<nW].
                dX_term (flip01 (Conv_W_val L)) dout (Conv_s L) (Conv_f L) C i c h w idx)"
    and gb: "gb = ovw (Conv_b_grad L) (\<lambda>idx. \<exists>c<Conv_n_F L. idx = [c, 0])
          (\<lambda>idx. \<Sum>i\<leftarrow>[0..<m]. \<Sum>h\<leftarrow>[0..<nH]. \<Sum>w\<leftarrow>[0..<nW]. entry dout [i, hd idx, h, w])"
  shows "Conv_backward L dout = Inr (L\<lparr>Conv_W_grad := gW, Conv_b_grad := gb\<rparr>, dX, gW, gb)"
proof -
  have Wv: "shape (Conv_W_val L) = [Conv_n_F L, C, Conv_f L, Conv_f L]"
    and Wg: "shape (Conv_W_grad L) = [Conv_n_F L, C, Conv_f L, Conv_f L]"
    and bg: "shape (Conv_b_grad L) = [Conv_n_F L, 1]"
    using wf C by (simp_all add: Conv_wf_def)
  have rot: "ebind (np_rot90 (Conv_W_val L)) np_rot90 = Inr (flip01 (Conv_W_val L))"
    using Wv by (rule np_rot90_twice)
  have loops: "for_range m (\<lambda>i. for_range (Conv_n_F L) (\<lambda>c. for_range nH (\<lambda>h. for_range nW (\<lambda>w.
            Conv_backward_cell L X dout (flip01 (Conv_W_val L)) i c h w))))
          (Conv_W_grad L, \<lparr>shape = [mX, C, H, W], entry = (\<lambda>idx. 0)\<rparr>) = Inr (gW, dX)"
    unfolding gW dX
    using Conv_backward_loops [OF X d _ _ _ mm fitH fitW,
        of "flip01 (Conv_W_val L)" "(Conv_W_grad L, \<lparr>shape = [mX, C, H, W], entry = (\<lambda>idx. 0)\<rparr>)"]
    by (simp add: Wv Wg X)
  have bias: "for_range (Conv_n_F L) (Conv_backward_bias dout) (Conv_b_grad L) = Inr gb"
    unfolding gb using d bg by (rule Conv_backward_bias_loop)
  obtain R1 where R1: "np_rot90 (Conv_W_val L) = Inr R1"
    using rot by (cases "np_rot90 (Conv_W_val L)") simp_all
  with rot have R2: "np_rot90 R1 = Inr (flip01 (Conv_W_val L))"
    by simp
  show ?thesis
    by (simp add: Conv_backward_def cache X d R1 R2 loops bias)
qed

lemma sum_list_delta:
  "c < n \<Longrightarrow> (\<Sum>j\<leftarrow>[0..<n]. if j = c then g j else (0::real)) = g c"
proof (induction n)
  case 0
  then show ?case by simp
next
  case (Suc n)
  show ?case
  proof (cases "c = n")
    case True
    have "(\<Sum>j\<leftarrow>[0..<n]. if j = c then g j else 0) = (\<Sum>j\<leftarrow>[0..<n]. 0)"
      using True by (intro arg_cong [where f = sum_list] map_cong) auto
    then show ?thesis using True by simp
  next
    case False
    then have "c < n" using Suc.prems by simp
    then show ?thesis using False Suc.IH by simp
  qed
qed

lemma dW_term_sum:
  assumes "c < nF" and "k < C" and "a < f" and "b < f"
  shows "(\<Sum>c'\<leftarrow>[0..<nF]. \<Sum>h\<leftarrow>[0..<nH]. \<Sum>w\<leftarrow>[0..<nW]. dW_term X dout s f C i c' h w [c, k, a, b])
    = (\<Sum>h\<leftarrow>[0..<nH]. \<Sum>w\<leftarrow>[0..<nW]. entry dout [i, c, h, w] * entry X [i, k, h * s + a, w * s + b])"
proof -
  have "(\<Sum>h\<leftarrow>[0..<nH]. \<Sum>w\<leftarrow>[0..<nW]. dW_term X dout s f C i c' h w [c, k, a, b])
      = (if c' = c then (\<Sum>h\<leftarrow>[0..<nH]. \<Sum>w\<leftarrow>[0..<nW].
            entry dout [i, c', h, w] * entry X [i, k, h * s + a, w * s + b]) else 0)" for c'
    using assms by (cases "c' = c") (simp_all add: dW_term_def)
  then show ?thesis
    using assms(1) by (simp add: sum_list_delta)
qed

lemma for_range_acc_Some:
  assumes body: "\<And>j A. j < n \<Longrightarrow> shape A = sh \<Longrightarrow> body j (Some A) = Inr (Some (acc A (D j)))"
    and sh: "shape A = sh"
  shows "for_range n body (Some A) = Inr (Some (acc A (\<lambda>idx. \<Sum>j\<leftarrow>[0..<n]. D j idx)))"
  using body
proof (induction n)
  case 0
  show ?case by (simp add: acc_zero)
next
  case (Suc n)
  have IH: "for_range n body (Some A) = Inr (Some (acc A (\<lambda>idx. \<Sum>j\<leftarrow>[0..<n]. D j idx)))"
    using Suc.prems by (intro Suc.IH) simp
  have step: "body n (Some (acc A (\<lambda>idx. \<Sum>j\<leftarrow>[0..<n]. D j idx)))
      = Inr (Some (acc (acc A (\<lambda>idx. \<Sum>j\<leftarrow>[0..<n]. D j idx)) (D n)))"
    using sh by (intro Suc.prems) simp_all
  show ?case
    by (simp add: IH step acc_acc)
qed

lemma bidx_window2:
  assumes "hs \<le> y" and "y < hs + f" and "ws \<le> x" and "x < ws + f"
  shows "bidx [f, f] [y - hs, x - ws] = [y - hs, x - ws]"
proof (rule bidx_in_shape)
  have "y - hs < f" "x - ws < f"
    using assms by arith+
  then show "in_shape [f, f] [y - hs, x - ws]"
    by simp
qed

lemma AvgPool_backward_cell_ok:
  assumes A: "shape A = [mX, C, H, W]"
    and d: "shape dout = [m, nC, nH, nW]"
    and i: "i < m" and mm: "m \<le> mX" and c: "c < nC" and cc: "nC \<le> C"
    and h: "h < nH" and w: "w < nW"
    and fitH: "h * AvgPool_s L + AvgPool_f L \<le> H"
    and fitW: "w * AvgPool_s L + AvgPool_f L \<le> W"
  shows "AvgPool_backward_cell L dout nH nW i c h w (Some A) =
    Inr (Some (acc A (pool_term dout (AvgPool_s L) (AvgPool_f L) nH nW i c h w)))"
proof -
  let ?f = "AvgPool_f L" and ?s = "AvgPool_s L"
  have iX: "i < mX" and cX: "c < C"
    using i mm c cc by simp_all
  have it: "item dout [i, c, h, w] = Inr (entry dout [i, c, h, w])"
    using d i c h w by (simp add: item_def)
  have a: "iadd_window2 A i c (h * ?s) (h * ?s + ?f) (w * ?s) (w * ?s + ?f)
        (np_full [?f, ?f] (entry dout [i, c, h, w] / real (nH * nW)))
      = Inr (acc A (pool_term dout ?s ?f nH nW i c h w))"
    using A iX cX fitH fitW
    apply (simp add: iadd_window2_def np_full_def bshape_same min_def Let_def)
    apply (rule acc_eqI)
    apply (auto simp add: pool_term_def split: list.splits)
    done
  show ?thesis
    by (simp add: AvgPool_backward_cell_def Let_def it a del: of_nat_mult)
qed

lemma AvgPool_backward_result:
  assumes cache: "AvgPool_cache L = Some X"
    and X: "shape X = [mX, C, H, W]"
    and d: "shape dout = [m, nC, nH, nW]"
    and mm: "m \<le> mX" and cc: "nC \<le> C"
    and fitH: "\<And>h. h < nH \<Longrightarrow> h * AvgPool_s L + AvgPool_f L \<le> H"
    and fitW: "\<And>w. w < nW \<Longrightarrow> w * AvgPool_s L + AvgPool_f L \<le> W"
  shows "AvgPool_backward L dout =
    Inr (Some (acc X (\<lambda>idx. \<Sum>i\<leftarrow>[0..<m]. \<Sum>c\<leftarrow>[0..<nC]. \<Sum>h\<leftarrow>[0..<nH]. \<Sum>w\<leftarrow>[0..<nW].
       pool_term dout (AvgPool_s L) (AvgPool_f L) nH nW i c h w idx)))"
  unfolding AvgPool_backward_def d list.case cache
  apply (rule for_range_acc_Some [where sh = "[mX, C, H, W]"])
   apply (rule for_range_acc_Some [where sh = "[mX, C, H, W]"])
    apply (rule for_range_acc_Some [where sh = "[mX, C, H, W]"])
     apply (rule for_range_acc_Some [where sh = "[mX, C, H, W]"])
      apply (rule AvgPool_backward_cell_ok [OF _ d, where mX = mX and C = C and H = H and W = W])
              apply (simp_all add: X mm cc fitH fitW)
  done

lemma sum_list_delta':
  "(\<Sum>j\<leftarrow>[0..<n]. if j = c then g j else (0::real)) = (if c < n then g c else 0)"
proof (cases "c < n")
  case True
  then show ?thesis by (simp add: sum_list_delta)
next
  case False
  then have "(\<Sum>j\<leftarrow>[0..<n]. if j = c then g j else 0) = (\<Sum>j\<leftarrow>[0..<n]. 0)"
    by (intro arg_cong [where f = sum_list] map_cong) auto
  then show ?thesis using False by simp
qed

lemma pool_term_sum:
  "(\<Sum>i'\<leftarrow>[0..<m]. \<Sum>c\<leftarrow>[0..<nC]. \<Sum>h\<leftarrow>[0..<nH]. \<Sum>w\<leftarrow>[0..<nW].
       pool_term dout s f nH nW i' c h w [i, k, y, x])
   = (if i < m \<and> k < nC then
        \<Sum>h\<leftarrow>[0..<nH]. \<Sum>w\<leftarrow>[0..<nW].
          (if h * s \<le> y \<and> y < h * s + f \<and> w * s \<le> x \<and> x < w * s + f
           then entry dout [i, k, h, w] / real (nH * nW) else 0)
      else 0)"
proof -
  let ?S = "\<Sum>h\<leftarrow>[0..<nH]. \<Sum>w\<leftarrow>[0..<nW].
          (if h * s \<le> y \<and> y < h * s + f \<and> w * s \<le> x \<and> x < w * s + f
           then entry dout [i, k, h, w] / real (nH * nW) else 0)"
  have inner: "(\<Sum>h\<leftarrow>[0..<nH]. \<Sum>w\<leftarrow>[0..<nW]. pool_term dout s f nH nW i' c h w [i, k, y, x])
      = (if c = k then (if i' = i then ?S else 0) else 0)" for i' c
    by (cases "c = k"; cases "i' = i") (simp_all add: pool_term_def)
  have "(\<Sum>c\<leftarrow>[0..<nC]. \<Sum>h\<leftarrow>[0..<nH]. \<Sum>w\<leftarrow>[0..<nW]. pool_term dout s f nH nW i' c h w [i, k, y, x])
      = (if i' = i then (if k < nC then ?S else 0) else 0)" for i'
    by (simp add: inner sum_list_delta')
  then show ?thesis
    by (simp add: sum_list_delta')
qed

lemma sum_list_upt_zero:
  "(\<And>j. j < n \<Longrightarrow> g j = (0::real)) \<Longrightarrow> (\<Sum>j\<leftarrow>[0..<n]. g j) = 0"
  by (induction n) simp_all

lemma Conv_forward_result:
  assumes X: "shape X = [m, C, H, W]"
    and wf: "Conv_wf L"
    and C: "C = Conv_n_C L"
    and s: "0 < Conv_s L"
    and fitH: "((H + 2 * Conv_p L - Conv_f L) div Conv_s L) * Conv_s L + Conv_f L \<le> H"
    and fitW: "((W + 2 * Conv_p L - Conv_f L) div Conv_s L) * Conv_s L + Conv_f L \<le> W"
    and nH: "nH = (H + 2 * Conv_p L - Conv_f L) div Conv_s L + 1"
    and nW: "nW = (W + 2 * Conv_p L - Conv_f L) div Conv_s L + 1"
  shows "Conv_forward L X = Inr (L\<lparr>Conv_cache := Some X\<rparr>,
      ovw \<lparr>shape = [m, Conv_n_F L, nH, nW], entry = (\<lambda>idx. 0)\<rparr>
        (\<lambda>idx. \<exists>i<m. \<exists>c<Conv_n_F L. \<exists>h<nH. \<exists>w<nW. idx = [i, c, h, w])
        (\<lambda>idx. (\<Sum>k\<leftarrow>[0..<C]. \<Sum>a\<leftarrow>[0..<Conv_f L]. \<Sum>b\<leftarrow>[0..<Conv_f L].
                 entry X [idx ! 0, k, idx ! 2 * Conv_s L + a, idx ! 3 * Conv_s L + b]
                 * entry (Conv_W_val L) [idx ! 1, k, a, b])
              + entry (Conv_b_val L) [idx ! 1, 0]))"
proof -
  define out0 where "out0 = \<lparr>shape = [m, Conv_n_F L, nH, nW], entry = (\<lambda>idx. 0::real)\<rparr>"
  have Wv: "shape (Conv_W_val L) = [Conv_n_F L, C, Conv_f L, Conv_f L]"
    and bv: "shape (Conv_b_val L) = [Conv_n_F L, 1]"
    using wf C by (simp_all add: Conv_wf_def)
  have dH: "out_dim H (Conv_p L) (Conv_f L) (Conv_s L) = Inr (int nH)"
    unfolding nH using s fitH by (rule out_dim_fit)
  have dW: "out_dim W (Conv_p L) (Conv_f L) (Conv_s L) = Inr (int nW)"
    unfolding nW using s fitW by (rule out_dim_fit)
  have z: "np_zeros [int m, int (Conv_n_F L), int nH, int nW] = Inr out0"
    by (simp add: np_zeros_def out0_def)
  have loops: "for_range m (\<lambda>i. for_range (Conv_n_F L) (\<lambda>c. for_range nH (\<lambda>h.
       for_range nW (\<lambda>w. Conv_forward_cell L X i c h w)))) out0 =
    Inr (ovw out0 (\<lambda>idx. \<exists>i<m. \<exists>c<Conv_n_F L. \<exists>h<nH. \<exists>w<nW. idx = [i, c, h, w])
      (\<lambda>idx. (\<Sum>k\<leftarrow>[0..<C]. \<Sum>a\<leftarrow>[0..<Conv_f L]. \<Sum>b\<leftarrow>[0..<Conv_f L].
                 entry X [idx ! 0, k, idx ! 2 * Conv_s L + a, idx ! 3 * Conv_s L + b]
                 * entry (Conv_W_val L) [idx ! 1, k, a, b])
              + entry (Conv_b_val L) [idx ! 1, 0]))"
    using X Wv bv
  proof (rule Conv_forward_loops)
    show "shape out0 = [m, Conv_n_F L, nH, nW]"
      by (simp add: out0_def)
    show "h * Conv_s L + Conv_f L \<le> H" if "h < nH" for h
      using s fitH that unfolding nH by (rule window_fits)
    show "w * Conv_s L + Conv_f L \<le> W" if "w < nW" for w
      using s fitW that unfolding nW by (rule window_fits)
  qed
  show ?thesis
    unfolding Conv_forward_def X list.case dH dW ebind_Inr z nat_int loops
    by (simp add: out0_def)
qed

lemma np_dot_22:
  assumes "shape A = [r, n]" and "shape B = [n, c]"
  shows "np_dot A B = Inr \<lparr>shape = [r, c],
      entry = (\<lambda>idx. let ia = take 1 idx; ib = drop 1 idx
                     in \<Sum>k\<leftarrow>[0..<n]. entry A (ia @ [k]) * entry B (butlast ib @ [k, last ib]))\<rparr>"
  using assms by (simp add: np_dot_def)

lemma ebind_Inr_iff: "ebind r k = Inr v \<longleftrightarrow> (\<exists>x. r = Inr x \<and> k x = Inr v)"
  by (cases r) simp_all

lemma for_range_invariant:
  assumes run: "for_range n body t = Inr t'"
    and init: "P t"
    and step: "\<And>j u u'. j < n \<Longrightarrow> P u \<Longrightarrow> body j u = Inr u' \<Longrightarrow> P u'"
  shows "P t'"
  using run step
proof (induction n arbitrary: t')
  case 0
  then show ?case using init by simp
next
  case (Suc n)
  from Suc.prems(1) obtain u where u: "for_range n body t = Inr u" and b: "body n u = Inr t'"
    by (cases "for_range n body t") simp_all
  have s: "\<And>j u u'. j < n \<Longrightarrow> P u \<Longrightarrow> body j u = Inr u' \<Longrightarrow> P u'"
    using Suc.prems(2) less_Suc_eq by blast
  have "P u"
    using u s by (rule Suc.IH)
  then show ?case
    using b by (rule Suc.prems(2) [OF lessI])
qed

lemma iadd_sub_shape: "iadd_sub A c R = Inr A' \<Longrightarrow> shape A' = shape A"
  by (auto simp add: iadd_sub_def split: list.splits if_splits)

lemma iadd_window_shape: "iadd_window A i hs he ws we R = Inr A' \<Longrightarrow> shape A' = shape A"
  by (auto simp add: iadd_window_def Let_def split: list.splits if_splits)

lemma fill_sub_shape: "fill_sub A c v = Inr A' \<Longrightarrow> shape A' = shape A"
  by (auto simp add: fill_sub_def split: list.splits if_splits)

lemma Conv_backward_cell_shape:
  assumes "Conv_backward_cell L X dout W_rot i c h w st = Inr st'"
  shows "shape (fst st') = shape (fst st) \<and> shape (snd st') = shape (snd st)"
  using assms
  by (auto simp add: Conv_backward_cell_def Let_def ebind_Inr_iff
      dest: iadd_sub_shape iadd_window_shape)

lemma Conv_backward_loops_shape:
  assumes "for_range m (\<lambda>i. for_range nF (\<lambda>c. for_range nH (\<lambda>h. for_range nW (\<lambda>w.
            Conv_backward_cell L X dout W_rot i c h w)))) st = Inr st'"
  shows "shape (fst st') = shape (fst st) \<and> shape (snd st') = shape (snd st)"
proof -
  define P where "P = (\<lambda>t::ndarray \<times> ndarray. shape (fst t) = shape (fst st) \<and> shape (snd t) = shape (snd st))"
  have cell: "P t'" if "P t" "Conv_backward_cell L X dout W_rot i c h w t = Inr t'" for i c h w t t'
    using Conv_backward_cell_shape [OF that(2)] that(1) by (simp add: P_def)
  have lw: "P t'" if "P t" "for_range nW (\<lambda>w. Conv_backward_cell L X dout W_rot i c h w) t = Inr t'"
    for i c h t t'
  proof (rule for_range_invariant [where P = P, OF that(2) that(1)])
    show "P u'" if "P u" "Conv_backward_cell L X dout W_rot i c h j u = Inr u'" for j u u'
      using that by (rule cell)
  qed
  have lh: "P t'" if "P t" "for_range nH (\<lambda>h. for_range nW (\<lambda>w.
      Conv_backward_cell L X dout W_rot i c h w)) t = Inr t'" for i c t t'
  proof (rule for_range_invariant [where P = P, OF that(2) that(1)])
    show "P u'" if "P u" "for_range nW (\<lambda>w. Conv_backward_cell L X dout W_rot i c j w) u = Inr u'"
      for j u u'
      using that by (rule lw)
  qed
  have lc: "P t'" if "P t" "for_range nF (\<lambda>c. for_range nH (\<lambda>h. for_range nW (\<lambda>w.
      Conv_backward_cell L X dout W_rot i c h w))) t = Inr t'" for i t t'
  proof (rule for_range_invariant [where P = P, OF that(2) that(1)])
    show "P u'" if "P u" "for_range nH (\<lambda>h. for_range nW (\<lambda>w.
        Conv_backward_cell L X dout W_rot i j h w)) u = Inr u'" for j u u'
      using that by (rule lh)
  qed
  have "P st"
    by (simp add: P_def)
  have "P st'"
  proof (rule for_range_invariant [where P = P, OF assms \<open>P st\<close>])
    show "P u'" if "P u" "for_range nF (\<lambda>c. for_range nH (\<lambda>h. for_range nW (\<lambda>w.
        Conv_backward_cell L X dout W_rot j c h w))) u = Inr u'" for j u u'
      using that by (rule lc)
  qed
  then show ?thesis
    by (simp add: P_def)
qed

lemma Conv_backward_bias_shape:
  assumes "for_range n (Conv_backward_bias dout) b = Inr b'"
  shows "shape b' = shape b"
proof -
  define P where "P = (\<lambda>t::ndarray. shape t = shape b)"
  have "P b"
    by (simp add: P_def)
  have "P b'"
  proof (rule for_range_invariant [where P = P, OF assms \<open>P b\<close>])
    show "P t'" if "P t" "Conv_backward_bias dout c t = Inr t'" for c t t'
      using that by (auto simp add: P_def Conv_backward_bias_def ebind_Inr_iff dest: fill_sub_shape)
  qed
  then show ?thesis
    by (simp add: P_def)
qed

lemma Conv_forward_state:
  assumes "Conv_forward L X = Inr (L', out)"
  shows "L' = L\<lparr>Conv_cache := Some X\<rparr>"
  using assms by (auto simp add: Conv_forward_def ebind_Inr_iff split: list.splits)

lemma Conv_backward_state:
  assumes "Conv_backward L dout = Inr (L', dX, gW, gb)"
  shows "shape (Conv_W_grad L') = shape (Conv_W_grad L) \<and> shape (Conv_b_grad L') = shape (Conv_b_grad L)
     \<and> Conv_W_val L' = Conv_W_val L \<and> Conv_b_val L' = Conv_b_val L"
proof -
  from assms obtain X where c: "Conv_cache L = Some X"
    by (cases "Conv_cache L") (simp_all add: Conv_backward_def)
  from assms c obtain mX C H W where X: "shape X = [mX, C, H, W]"
    by (auto simp add: Conv_backward_def split: list.splits)
  from assms c X obtain m nF nH nW where d: "shape dout = [m, nF, nH, nW]"
    by (auto simp add: Conv_backward_def split: list.splits)
  from assms obtain W_rot st b where
    loops: "for_range m (\<lambda>i. for_range nF (\<lambda>c. for_range nH (\<lambda>h. for_range nW (\<lambda>w.
            Conv_backward_cell L X dout W_rot i c h w))))
            (Conv_W_grad L, \<lparr>shape = [mX, C, H, W], entry = (\<lambda>idx. 0)\<rparr>) = Inr st"
    and bias: "for_range (Conv_n_F L) (Conv_backward_bias dout) (Conv_b_grad L) = Inr b"
    and L': "L' = L\<lparr>Conv_W_grad := fst st, Conv_b_grad := b\<rparr>"
    unfolding Conv_backward_def c option.case X d list.case ebind_Inr_iff
    by auto
  from Conv_backward_loops_shape [OF loops] Conv_backward_bias_shape [OF bias] L'
  show ?thesis
    by simp
qed

lemma AdamGD_init_params:
  "AdamGD_init lr beta1 beta2 epsilon params h = Inr A \<Longrightarrow> Adam_params A = params"
  by (auto simp add: AdamGD_init_def ebind_Inr_iff)

lemma Fc_backward_result:
  assumes cache: "Fc_cache L = Some x"
    and x: "shape x = [a, b]"
    and a: "0 < a"
    and d: "shape deltaL = [r, b]"
    and W: "shape (Fc_W_val L) = [r, a]"
  shows "\<exists>L' new_deltaL gW gb. Fc_backward L deltaL = Inr (L', new_deltaL, gW, gb)
     \<and> Fc_W_grad L' = gW \<and> Fc_b_grad L' = gb
     \<and> shape gW = [r, a]
     \<and> (\<forall>i j. i < r \<and> j < a \<longrightarrow>
           entry gW [i, j] = (1 / real a) * (\<Sum>k\<leftarrow>[0..<b]. entry deltaL [i, k] * entry x [j, k]))
     \<and> shape gb = [b]
     \<and> (\<forall>j. j < b \<longrightarrow> entry gb [j] = (1 / real a) * (\<Sum>i\<leftarrow>[0..<r]. entry deltaL [i, j]))
     \<and> shape new_deltaL = [a, b]
     \<and> (\<forall>i j. i < a \<and> j < b \<longrightarrow>
           entry new_deltaL [i, j] = (\<Sum>k\<leftarrow>[0..<r]. entry (Fc_W_val L) [k, i] * entry deltaL [k, j]))"
proof -
  have xT: "shape (np_T x) = [b, a]"
    using x by (simp add: np_T_def)
  have WT: "shape (np_T (Fc_W_val L)) = [a, r]"
    using W by (simp add: np_T_def)
  define D where "D = \<lparr>shape = [r, a],
      entry = (\<lambda>idx. let ia = take 1 idx; ib = drop 1 idx
                     in \<Sum>k\<leftarrow>[0..<b]. entry deltaL (ia @ [k]) * entry (np_T x) (butlast ib @ [k, last ib]))\<rparr>"
  define N where "N = \<lparr>shape = [a, b],
      entry = (\<lambda>idx. let ia = take 1 idx; ib = drop 1 idx
                     in \<Sum>k\<leftarrow>[0..<r]. entry (np_T (Fc_W_val L)) (ia @ [k])
                          * entry deltaL (butlast ib @ [k, last ib]))\<rparr>"
  define S where "S = \<lparr>shape = [b], entry = (\<lambda>idx. \<Sum>k\<leftarrow>[0..<r]. entry deltaL (k # idx))\<rparr>"
  have d1: "np_dot deltaL (np_T x) = Inr D"
    unfolding D_def using d xT by (rule np_dot_22)
  have d2: "np_dot (np_T (Fc_W_val L)) deltaL = Inr N"
    unfolding N_def using WT d by (rule np_dot_22)
  have s: "np_sum_axis0 deltaL = Inr S"
    using d by (simp add: np_sum_axis0_def S_def)
  have r: "Fc_backward L deltaL =
      Inr (L\<lparr>Fc_W_grad := ew1 (\<lambda>t. t / real a) D, Fc_b_grad := ew1 (\<lambda>t. t / real a) S\<rparr>,
           N, ew1 (\<lambda>t. t / real a) D, ew1 (\<lambda>t. t / real a) S)"
    using a by (simp add: Fc_backward_def cache x d1 d2 s Let_def fun_eq_iff ew1_def)
  have eD: "entry D [i, j] = (\<Sum>k\<leftarrow>[0..<b]. entry deltaL [i, k] * entry x [j, k])" for i j
    by (simp add: D_def np_T_def)
  have eN: "entry N [i, j] = (\<Sum>k\<leftarrow>[0..<r]. entry (Fc_W_val L) [k, i] * entry deltaL [k, j])" for i j
    by (simp add: N_def np_T_def)
  have eS: "entry S [j] = (\<Sum>i\<leftarrow>[0..<r]. entry deltaL [i, j])" for j
    by (simp add: S_def)
  have sh: "shape D = [r, a]" "shape N = [a, b]" "shape S = [b]"
    by (simp_all add: D_def N_def S_def)
  show ?thesis
    unfolding r by (simp add: ew1_def eD eN eS sh)
qed

lemma bcast_in_shape: "in_shape (shape A) idx \<Longrightarrow> bcast A idx = entry A idx"
  by (simp add: bcast_def bidx_in_shape)

lemma bshape_rev_absorb: "bshape_rev xs ys = Some zs \<Longrightarrow> bshape_rev xs zs = Some zs"
proof (induction xs ys arbitrary: zs rule: bshape_rev.induct)
  case (1 ys)
  then show ?case
    by simp
next
  case (2 x xs)
  then show ?case
    by (simp add: bshape_rev_same)
next
  case (3 x xs y ys)
  from "3.prems" obtain zs' where r: "bshape_rev xs ys = Some zs'"
    and z: "zs = (if x = y \<or> y = 1 then x else y) # zs'"
    and ok: "x = y \<or> y = 1 \<or> x = 1"
    by (cases "x = y"; cases "y = 1"; cases "x = 1") auto
  have "bshape_rev xs zs' = Some zs'"
    using "3.IH" r ok by blast
  then show ?case
    using z ok by (cases "x = y"; cases "y = 1"; cases "x = 1") simp_all
qed

lemma bshape_absorb:
  assumes "bshape a b = Some c"
  shows "bshape a c = Some c"
proof -
  from assms obtain z where z: "bshape_rev (rev a) (rev b) = Some z" and c: "c = rev z"
    by (auto simp add: bshape_def)
  from bshape_rev_absorb [OF z] show ?thesis
    by (simp add: bshape_def c)
qed

lemma momentum_bc:
  assumes "bshape (shape v) (shape g) \<noteq> None"
  shows "momentum beta v g = Inr (mom beta v g)"
    and "shape (mom beta v g) = the (bshape (shape v) (shape g))"
    and "entry (mom beta v g) idx = beta * bcast v idx + (1 - beta) * bcast g idx"
  using assms by (auto simp add: mom_def momentum_def ew2_def ew1_def bcast_def)

lemma rmsprop_bc:
  assumes "bshape (shape s) (shape g) \<noteq> None"
  shows "rmsprop beta s g = Inr (rms beta s g)"
    and "shape (rms beta s g) = the (bshape (shape s) (shape g))"
    and "entry (rms beta s g) idx = beta * bcast s idx + (1 - beta) * (bcast g idx)\<^sup>2"
  using assms by (auto simp add: rms_def rmsprop_def ew2_def ew1_def bcast_def)

lemma descent_bc:
  assumes "shape s = shape v" and "bshape (shape p) (shape v) = Some (shape v)"
  shows "descent lr epsilon p v s = Inr (desc lr epsilon p v s)"
    and "shape (desc lr epsilon p v s) = shape v"
    and "in_shape (shape v) idx \<Longrightarrow>
      entry (desc lr epsilon p v s) idx =
        bcast p idx - lr * entry v idx / (sqrt (entry s idx) + epsilon)"
  using assms
  by (simp_all add: desc_def descent_def ew2_def ew1_def bshape_same bidx_in_shape bcast_def)

lemma momentum_stmt_eq:
  assumes "grads key = Some g"
  shows "momentum_stmt get upd key grads self =
    (if bshape (shape (get self)) (shape g) = None then Inl ValueError
     else Inr (upd (\<lambda>_. mom (Adam_beta1 self) (get self) g) self))"
  using assms
  by (auto simp add: momentum_stmt_def lookup_def momentum_bc(1))
     (simp add: momentum_def ew2_def ew1_def)

lemma rmsprop_stmt_bc:
  assumes "grads key = Some g" and "bshape (shape (get self)) (shape g) \<noteq> None"
  shows "rmsprop_stmt get upd key grads self =
    Inr (upd (\<lambda>_. rms (Adam_beta2 self) (get self) g) self)"
  using assms by (simp add: rmsprop_stmt_def lookup_def rmsprop_bc(1))

lemma param_stmt_bc:
  assumes "h (Adam_params self) key = Some p"
    and "shape (sd self) = shape (vd self)"
    and "bshape (shape p) (shape (vd self)) = Some (shape (vd self))"
  shows "param_stmt vd sd key self h =
    Inr (h(Adam_params self := (h (Adam_params self))(key \<mapsto>
           desc (Adam_lr self) (Adam_epsilon self) p (vd self) (sd self))))"
  using assms by (simp add: param_stmt_def lookup_def descent_bc(1))

lemma update_params_broadcast:
  assumes pW1: "h (Adam_params A) ''W1'' = Some pW1"
    and gW1: "grads ''dW1'' = Some gW1"
    and cW1: "bshape (shape pW1) (shape gW1) = Some cW1"
    and sW1: "shape (Adam_vdW1 A) = shape pW1" "shape (Adam_sdW1 A) = shape pW1"
    and pW2: "h (Adam_params A) ''W2'' = Some pW2"
    and gW2: "grads ''dW2'' = Some gW2"
    and cW2: "bshape (shape pW2) (shape gW2) = Some cW2"
    and sW2: "shape (Adam_vdW2 A) = shape pW2" "shape (Adam_sdW2 A) = shape pW2"
    and pW3: "h (Adam_params A) ''W3'' = Some pW3"
    and gW3: "grads ''dW3'' = Some gW3"
    and cW3: "bshape (shape pW3) (shape gW3) = Some cW3"
    and sW3: "shape (Adam_vdW3 A) = shape pW3" "shape (Adam_sdW3 A) = shape pW3"
    and pW4: "h (Adam_params A) ''W4'' = Some pW4"
    and gW4: "grads ''dW4'' = Some gW4"
    and cW4: "bshape (shape pW4) (shape gW4) = Some cW4"
    and sW4: "shape (Adam_vdW4 A) = shape pW4" "shape (Adam_sdW4 A) = shape pW4"
    and pW5: "h (Adam_params A) ''W5'' = Some pW5"
    and gW5: "grads ''dW5'' = Some gW5"
    and cW5: "bshape (shape pW5) (shape gW5) = Some cW5"
    and sW5: "shape (Adam_vdW5 A) = shape pW5" "shape (Adam_sdW5 A) = shape pW5"
    and pb1: "h (Adam_params A) ''b1'' = Some pb1"
    and gb1: "grads ''db1'' = Some gb1"
    and cb1: "bshape (shape pb1) (shape gb1) = Some cb1"
    and sb1: "shape (Adam_vdb1 A) = shape pb1" "shape (Adam_sdb1 A) = shape pb1"
    and pb2: "h (Adam_params A) ''b2'' = Some pb2"
    and gb2: "grads ''db2'' = Some gb2"
    and cb2: "bshape (shape pb2) (shape gb2) = Some cb2"
    and sb2: "shape (Adam_vdb2 A) = shape pb2" "shape (Adam_sdb2 A) = shape pb2"
    and pb3: "h (Adam_params A) ''b3'' = Some pb3"
    and gb3: "grads ''db3'' = Some gb3"
    and cb3: "bshape (shape pb3) (shape gb3) = Some cb3"
    and sb3: "shape (Adam_vdb3 A) = shape pb3" "shape (Adam_sdb3 A) = shape pb3"
    and pb4: "h (Adam_params A) ''b4'' = Some pb4"
    and gb4: "grads ''db4'' = Some gb4"
    and cb4: "bshape (shape pb4) (shape gb4) = Some cb4"
    and sb4: "shape (Adam_vdb4 A) = shape pb4" "shape (Adam_sdb4 A) = shape pb4"
    and pb5: "h (Adam_params A) ''b5'' = Some pb5"
    and gb5: "grads ''db5'' = Some gb5"
    and cb5: "bshape (shape pb5) (shape gb5) = Some cb5"
    and sb5: "shape (Adam_vdb5 A) = shape pb5" "shape (Adam_sdb5 A) = shape pb5"
  shows "update_params A grads h =
     Inr (A\<lparr>Adam_vdW1 := mom (Adam_beta1 A) (Adam_vdW1 A) gW1,
        Adam_vdW2 := mom (Adam_beta1 A) (Adam_vdW2 A) gW2,
        Adam_vdW3 := mom (Adam_beta1 A) (Adam_vdW3 A) gW3,
        Adam_vdW4 := mom (Adam_beta1 A) (Adam_vdW4 A) gW4,
        Adam_vdW5 := mom (Adam_beta1 A) (Adam_vdW5 A) gW5,
        Adam_vdb1 := mom (Adam_beta1 A) (Adam_vdb1 A) gb1,
        Adam_vdb2 := mom (Adam_beta1 A) (Adam_vdb2 A) gb2,
        Adam_vdb3 := mom (Adam_beta1 A) (Adam_vdb3 A) gb3,
        Adam_vdb4 := mom (Adam_beta1 A) (Adam_vdb4 A) gb4,
        Adam_vdb5 := mom (Adam_beta1 A) (Adam_vdb5 A) gb5,
        Adam_sdW1 := rms (Adam_beta2 A) (Adam_sdW1 A) gW1,
        Adam_sdW2 := rms (Adam_beta2 A) (Adam_sdW2 A) gW2,
        Adam_sdW3 := rms (Adam_beta2 A) (Adam_sdW3 A) gW3,
        Adam_sdW4 := rms (Adam_beta2 A) (Adam_sdW4 A) gW4,
        Adam_sdW5 := rms (Adam_beta2 A) (Adam_sdW5 A) gW5,
        Adam_sdb1 := rms (Adam_beta2 A) (Adam_sdb1 A) gb1,
        Adam_sdb2 := rms (Adam_beta2 A) (Adam_sdb2 A) gb2,
        Adam_sdb3 := rms (Adam_beta2 A) (Adam_sdb3 A) gb3,
        Adam_sdb4 := rms (Adam_beta2 A) (Adam_sdb4 A) gb4,
        Adam_sdb5 := rms (Adam_beta2 A) (Adam_sdb5 A) gb5\<rparr>,
          Adam_params A,
          h(Adam_params A := (h (Adam_params A))
          (''W1'' \<mapsto> desc (Adam_lr A) (Adam_epsilon A) pW1 (mom (Adam_beta1 A) (Adam_vdW1 A) gW1) (rms (Adam_beta2 A) (Adam_sdW1 A) gW1),
           ''W2'' \<mapsto> desc (Adam_lr A) (Adam_epsilon A) pW2 (mom (Adam_beta1 A) (Adam_vdW2 A) gW2) (rms (Adam_beta2 A) (Adam_sdW2 A) gW2),
           ''W3'' \<mapsto> desc (Adam_lr A) (Adam_epsilon A) pW3 (mom (Adam_beta1 A) (Adam_vdW3 A) gW3) (rms (Adam_beta2 A) (Adam_sdW3 A) gW3),
           ''W4'' \<mapsto> desc (Adam_lr A) (Adam_epsilon A) pW4 (mom (Adam_beta1 A) (Adam_vdW4 A) gW4) (rms (Adam_beta2 A) (Adam_sdW4 A) gW4),
           ''W5'' \<mapsto> desc (Adam_lr A) (Adam_epsilon A) pW5 (mom (Adam_beta1 A) (Adam_vdW5 A) gW5) (rms (Adam_beta2 A) (Adam_sdW5 A) gW5),
           ''b1'' \<mapsto> desc (Adam_lr A) (Adam_epsilon A) pb1 (mom (Adam_beta1 A) (Adam_vdb1 A) gb1) (rms (Adam_beta2 A) (Adam_sdb1 A) gb1),
           ''b2'' \<mapsto> desc (Adam_lr A) (Adam_epsilon A) pb2 (mom (Adam_beta1 A) (Adam_vdb2 A) gb2) (rms (Adam_beta2 A) (Adam_sdb2 A) gb2),
           ''b3'' \<mapsto> desc (Adam_lr A) (Adam_epsilon A) pb3 (mom (Adam_beta1 A) (Adam_vdb3 A) gb3) (rms (Adam_beta2 A) (Adam_sdb3 A) gb3),
           ''b4'' \<mapsto> desc (Adam_lr A) (Adam_epsilon A) pb4 (mom (Adam_beta1 A) (Adam_vdb4 A) gb4) (rms (Adam_beta2 A) (Adam_sdb4 A) gb4),
           ''b5'' \<mapsto> desc (Adam_lr A) (Adam_epsilon A) pb5 (mom (Adam_beta1 A) (Adam_vdb5 A) gb5) (rms (Adam_beta2 A) (Adam_sdb5 A) gb5))))"
proof -

  note aW1 = bshape_absorb [OF cW1]
  note aW2 = bshape_absorb [OF cW2]
  note aW3 = bshape_absorb [OF cW3]
  note aW4 = bshape_absorb [OF cW4]
  note aW5 = bshape_absorb [OF cW5]
  note ab1 = bshape_absorb [OF cb1]
  note ab2 = bshape_absorb [OF cb2]
  note ab3 = bshape_absorb [OF cb3]
  note ab4 = bshape_absorb [OF cb4]
  note ab5 = bshape_absorb [OF cb5]
  show ?thesis
    by (simp add: update_params_def momentum_stmt_eq rmsprop_stmt_bc param_stmt_bc
        momentum_bc(2) rmsprop_bc(2)
        pW1 gW1 cW1 sW1 aW1
        pW2 gW2 cW2 sW2 aW2
        pW3 gW3 cW3 sW3 aW3
        pW4 gW4 cW4 sW4 aW4
        pW5 gW5 cW5 sW5 aW5
        pb1 gb1 cb1 sb1 ab1
        pb2 gb2 cb2 sb2 ab2
        pb3 gb3 cb3 sb3 ab3
        pb4 gb4 cb4 sb4 ab4
        pb5 gb5 cb5 sb5 ab5)
qed

lemma update_params_ValueError:
  assumes gW1: "grads ''dW1'' = Some gW1"
    and gW2: "grads ''dW2'' = Some gW2"
    and gW3: "grads ''dW3'' = Some gW3"
    and gW4: "grads ''dW4'' = Some gW4"
    and gW5: "grads ''dW5'' = Some gW5"
    and gb1: "grads ''db1'' = Some gb1"
    and gb2: "grads ''db2'' = Some gb2"
    and gb3: "grads ''db3'' = Some gb3"
    and gb4: "grads ''db4'' = Some gb4"
    and gb5: "grads ''db5'' = Some gb5"
    and bad: "bshape (shape (Adam_vdW1 A)) (shape gW1) = None
      \<or> bshape (shape (Adam_vdW2 A)) (shape gW2) = None
      \<or> bshape (shape (Adam_vdW3 A)) (shape gW3) = None
      \<or> bshape (shape (Adam_vdW4 A)) (shape gW4) = None
      \<or> bshape (shape (Adam_vdW5 A)) (shape gW5) = None
      \<or> bshape (shape (Adam_vdb1 A)) (shape gb1) = None
      \<or> bshape (shape (Adam_vdb2 A)) (shape gb2) = None
      \<or> bshape (shape (Adam_vdb3 A)) (shape gb3) = None
      \<or> bshape (shape (Adam_vdb4 A)) (shape gb4) = None
      \<or> bshape (shape (Adam_vdb5 A)) (shape gb5) = None"
  shows "update_params A grads h = Inl ValueError"
  using bad
  by (auto simp add: update_params_def momentum_stmt_eq gW1 gW2 gW3 gW4 gW5 gb1 gb2 gb3 gb4 gb5)

lemma ex_adam_init:
  "AdamGD_init 1 (1 / 2) (3 / 4) 1 0 (\<lambda>r. ex_params) =
     Inr \<lparr>Adam_lr = 1, Adam_beta1 = 1 / 2, Adam_beta2 = 3 / 4, Adam_epsilon = 1,
          Adam_params = 0,
          Adam_vdW1 = zeros [2], Adam_vdW2 = zeros [2], Adam_vdW3 = zeros [2],
          Adam_vdW4 = zeros [2], Adam_vdW5 = zeros [2],
          Adam_vdb1 = zeros [2, 1], Adam_vdb2 = zeros [2, 1], Adam_vdb3 = zeros [2, 1],
          Adam_vdb4 = zeros [2, 1], Adam_vdb5 = zeros [2, 1],
          Adam_sdW1 = zeros [2], Adam_sdW2 = zeros [2], Adam_sdW3 = zeros [2],
          Adam_sdW4 = zeros [2], Adam_sdW5 = zeros [2],
          Adam_sdb1 = zeros [2, 1], Adam_sdb2 = zeros [2, 1], Adam_sdb3 = zeros [2, 1],
          Adam_sdb4 = zeros [2, 1], Adam_sdb5 = zeros [2, 1]\<rparr>"
  by (simp add: AdamGD_init_def lookup_def ex_params_def array2_def numeral_2_eq_2)

section \<open>TanH: the claims\<close>

text \<open>
  C8. For an input \<open>X\<close>, \<open>TanH.forward\<close> caches \<open>X\<close> and returns \<open>alpha * tanh X\<close>, entry by
  entry, where \<open>alpha\<close> is 1.7159 when the constructor is given none; and \<open>TanH.backward\<close>,
  called next with a gradient of the shape of \<open>X\<close>, returns \<open>grad * (1 - (tanh X)\<^sup>2)\<close>:
  the derivative of the plain \<open>tanh\<close>, in which \<open>alpha\<close> does not occur, whatever \<open>alpha\<close> is.
\<close>

theorem TanH_forward_backward:
  assumes "TanH_forward L X = (L', Y)"
    and "shape G = shape X"
    and "in_shape (shape X) idx"
  shows "TanH_alpha (TanH_init None) = 1.7159
    \<and> TanH_cache L' = Some X
    \<and> shape Y = shape X
    \<and> entry Y idx = TanH_alpha L * tanh (entry X idx)
    \<and> (\<exists>R. TanH_backward L' G = Inr R
          \<and> TanH_backward (L'\<lparr>TanH_alpha := a\<rparr>) G = Inr R
          \<and> shape R = shape X
          \<and> entry R idx = entry G idx * (1 - (tanh (entry X idx))\<^sup>2))"
proof -
  from assms(1) have L': "L' = L\<lparr>TanH_cache := Some X\<rparr>"
    and Y: "Y = ew1 (\<lambda>t. TanH_alpha L * t) (ew1 tanh X)"
    by (simp_all add: TanH_forward_def)
  have b: "bshape (shape G) (shape X) = Some (shape X)"
    using assms(2) by (simp add: bshape_same)
  have i: "bidx (shape X) idx = idx"
    using assms(3) by (rule bidx_in_shape)
  show ?thesis
    using b i assms(2)
    by (simp add: L' Y TanH_init_def TanH_backward_def ew1_def ew2_def)
qed

theorem TanH_forward_backward_witness:
  "TanH_cache (fst (TanH_forward (TanH_init None) \<lparr>shape = [2], entry = (\<lambda>idx. 0)\<rparr>))
     = Some \<lparr>shape = [2], entry = (\<lambda>idx. 0)\<rparr>
   \<and> entry (snd (TanH_forward (TanH_init None) \<lparr>shape = [2], entry = (\<lambda>idx. 0)\<rparr>)) [1] = 0
   \<and> (\<exists>R. TanH_backward (fst (TanH_forward (TanH_init None) \<lparr>shape = [2], entry = (\<lambda>idx. 0)\<rparr>))
             \<lparr>shape = [2], entry = (\<lambda>idx. 3)\<rparr> = Inr R
         \<and> entry R [1] = 3)"
  using TanH_forward_backward [of "TanH_init None" "\<lparr>shape = [2], entry = (\<lambda>idx. 0)\<rparr>"
      "fst (TanH_forward (TanH_init None) \<lparr>shape = [2], entry = (\<lambda>idx. 0)\<rparr>)"
      "snd (TanH_forward (TanH_init None) \<lparr>shape = [2], entry = (\<lambda>idx. 0)\<rparr>)"
      "\<lparr>shape = [2], entry = (\<lambda>idx. 3)\<rparr>" "[1]" 1]
  by (auto simp add: in_shape_def)

section \<open>Conv.forward: the claims\<close>

text \<open>
  C1, as amended. Let \<open>X\<close> have the shape \<open>[m, C, H, W]\<close> with \<open>C\<close> the layer's number of
  channels, let the stride be positive, and let the last window lie inside \<open>X\<close> on both
  axes: \<open>((H + 2p - f) div s) * s + f \<le> H\<close>, and the same for \<open>W\<close> (with \<open>p = 0\<close> this says
  \<open>f \<le> H\<close> and \<open>f \<le> W\<close>). Then \<open>Conv.forward\<close> caches \<open>X\<close> and returns an array of the shape
  \<open>[m, n_F, (H + 2p - f) div s + 1, (W + 2p - f) div s + 1]\<close> whose entry at \<open>[i, c, h, w]\<close>
  is the sum, over all channels \<open>k\<close> and all offsets \<open>a, b < f\<close>, of
  \<open>X[i, k, h*s + a, w*s + b] * W[c, k, a, b]\<close>, plus the bias \<open>b[c, 0]\<close>.
\<close>

theorem Conv_forward_correct:
  assumes X: "shape X = [m, C, H, W]"
    and wf: "Conv_wf L"
    and C: "C = Conv_n_C L"
    and s: "0 < Conv_s L"
    and fitH: "((H + 2 * Conv_p L - Conv_f L) div Conv_s L) * Conv_s L + Conv_f L \<le> H"
    and fitW: "((W + 2 * Conv_p L - Conv_f L) div Conv_s L) * Conv_s L + Conv_f L \<le> W"
  shows "\<exists>L' out. Conv_forward L X = Inr (L', out)
     \<and> L' = L\<lparr>Conv_cache := Some X\<rparr>
     \<and> shape out = [m, Conv_n_F L, (H + 2 * Conv_p L - Conv_f L) div Conv_s L + 1,
                     (W + 2 * Conv_p L - Conv_f L) div Conv_s L + 1]
     \<and> (\<forall>i c h w. i < m \<and> c < Conv_n_F L
           \<and> h < (H + 2 * Conv_p L - Conv_f L) div Conv_s L + 1
           \<and> w < (W + 2 * Conv_p L - Conv_f L) div Conv_s L + 1 \<longrightarrow>
          entry out [i, c, h, w] =
            (\<Sum>k\<leftarrow>[0..<C]. \<Sum>a\<leftarrow>[0..<Conv_f L]. \<Sum>b\<leftarrow>[0..<Conv_f L].
               entry X [i, k, h * Conv_s L + a, w * Conv_s L + b]
               * entry (Conv_W_val L) [c, k, a, b])
            + entry (Conv_b_val L) [c, 0])"
proof -
  let ?nH = "(H + 2 * Conv_p L - Conv_f L) div Conv_s L + 1"
  let ?nW = "(W + 2 * Conv_p L - Conv_f L) div Conv_s L + 1"
  note r = Conv_forward_result [OF X wf C s fitH fitW refl refl]
  have "entry (ovw \<lparr>shape = [m, Conv_n_F L, ?nH, ?nW], entry = (\<lambda>idx. 0)\<rparr>
      (\<lambda>idx. \<exists>i<m. \<exists>c<Conv_n_F L. \<exists>h<?nH. \<exists>w<?nW. idx = [i, c, h, w])
      (\<lambda>idx. (\<Sum>k\<leftarrow>[0..<C]. \<Sum>a\<leftarrow>[0..<Conv_f L]. \<Sum>b\<leftarrow>[0..<Conv_f L].
                 entry X [idx ! 0, k, idx ! 2 * Conv_s L + a, idx ! 3 * Conv_s L + b]
                 * entry (Conv_W_val L) [idx ! 1, k, a, b])
              + entry (Conv_b_val L) [idx ! 1, 0])) [i, c, h, w]
     = (\<Sum>k\<leftarrow>[0..<C]. \<Sum>a\<leftarrow>[0..<Conv_f L]. \<Sum>b\<leftarrow>[0..<Conv_f L].
               entry X [i, k, h * Conv_s L + a, w * Conv_s L + b]
               * entry (Conv_W_val L) [c, k, a, b])
            + entry (Conv_b_val L) [c, 0]"
    if "i < m \<and> c < Conv_n_F L \<and> h < ?nH \<and> w < ?nW" for i c h w
    using that by (simp add: ovw_def)
  with r show ?thesis
    by simp
qed

theorem Conv_forward_correct_witness:
  "\<exists>L' out. Conv_forward ex_conv ex_X33 = Inr (L', out)
     \<and> shape out = [1, 1, 2, 2] \<and> entry out [0, 0, 1, 1] = 24"
proof -
  have sh: "shape ex_X33 = [1, 1, 3, 3]"
    by (simp add: ex_X33_def array4_def)
  have wf: "Conv_wf ex_conv"
    by (simp add: ex_conv_def Conv_init_def Conv_wf_def)
  have par: "Conv_n_C ex_conv = 1" "Conv_s ex_conv = 1" "Conv_p ex_conv = 0"
    "Conv_f ex_conv = 2" "Conv_n_F ex_conv = 1"
    by (simp_all add: ex_conv_def Conv_init_def)
  obtain L' out where r: "Conv_forward ex_conv ex_X33 = Inr (L', out)"
    and s: "shape out = [1, Conv_n_F ex_conv, (3 + 2 * Conv_p ex_conv - Conv_f ex_conv) div Conv_s ex_conv + 1,
                     (3 + 2 * Conv_p ex_conv - Conv_f ex_conv) div Conv_s ex_conv + 1]"
    and e: "\<forall>i c h w. i < 1 \<and> c < Conv_n_F ex_conv
           \<and> h < (3 + 2 * Conv_p ex_conv - Conv_f ex_conv) div Conv_s ex_conv + 1
           \<and> w < (3 + 2 * Conv_p ex_conv - Conv_f ex_conv) div Conv_s ex_conv + 1 \<longrightarrow>
          entry out [i, c, h, w] =
            (\<Sum>k\<leftarrow>[0..<1]. \<Sum>a\<leftarrow>[0..<Conv_f ex_conv]. \<Sum>b\<leftarrow>[0..<Conv_f ex_conv].
               entry ex_X33 [i, k, h * Conv_s ex_conv + a, w * Conv_s ex_conv + b]
               * entry (Conv_W_val ex_conv) [c, k, a, b])
            + entry (Conv_b_val ex_conv) [c, 0]"
    using Conv_forward_correct [OF sh wf] by (auto simp add: par)
  have "entry out [0, 0, 1, 1] = 24"
    using e [rule_format, of 0 0 1 1]
    by (simp add: par) (simp add: ex_conv_def ex_X33_def array4_def Conv_init_def eval_nat_numeral)
  with r s show ?thesis
    by (simp add: par)
qed

text \<open>
  C1 as stated fails. \<open>X\<close> is never padded: for a layer of one 3 by 3 filter with stride 1
  and padding 1, on an input of shape \<open>[1, 1, 3, 3]\<close>, the second window is cut to two columns
  at the border of \<open>X\<close> and its product with the filter raises ValueError. And \<^verbatim>\<open>int\<close> rounds
  towards zero: a 2 by 2 filter with stride 2 on an input of shape \<open>[1, 1, 1, 1]\<close> gives an
  output of shape \<open>[1, 1, 1, 1]\<close>, where \<open>floor((1 - 2) / 2) + 1 = 0\<close>.
\<close>

theorem Conv_forward_counterexample:
  "map_sum id (shape \<circ> snd) (Conv_forward ex_conv_pad ex_X33) = Inl ValueError
   \<and> map_sum id (shape \<circ> snd) (Conv_forward ex_conv_big (array4 [[[[5]]]])) = Inr [1, 1, 1, 1]"
  by code_simp

section \<open>Conv.backward: the claims\<close>

text \<open>
  C5. Let \<open>X\<close> of shape \<open>[mX, C, H, W]\<close> be the cached input, and \<open>dout\<close> have the shape
  \<open>[m, n_F, nH, nW]\<close> with \<open>m \<le> mX\<close> and every window \<open>h < nH\<close>, \<open>w < nW\<close> inside \<open>X\<close>. Then
  \<open>Conv.backward\<close> returns, and the weight gradient it leaves in the layer is the one at
  entry plus, for each filter \<open>c\<close>, the sum over the batch and the output positions of
  \<open>dout[i, c, h, w] * X[i, :, h*s : h*s+f, w*s : w*s+f]\<close>: it is accumulated, never reset, so
  it equals that sum when the gradient is all zeros at entry. The bias gradient of filter
  \<open>c\<close> is set to the sum of \<open>dout[i, c, h, w]\<close> over the batch and the output positions.
\<close>

theorem Conv_backward_gradients:
  assumes cache: "Conv_cache L = Some X"
    and X: "shape X = [mX, C, H, W]"
    and wf: "Conv_wf L"
    and C: "C = Conv_n_C L"
    and d: "shape dout = [m, Conv_n_F L, nH, nW]"
    and mm: "m \<le> mX"
    and fitH: "\<forall>h<nH. h * Conv_s L + Conv_f L \<le> H"
    and fitW: "\<forall>w<nW. w * Conv_s L + Conv_f L \<le> W"
  shows "\<exists>L' dX gW gb. Conv_backward L dout = Inr (L', dX, gW, gb)
     \<and> Conv_W_grad L' = gW \<and> Conv_b_grad L' = gb
     \<and> (\<forall>c k a b. c < Conv_n_F L \<and> k < C \<and> a < Conv_f L \<and> b < Conv_f L \<longrightarrow>
          entry gW [c, k, a, b] = entry (Conv_W_grad L) [c, k, a, b] +
            (\<Sum>i\<leftarrow>[0..<m]. \<Sum>h\<leftarrow>[0..<nH]. \<Sum>w\<leftarrow>[0..<nW].
               entry dout [i, c, h, w] * entry X [i, k, h * Conv_s L + a, w * Conv_s L + b])
          \<and> ((\<forall>idx. entry (Conv_W_grad L) idx = 0) \<longrightarrow>
               entry gW [c, k, a, b] =
                 (\<Sum>i\<leftarrow>[0..<m]. \<Sum>h\<leftarrow>[0..<nH]. \<Sum>w\<leftarrow>[0..<nW].
                    entry dout [i, c, h, w]
                    * entry X [i, k, h * Conv_s L + a, w * Conv_s L + b])))
     \<and> (\<forall>c. c < Conv_n_F L \<longrightarrow>
          entry gb [c, 0] = (\<Sum>i\<leftarrow>[0..<m]. \<Sum>h\<leftarrow>[0..<nH]. \<Sum>w\<leftarrow>[0..<nW]. entry dout [i, c, h, w]))"
proof -
  define gW where "gW = acc (Conv_W_grad L)
        (\<lambda>idx. \<Sum>i\<leftarrow>[0..<m]. \<Sum>c\<leftarrow>[0..<Conv_n_F L]. \<Sum>h\<leftarrow>[0..<nH]. \<Sum>w\<leftarrow>[0..<nW].
                dW_term X dout (Conv_s L) (Conv_f L) C i c h w idx)"
  define dX where "dX = acc \<lparr>shape = shape X, entry = (\<lambda>idx. 0)\<rparr>
        (\<lambda>idx. \<Sum>i\<leftarrow>[0..<m]. \<Sum>c\<leftarrow>[0..<Conv_n_F L]. \<Sum>h\<leftarrow>[0..<nH]. \<Sum>w\<leftarrow>[0..<nW].
                dX_term (flip01 (Conv_W_val L)) dout (Conv_s L) (Conv_f L) C i c h w idx)"
  define gb where "gb = ovw (Conv_b_grad L) (\<lambda>idx. \<exists>c<Conv_n_F L. idx = [c, 0])
          (\<lambda>idx. \<Sum>i\<leftarrow>[0..<m]. \<Sum>h\<leftarrow>[0..<nH]. \<Sum>w\<leftarrow>[0..<nW]. entry dout [i, hd idx, h, w])"
  have r: "Conv_backward L dout = Inr (L\<lparr>Conv_W_grad := gW, Conv_b_grad := gb\<rparr>, dX, gW, gb)"
    using cache X wf C d mm
  proof (rule Conv_backward_result)
    show "h * Conv_s L + Conv_f L \<le> H" if "h < nH" for h
      using fitH that by simp
    show "w * Conv_s L + Conv_f L \<le> W" if "w < nW" for w
      using fitW that by simp
  qed (simp_all add: gW_def dX_def gb_def)
  have w: "entry gW [c, k, a, b] = entry (Conv_W_grad L) [c, k, a, b] +
            (\<Sum>i\<leftarrow>[0..<m]. \<Sum>h\<leftarrow>[0..<nH]. \<Sum>w\<leftarrow>[0..<nW].
               entry dout [i, c, h, w] * entry X [i, k, h * Conv_s L + a, w * Conv_s L + b])"
    if "c < Conv_n_F L \<and> k < C \<and> a < Conv_f L \<and> b < Conv_f L" for c k a b
    using that by (simp add: gW_def acc_def dW_term_sum)
  have b: "entry gb [c, 0] = (\<Sum>i\<leftarrow>[0..<m]. \<Sum>h\<leftarrow>[0..<nH]. \<Sum>w\<leftarrow>[0..<nW]. entry dout [i, c, h, w])"
    if "c < Conv_n_F L" for c
    using that by (simp add: gb_def ovw_def)
  show ?thesis
    using r w b by simp
qed

text \<open>
  The theorem at the layer \<open>ex_conv\<close> after \<open>forward\<close> on \<open>ex_X33\<close>, with \<open>dout\<close> all ones.
\<close>

theorem Conv_backward_gradients_witness:
  "\<exists>L' dX gW gb. Conv_backward ex_conv_fwd (array4 [[[[1, 1], [1, 1]]]]) = Inr (L', dX, gW, gb)
     \<and> Conv_W_grad L' = gW \<and> entry gW [0, 0, 0, 0] = 12 \<and> entry gb [0, 0] = 4"
proof -
  have cache: "Conv_cache ex_conv_fwd = Some ex_X33"
    by (simp add: ex_conv_fwd_def)
  have sh: "shape ex_X33 = [1, 1, 3, 3]"
    by (simp add: ex_X33_def array4_def)
  have wf: "Conv_wf ex_conv_fwd"
    by (simp add: ex_conv_fwd_def ex_conv_def Conv_init_def Conv_wf_def)
  have par: "Conv_n_C ex_conv_fwd = 1" "Conv_s ex_conv_fwd = 1"
    "Conv_f ex_conv_fwd = 2" "Conv_n_F ex_conv_fwd = 1"
    by (simp_all add: ex_conv_fwd_def ex_conv_def Conv_init_def)
  have d: "shape (array4 [[[[1, 1], [1, 1]]]]) = [1, Conv_n_F ex_conv_fwd, 2, 2]"
    by (simp add: array4_def par)
  have fit: "\<forall>h<2. h * Conv_s ex_conv_fwd + Conv_f ex_conv_fwd \<le> 3"
    by (simp add: par)
  from Conv_backward_gradients [OF cache sh wf _ d _ fit fit]
  obtain L' dX gW gb where r: "Conv_backward ex_conv_fwd (array4 [[[[1, 1], [1, 1]]]]) = Inr (L', dX, gW, gb)"
    and g: "Conv_W_grad L' = gW"
    and w: "\<forall>c k a b. c < Conv_n_F ex_conv_fwd \<and> k < 1 \<and> a < Conv_f ex_conv_fwd \<and> b < Conv_f ex_conv_fwd \<longrightarrow>
          entry gW [c, k, a, b] = entry (Conv_W_grad ex_conv_fwd) [c, k, a, b] +
            (\<Sum>i\<leftarrow>[0..<1]. \<Sum>h\<leftarrow>[0..<2]. \<Sum>w\<leftarrow>[0..<2].
               entry (array4 [[[[1, 1], [1, 1]]]]) [i, c, h, w]
               * entry ex_X33 [i, k, h * Conv_s ex_conv_fwd + a, w * Conv_s ex_conv_fwd + b])
          \<and> ((\<forall>idx. entry (Conv_W_grad ex_conv_fwd) idx = 0) \<longrightarrow>
               entry gW [c, k, a, b] =
                 (\<Sum>i\<leftarrow>[0..<1]. \<Sum>h\<leftarrow>[0..<2]. \<Sum>w\<leftarrow>[0..<2].
                    entry (array4 [[[[1, 1], [1, 1]]]]) [i, c, h, w]
                    * entry ex_X33 [i, k, h * Conv_s ex_conv_fwd + a, w * Conv_s ex_conv_fwd + b]))"
    and b: "\<forall>c. c < Conv_n_F ex_conv_fwd \<longrightarrow>
          entry gb [c, 0] = (\<Sum>i\<leftarrow>[0..<1]. \<Sum>h\<leftarrow>[0..<2]. \<Sum>w\<leftarrow>[0..<2].
              entry (array4 [[[[1, 1], [1, 1]]]]) [i, c, h, w])"
    by (auto simp add: par)
  have "entry gW [0, 0, 0, 0] = 12"
    using w [rule_format, of 0 0 0 0]
    by (simp add: par) (simp add: ex_conv_fwd_def ex_conv_def ex_X33_def array4_def Conv_init_def eval_nat_numeral)
  moreover have "entry gb [0, 0] = 4"
    using b [rule_format, of 0]
    by (simp add: par) (simp add: array4_def eval_nat_numeral)
  ultimately show ?thesis
    using r g by simp
qed

text \<open>
  C2 fails on the code. \<^verbatim>\<open>np.rot90\<close> rotates in the plane of the first two axes, which for
  the weights are the filter axis and the channel axis: \<open>W_rot[c, k, a, b]\<close> is
  \<open>W[n_F - 1 - c, n_C - 1 - k, a, b]\<close>, and no filter is rotated in space. For two 2 by 2
  filters \<open>[[1, 2], [3, 4]]\<close> and \<open>[[5, 6], [7, 8]]\<close> of one channel and a \<open>dout\<close> that is 1 at
  filter 0 and 0 at filter 1, \<open>dX\<close> is the second filter as it stands, \<open>[[5, 6], [7, 8]]\<close>;
  the spatial rotation of the first filter is \<open>[[4, 3], [2, 1]]\<close>.
\<close>

theorem Conv_backward_rotation_example:
  "map_sum id (\<lambda>r. map (entry (fst (snd r))) [[0, 0, 0, 0], [0, 0, 0, 1], [0, 0, 1, 0], [0, 0, 1, 1]])
     (Conv_backward ex_conv2 (array4 [[[[1]], [[0]]]])) = Inr [5, 6, 7, 8]"
  by code_simp

text \<open>
  C10, as amended. \<open>Conv.backward\<close> does not compare the shape of \<open>dout\<close> with the shape of
  the forward output. When the windows of the forward pass lie inside the cached \<open>X\<close>, every
  \<open>dout\<close> of shape \<open>[m, n_F, nH, nW]\<close> with \<open>m\<close>, \<open>nH\<close> and \<open>nW\<close> at most the batch size and the
  dimensions of the forward output, equal to them or not, is accepted: the call returns, and
  \<open>dX\<close> has the shape of \<open>X\<close>.
\<close>

theorem Conv_backward_no_validation:
  assumes cache: "Conv_cache L = Some X"
    and X: "shape X = [mX, C, H, W]"
    and wf: "Conv_wf L"
    and C: "C = Conv_n_C L"
    and s: "0 < Conv_s L"
    and fitH: "((H + 2 * Conv_p L - Conv_f L) div Conv_s L) * Conv_s L + Conv_f L \<le> H"
    and fitW: "((W + 2 * Conv_p L - Conv_f L) div Conv_s L) * Conv_s L + Conv_f L \<le> W"
    and d: "shape dout = [m, Conv_n_F L, nH, nW]"
    and mm: "m \<le> mX"
    and nH: "nH \<le> (H + 2 * Conv_p L - Conv_f L) div Conv_s L + 1"
    and nW: "nW \<le> (W + 2 * Conv_p L - Conv_f L) div Conv_s L + 1"
  shows "\<exists>L' dX gW gb. Conv_backward L dout = Inr (L', dX, gW, gb) \<and> shape dX = shape X"
proof -
  have fh: "h * Conv_s L + Conv_f L \<le> H" if "h < nH" for h
    using s fitH by (rule window_fits) (use that nH in simp)
  have fw: "w * Conv_s L + Conv_f L \<le> W" if "w < nW" for w
    using s fitW by (rule window_fits) (use that nW in simp)
  from Conv_backward_result [OF cache X wf C d mm fh fw refl refl refl]
  show ?thesis
    by simp
qed

text \<open>
  The theorem at a \<open>dout\<close> of shape \<open>[1, 1, 1, 1]\<close>, where the forward output has the shape
  \<open>[1, 1, 2, 2]\<close>.
\<close>

theorem Conv_backward_no_validation_witness:
  "\<exists>L' dX gW gb. Conv_backward ex_conv_fwd (array4 [[[[1]]]]) = Inr (L', dX, gW, gb)
     \<and> shape dX = [1, 1, 3, 3]"
proof -
  have cache: "Conv_cache ex_conv_fwd = Some ex_X33"
    by (simp add: ex_conv_fwd_def)
  have sh: "shape ex_X33 = [1, 1, 3, 3]"
    by (simp add: ex_X33_def array4_def)
  have wf: "Conv_wf ex_conv_fwd"
    by (simp add: ex_conv_fwd_def ex_conv_def Conv_init_def Conv_wf_def)
  have par: "Conv_n_C ex_conv_fwd = 1" "Conv_s ex_conv_fwd = 1" "Conv_p ex_conv_fwd = 0"
    "Conv_f ex_conv_fwd = 2" "Conv_n_F ex_conv_fwd = 1"
    by (simp_all add: ex_conv_fwd_def ex_conv_def Conv_init_def)
  have d: "shape (array4 [[[[1]]]]) = [1, Conv_n_F ex_conv_fwd, 1, 1]"
    by (simp add: array4_def par)
  have C: "1 = Conv_n_C ex_conv_fwd" and s: "0 < Conv_s ex_conv_fwd"
    by (simp_all add: par)
  have fit: "((3 + 2 * Conv_p ex_conv_fwd - Conv_f ex_conv_fwd) div Conv_s ex_conv_fwd)
      * Conv_s ex_conv_fwd + Conv_f ex_conv_fwd \<le> 3"
    by (simp add: par)
  have n: "1 \<le> (3 + 2 * Conv_p ex_conv_fwd - Conv_f ex_conv_fwd) div Conv_s ex_conv_fwd + 1"
    by simp
  have "\<exists>L' dX gW gb. Conv_backward ex_conv_fwd (array4 [[[[1]]]]) = Inr (L', dX, gW, gb)
     \<and> shape dX = shape ex_X33"
    using cache sh wf C s fit fit d _ n n by (rule Conv_backward_no_validation) simp
  then show ?thesis
    by (simp add: sh)
qed

text \<open>
  C10 as stated fails: the forward output of \<open>ex_conv\<close> on \<open>ex_X33\<close> has the shape
  \<open>[1, 1, 2, 2]\<close>, and \<open>backward\<close> on a \<open>dout\<close> of shape \<open>[1, 1, 1, 1]\<close> raises nothing: it
  returns a \<open>dX\<close> computed from the first window alone.
\<close>

theorem Conv_backward_validation_counterexample:
  "map_sum id (shape \<circ> snd) (Conv_forward ex_conv ex_X33) = Inr [1, 1, 2, 2]
   \<and> shape (array4 [[[[1]]]]) = [1, 1, 1, 1]
   \<and> map_sum id (\<lambda>r. map (entry (fst (snd r))) [[0, 0, 0, 0], [0, 0, 1, 1], [0, 0, 2, 2]])
        (Conv_backward ex_conv_fwd (array4 [[[[1]]]])) = Inr [1, 1, 0]"
  by code_simp

section \<open>AvgPool: the claims\<close>

text \<open>
  C3 fails on the code. \<^verbatim>\<open>np.mean\<close> is called without an axis on the window with all its
  channels, and the one number it returns is stored at every channel. On an input of shape
  \<open>[1, 2, 2, 2]\<close> whose first channel is all 1 and whose second channel is all 3, a 2 by 2
  pooling with stride 2 returns 2 at both channels; the means per channel are 1 and 3.
\<close>

theorem AvgPool_forward_example:
  "map_sum id (\<lambda>r. (shape (snd r), map (entry (snd r)) [[0, 0, 0, 0], [0, 1, 0, 0]]))
     (AvgPool_forward (AvgPool_init 2 2) ex_X1222) = Inr ([1, 2, 1, 1], [2, 2])"
  by code_simp

text \<open>
  C4, as amended. Let \<open>X\<close> of shape \<open>[mX, C, H, W]\<close> be the cached input, and \<open>dout\<close> have the shape
  \<open>[m, nC, nH, nW]\<close> with \<open>m \<le> mX\<close>, \<open>nC \<le> C\<close> and every window \<open>h < nH\<close>, \<open>w < nW\<close> inside \<open>X\<close>.
  Then \<open>AvgPool.backward\<close> returns an array of the shape of \<open>X\<close> whose entry at \<open>[i, k, y, x]\<close>
  is the entry of \<open>X\<close> there (\<open>dX\<close> starts as a copy of \<open>X\<close>, not as zeros) plus, for every window
  \<open>(h, w)\<close> that covers \<open>(y, x)\<close>, \<open>dout[i, k, h, w] / (nH * nW)\<close>: the divisor is the number of
  output positions, not \<open>f * f\<close>. Hence, when such a \<open>dout\<close> is all zeros, the array returned is \<open>X\<close>.
\<close>

theorem AvgPool_backward_correct:
  assumes cache: "AvgPool_cache L = Some X"
    and X: "shape X = [mX, C, H, W]"
    and d: "shape dout = [m, nC, nH, nW]"
    and mm: "m \<le> mX" and cc: "nC \<le> C"
    and fitH: "\<forall>h<nH. h * AvgPool_s L + AvgPool_f L \<le> H"
    and fitW: "\<forall>w<nW. w * AvgPool_s L + AvgPool_f L \<le> W"
  shows "\<exists>dX. AvgPool_backward L dout = Inr (Some dX)
     \<and> shape dX = shape X
     \<and> (\<forall>i k y x. entry dX [i, k, y, x] = entry X [i, k, y, x] +
          (if i < m \<and> k < nC then
             \<Sum>h\<leftarrow>[0..<nH]. \<Sum>w\<leftarrow>[0..<nW].
               (if h * AvgPool_s L \<le> y \<and> y < h * AvgPool_s L + AvgPool_f L
                   \<and> w * AvgPool_s L \<le> x \<and> x < w * AvgPool_s L + AvgPool_f L
                then entry dout [i, k, h, w] / real (nH * nW) else 0)
           else 0))
     \<and> ((\<forall>idx. in_shape (shape dout) idx \<longrightarrow> entry dout idx = 0) \<longrightarrow> dX = X)"
proof -
  let ?D = "\<lambda>idx. \<Sum>i\<leftarrow>[0..<m]. \<Sum>c\<leftarrow>[0..<nC]. \<Sum>h\<leftarrow>[0..<nH]. \<Sum>w\<leftarrow>[0..<nW].
       pool_term dout (AvgPool_s L) (AvgPool_f L) nH nW i c h w idx"
  have r: "AvgPool_backward L dout = Inr (Some (acc X ?D))"
    using cache X d mm cc
  proof (rule AvgPool_backward_result)
    show "h * AvgPool_s L + AvgPool_f L \<le> H" if "h < nH" for h
      using fitH that by simp
    show "w * AvgPool_s L + AvgPool_f L \<le> W" if "w < nW" for w
      using fitW that by simp
  qed
  have z: "acc X ?D = X" if zero: "\<forall>idx. in_shape (shape dout) idx \<longrightarrow> entry dout idx = 0"
  proof -
    have "pool_term dout (AvgPool_s L) (AvgPool_f L) nH nW i c h w idx = 0"
      if "i < m" "c < nC" "h < nH" "w < nW" for i c h w idx
    proof -
      have "entry dout [i, c, h, w] = 0"
        using zero that d by simp
      then show ?thesis
        by (simp add: pool_term_def split: list.splits)
    qed
    then have "?D idx = 0" for idx
      by (intro sum_list_upt_zero) simp
    then show ?thesis
      by (simp add: acc_zero)
  qed
  show ?thesis
    using r z by (simp add: acc_def pool_term_sum)
qed

text \<open>
  The theorem at a 2 by 2 pooling with stride 1 of an input of 3 rows and 4 columns, where
  \<open>nH * nW = 6\<close> and \<open>f * f = 4\<close>: with \<open>dout = [[6, 12, 0], [0, 0, 0]]\<close>, the entry at \<open>(0, 1)\<close> is
  \<open>X[0, 1] + 6/6 + 12/6\<close>; with \<open>dout\<close> all zeros, \<open>backward\<close> returns the input.
\<close>

theorem AvgPool_backward_correct_witness:
  "(\<exists>dX. AvgPool_backward ex_pool34 (array4 [[[[6, 12, 0], [0, 0, 0]]]]) = Inr (Some dX)
      \<and> shape dX = [1, 1, 3, 4] \<and> entry dX [0, 0, 0, 1] = 2 + (6 / 6 + 12 / 6))
   \<and> AvgPool_backward ex_pool34 \<lparr>shape = [1, 1, 2, 3], entry = (\<lambda>idx. 0)\<rparr> = Inr (Some ex_X34)"
proof -
  have cache: "AvgPool_cache ex_pool34 = Some ex_X34"
    by (simp add: ex_pool34_def)
  have sh: "shape ex_X34 = [1, 1, 3, 4]"
    by (simp add: ex_X34_def array4_def)
  have par: "AvgPool_s ex_pool34 = 1" "AvgPool_f ex_pool34 = 2"
    by (simp_all add: ex_pool34_def AvgPool_init_def)
  have fitH: "\<forall>h<2. h * AvgPool_s ex_pool34 + AvgPool_f ex_pool34 \<le> 3"
    and fitW: "\<forall>w<3. w * AvgPool_s ex_pool34 + AvgPool_f ex_pool34 \<le> 4"
    by (simp_all add: par)
  have d: "shape (array4 [[[[6, 12, 0], [0, 0, 0]]]]) = [1, 1, 2, 3]"
    by (simp add: array4_def)
  have dz: "shape \<lparr>shape = [1, 1, 2, 3], entry = (\<lambda>idx. 0::real)\<rparr> = [1, 1, 2, 3]"
    by simp
  have le: "(1::nat) \<le> 1"
    by simp
  from AvgPool_backward_correct [OF cache sh d le le fitH fitW]
  obtain dX where r: "AvgPool_backward ex_pool34 (array4 [[[[6, 12, 0], [0, 0, 0]]]]) = Inr (Some dX)"
    and s: "shape dX = shape ex_X34"
    and e: "\<forall>i k y x. entry dX [i, k, y, x] = entry ex_X34 [i, k, y, x] +
          (if i < 1 \<and> k < 1 then
             \<Sum>h\<leftarrow>[0..<2]. \<Sum>w\<leftarrow>[0..<3].
               (if h * AvgPool_s ex_pool34 \<le> y \<and> y < h * AvgPool_s ex_pool34 + AvgPool_f ex_pool34
                   \<and> w * AvgPool_s ex_pool34 \<le> x \<and> x < w * AvgPool_s ex_pool34 + AvgPool_f ex_pool34
                then entry (array4 [[[[6, 12, 0], [0, 0, 0]]]]) [i, k, h, w] / real (2 * 3) else 0)
           else 0)"
    by blast
  have "entry dX [0, 0, 0, 1] = 2 + (6 / 6 + 12 / 6)"
    using e [rule_format, of 0 0 0 1]
    by (simp add: par) (simp add: ex_X34_def array4_def eval_nat_numeral)
  with r s sh have first: "\<exists>dX. AvgPool_backward ex_pool34 (array4 [[[[6, 12, 0], [0, 0, 0]]]]) = Inr (Some dX)
      \<and> shape dX = [1, 1, 3, 4] \<and> entry dX [0, 0, 0, 1] = 2 + (6 / 6 + 12 / 6)"
    by simp
  from AvgPool_backward_correct [OF cache sh dz le le fitH fitW]
  have "AvgPool_backward ex_pool34 \<lparr>shape = [1, 1, 2, 3], entry = (\<lambda>idx. 0)\<rparr> = Inr (Some ex_X34)"
    by auto
  with first show ?thesis
    by simp
qed

text \<open>
  C4 as stated fails: not for every cached \<open>X\<close>. A 2 by 2 pooling with stride 2 accepts an input
  of one row and one column: \<^verbatim>\<open>int((1 - 2) / 2) + 1 = 1\<close>, so \<open>forward\<close> returns an output of shape
  \<open>[1, 1, 1, 1]\<close> and caches the input. On the all-zero \<open>dout\<close> of that shape \<open>backward\<close> adds a 2 by 2
  array to the window of \<open>dX\<close>, which is clipped to 1 by 1, and raises ValueError.
\<close>

theorem AvgPool_backward_counterexample:
  "map_sum id (\<lambda>r. (map_option shape (AvgPool_cache (fst r)), shape (snd r)))
     (AvgPool_forward (AvgPool_init 2 2) (array4 [[[[5]]]])) = Inr (Some [1, 1, 1, 1], [1, 1, 1, 1])
   \<and> map_sum id (map_option shape)
        (ebind (AvgPool_forward (AvgPool_init 2 2) (array4 [[[[5]]]]))
           (\<lambda>r. AvgPool_backward (fst r) \<lparr>shape = [1, 1, 1, 1], entry = (\<lambda>idx. 0)\<rparr>))
      = Inl ValueError"
  by code_simp

section \<open>Fc: the claims\<close>

text \<open>
  C6 fails on the code. The bias gradient is \<^verbatim>\<open>(1/m) * np.sum(deltaL, axis = 0)\<close>, and axis 0 of
  \<open>deltaL\<close> runs over the rows of \<open>W\<close>, the output units; the samples of the batch are the columns
  (\<open>forward\<close> adds the bias of shape \<open>[row, 1]\<close> to every column of \<open>W * x\<close>). On a layer of two rows
  with a cached input of shape \<open>[2, 3]\<close> and \<open>deltaL = [[1, 2, 3], [4, 5, 6]]\<close>, the bias gradient is
  \<open>1/2 * [5, 7, 9]\<close>, of shape \<open>[3]\<close>: one number per sample. The sum along the batch axis is
  \<open>[6, 15]\<close>, one number per row of the bias, whose shape is \<open>[2, 1]\<close>.
\<close>

theorem Fc_backward_bias_example:
  "map_sum id (\<lambda>r. (shape (Fc_b_val (fst r)), shape (Fc_b_grad (fst r)),
                     map (entry (Fc_b_grad (fst r))) [[0], [1], [2]]))
     (Fc_backward ex_fc2 (array2 [[1, 2, 3], [4, 5, 6]]))
   = Inr ([2, 1], [3], [5 / 2, 7 / 2, 9 / 2])"
  by code_simp

section \<open>The shapes of the parameters and their gradients\<close>

text \<open>
  C9, as amended. In every state of a \<open>Conv\<close> layer, right after construction and after any
  sequence of \<open>forward\<close> and \<open>backward\<close> calls that return, the weights and their gradient have
  the same shape, and so have the biases and their gradient.
\<close>

theorem Conv_shapes_invariant:
  assumes "Conv_reachable L"
  shows "shape (Conv_W_grad L) = shape (Conv_W_val L) \<and> shape (Conv_b_grad L) = shape (Conv_b_val L)"
  using assms
proof (induction rule: Conv_reachable.induct)
  case (init nb_filters filter_size nb_channels stride padding randW randb)
  show ?case
    by (simp add: Conv_init_def)
next
  case (forward L X L' out)
  then show ?case
    using Conv_forward_state [OF forward.hyps(2)] by simp
next
  case (backward L dout L' dX gW gb)
  then show ?case
    using Conv_backward_state [OF backward.hyps(2)] by simp
qed

text \<open>
  The theorem at the layer \<open>ex_conv\<close> after one \<open>forward\<close> and one \<open>backward\<close>.
\<close>

theorem Conv_shapes_invariant_witness:
  "Conv_reachable ex_conv_bwd
   \<and> shape (Conv_W_grad ex_conv_bwd) = shape (Conv_W_val ex_conv_bwd)
   \<and> shape (Conv_b_grad ex_conv_bwd) = shape (Conv_b_val ex_conv_bwd)"
proof -
  have r0: "Conv_reachable ex_conv"
    unfolding ex_conv_def by (rule Conv_reachable.init)
  have sh: "shape ex_X33 = [1, 1, 3, 3]"
    by (simp add: ex_X33_def array4_def)
  have wf: "Conv_wf ex_conv"
    by (simp add: ex_conv_def Conv_init_def Conv_wf_def)
  have par: "Conv_n_C ex_conv = 1" "Conv_s ex_conv = 1" "Conv_p ex_conv = 0"
    "Conv_f ex_conv = 2" "Conv_n_F ex_conv = 1"
    by (simp_all add: ex_conv_def Conv_init_def)
  have "\<exists>out. Conv_forward ex_conv ex_X33 = Inr (ex_conv_fwd, out)"
    unfolding ex_conv_fwd_def
    by (rule exI, rule Conv_forward_result [OF sh wf _ _ _ _ refl refl]) (simp_all add: par)
  then obtain out where "Conv_forward ex_conv ex_X33 = Inr (ex_conv_fwd, out)" ..
  with r0 have r1: "Conv_reachable ex_conv_fwd"
    by (rule Conv_reachable.forward)
  have cache: "Conv_cache ex_conv_fwd = Some ex_X33"
    by (simp add: ex_conv_fwd_def)
  have wf': "Conv_wf ex_conv_fwd"
    using wf by (simp add: ex_conv_fwd_def Conv_wf_def)
  have par': "Conv_n_C ex_conv_fwd = 1" "Conv_s ex_conv_fwd = 1"
    "Conv_f ex_conv_fwd = 2" "Conv_n_F ex_conv_fwd = 1"
    by (simp_all add: ex_conv_fwd_def par)
  have d: "shape (array4 [[[[1, 1], [1, 1]]]]) = [1, Conv_n_F ex_conv_fwd, 2, 2]"
    by (simp add: array4_def par')
  have "\<exists>L' dX gW gb. Conv_backward ex_conv_fwd (array4 [[[[1, 1], [1, 1]]]]) = Inr (L', dX, gW, gb)"
    by (intro exI, rule Conv_backward_result [OF cache sh wf' _ d _ _ _ refl refl refl])
      (simp_all add: par')
  then obtain L' dX gW gb where
    b: "Conv_backward ex_conv_fwd (array4 [[[[1, 1], [1, 1]]]]) = Inr (L', dX, gW, gb)"
    by blast
  then have "ex_conv_bwd = L'"
    by (simp add: ex_conv_bwd_def)
  with r1 b have r2: "Conv_reachable ex_conv_bwd"
    by (auto intro: Conv_reachable.backward)
  with Conv_shapes_invariant [OF r2] show ?thesis
    by simp
qed

text \<open>
  C9 as stated fails for \<open>Fc\<close>. The constructor sets both gradients to the number 0, which
  has no axes, while the weights have the shape \<open>[row, col]\<close>; and after \<open>backward\<close> on a
  \<open>deltaL\<close> of shape \<open>[1, 3]\<close> the bias gradient has the shape \<open>[3]\<close>, the biases \<open>[1, 1]\<close>.
\<close>

theorem Fc_shapes_counterexample:
  "shape (Fc_W_val (Fc_init 1 2 (entry (array2 [[2, 3]])) (\<lambda>idx. 0))) = [1, 2]
   \<and> shape (Fc_W_grad (Fc_init 1 2 (entry (array2 [[2, 3]])) (\<lambda>idx. 0))) = []
   \<and> map_sum id (\<lambda>r. (shape (Fc_b_val (fst r)), shape (Fc_b_grad (fst r))))
        (Fc_backward ex_fc (array2 [[1, 0, 2]])) = Inr ([1, 1], [3])"
  by code_simp

section \<open>AdamGD: the claims\<close>

text \<open>
  C7, as amended. Let the parameter dict of the optimizer have the ten names \<open>W1..W5\<close>, \<open>b1..b5\<close>,
  both moments of a parameter having the shape of that parameter (as they have after
  construction), and let the gradients have the keys \<open>dW1..dW5\<close>, \<open>db1..db5\<close>. If every gradient
  can be broadcast against its parameter, \<open>update_params\<close> returns; it returns the reference the
  optimizer holds, which is the one it was constructed with; no other dict of the store and no
  other key of the parameter dict changes; and each of the ten parameters and its two moments
  take the shape the parameter and the gradient broadcast to (the shape of the parameter, when
  the gradient has it), where at every index, read in the operands as broadcasting reads it,
  the new first moment is \<open>beta1 * firstMoment + (1 - beta1) * grad\<close>, the new second moment is
  \<open>beta2 * secondMoment + (1 - beta2) * grad\<^sup>2\<close>, neither divided by a bias correction, and the new
  parameter, stored under the same key of the same dict, is
  \<open>parameter - lr * firstMoment' / (sqrt secondMoment' + epsilon)\<close>. If some gradient cannot be
  broadcast against its parameter, \<open>update_params\<close> raises ValueError. The arithmetic is that of
  the real numbers.
\<close>

theorem AdamGD_update_params:
  assumes keys: "\<forall>k\<in>set tracked. \<exists>p g. h (Adam_params A) k = Some p \<and> grads (''d'' @ k) = Some g
      \<and> shape (first_moment A k) = shape p \<and> shape (second_moment A k) = shape p"
  shows "if \<forall>k\<in>set tracked.
          bshape (shape (the (h (Adam_params A) k))) (shape (the (grads (''d'' @ k)))) \<noteq> None
     then \<exists>A' h'. update_params A grads h = Inr (A', Adam_params A, h')
       \<and> Adam_params A' = Adam_params A
       \<and> (\<forall>lr b1 b2 e r h0. AdamGD_init lr b1 b2 e r h0 = Inr A \<longrightarrow> Adam_params A' = r)
       \<and> (\<forall>r. r \<noteq> Adam_params A \<longrightarrow> h' r = h r)
       \<and> (\<forall>k. k \<notin> set tracked \<longrightarrow> h' (Adam_params A) k = h (Adam_params A) k)
       \<and> (\<forall>k\<in>set tracked. \<exists>p'. h' (Adam_params A) k = Some p'
            \<and> bshape (shape (the (h (Adam_params A) k))) (shape (the (grads (''d'' @ k))))
                = Some (shape p')
            \<and> shape (first_moment A' k) = shape p' \<and> shape (second_moment A' k) = shape p'
            \<and> (\<forall>idx. in_shape (shape p') idx \<longrightarrow>
                 entry (first_moment A' k) idx =
                   Adam_beta1 A * bcast (first_moment A k) idx
                   + (1 - Adam_beta1 A) * bcast (the (grads (''d'' @ k))) idx
               \<and> entry (second_moment A' k) idx =
                   Adam_beta2 A * bcast (second_moment A k) idx
                   + (1 - Adam_beta2 A) * (bcast (the (grads (''d'' @ k))) idx)\<^sup>2
               \<and> entry p' idx =
                   bcast (the (h (Adam_params A) k)) idx
                   - Adam_lr A * entry (first_moment A' k) idx
                     / (sqrt (entry (second_moment A' k) idx) + Adam_epsilon A)))
     else update_params A grads h = Inl ValueError"
proof -

  from keys have "\<exists>p g. h (Adam_params A) ''W1'' = Some p \<and> grads ''dW1'' = Some g
      \<and> shape (Adam_vdW1 A) = shape p \<and> shape (Adam_sdW1 A) = shape p"
    by (simp add: tracked_def first_moment_def second_moment_def)
  then obtain pW1 gW1 where pW1: "h (Adam_params A) ''W1'' = Some pW1"
    and gW1: "grads ''dW1'' = Some gW1"
    and sW1: "shape (Adam_vdW1 A) = shape pW1" "shape (Adam_sdW1 A) = shape pW1"
    by blast
  from keys have "\<exists>p g. h (Adam_params A) ''W2'' = Some p \<and> grads ''dW2'' = Some g
      \<and> shape (Adam_vdW2 A) = shape p \<and> shape (Adam_sdW2 A) = shape p"
    by (simp add: tracked_def first_moment_def second_moment_def)
  then obtain pW2 gW2 where pW2: "h (Adam_params A) ''W2'' = Some pW2"
    and gW2: "grads ''dW2'' = Some gW2"
    and sW2: "shape (Adam_vdW2 A) = shape pW2" "shape (Adam_sdW2 A) = shape pW2"
    by blast
  from keys have "\<exists>p g. h (Adam_params A) ''W3'' = Some p \<and> grads ''dW3'' = Some g
      \<and> shape (Adam_vdW3 A) = shape p \<and> shape (Adam_sdW3 A) = shape p"
    by (simp add: tracked_def first_moment_def second_moment_def)
  then obtain pW3 gW3 where pW3: "h (Adam_params A) ''W3'' = Some pW3"
    and gW3: "grads ''dW3'' = Some gW3"
    and sW3: "shape (Adam_vdW3 A) = shape pW3" "shape (Adam_sdW3 A) = shape pW3"
    by blast
  from keys have "\<exists>p g. h (Adam_params A) ''W4'' = Some p \<and> grads ''dW4'' = Some g
      \<and> shape (Adam_vdW4 A) = shape p \<and> shape (Adam_sdW4 A) = shape p"
    by (simp add: tracked_def first_moment_def second_moment_def)
  then obtain pW4 gW4 where pW4: "h (Adam_params A) ''W4'' = Some pW4"
    and gW4: "grads ''dW4'' = Some gW4"
    and sW4: "shape (Adam_vdW4 A) = shape pW4" "shape (Adam_sdW4 A) = shape pW4"
    by blast
  from keys have "\<exists>p g. h (Adam_params A) ''W5'' = Some p \<and> grads ''dW5'' = Some g
      \<and> shape (Adam_vdW5 A) = shape p \<and> shape (Adam_sdW5 A) = shape p"
    by (simp add: tracked_def first_moment_def second_moment_def)
  then obtain pW5 gW5 where pW5: "h (Adam_params A) ''W5'' = Some pW5"
    and gW5: "grads ''dW5'' = Some gW5"
    and sW5: "shape (Adam_vdW5 A) = shape pW5" "shape (Adam_sdW5 A) = shape pW5"
    by blast
  from keys have "\<exists>p g. h (Adam_params A) ''b1'' = Some p \<and> grads ''db1'' = Some g
      \<and> shape (Adam_vdb1 A) = shape p \<and> shape (Adam_sdb1 A) = shape p"
    by (simp add: tracked_def first_moment_def second_moment_def)
  then obtain pb1 gb1 where pb1: "h (Adam_params A) ''b1'' = Some pb1"
    and gb1: "grads ''db1'' = Some gb1"
    and sb1: "shape (Adam_vdb1 A) = shape pb1" "shape (Adam_sdb1 A) = shape pb1"
    by blast
  from keys have "\<exists>p g. h (Adam_params A) ''b2'' = Some p \<and> grads ''db2'' = Some g
      \<and> shape (Adam_vdb2 A) = shape p \<and> shape (Adam_sdb2 A) = shape p"
    by (simp add: tracked_def first_moment_def second_moment_def)
  then obtain pb2 gb2 where pb2: "h (Adam_params A) ''b2'' = Some pb2"
    and gb2: "grads ''db2'' = Some gb2"
    and sb2: "shape (Adam_vdb2 A) = shape pb2" "shape (Adam_sdb2 A) = shape pb2"
    by blast
  from keys have "\<exists>p g. h (Adam_params A) ''b3'' = Some p \<and> grads ''db3'' = Some g
      \<and> shape (Adam_vdb3 A) = shape p \<and> shape (Adam_sdb3 A) = shape p"
    by (simp add: tracked_def first_moment_def second_moment_def)
  then obtain pb3 gb3 where pb3: "h (Adam_params A) ''b3'' = Some pb3"
    and gb3: "grads ''db3'' = Some gb3"
    and sb3: "shape (Adam_vdb3 A) = shape pb3" "shape (Adam_sdb3 A) = shape pb3"
    by blast
  from keys have "\<exists>p g. h (Adam_params A) ''b4'' = Some p \<and> grads ''db4'' = Some g
      \<and> shape (Adam_vdb4 A) = shape p \<and> shape (Adam_sdb4 A) = shape p"
    by (simp add: tracked_def first_moment_def second_moment_def)
  then obtain pb4 gb4 where pb4: "h (Adam_params A) ''b4'' = Some pb4"
    and gb4: "grads ''db4'' = Some gb4"
    and sb4: "shape (Adam_vdb4 A) = shape pb4" "shape (Adam_sdb4 A) = shape pb4"
    by blast
  from keys have "\<exists>p g. h (Adam_params A) ''b5'' = Some p \<and> grads ''db5'' = Some g
      \<and> shape (Adam_vdb5 A) = shape p \<and> shape (Adam_sdb5 A) = shape p"
    by (simp add: tracked_def first_moment_def second_moment_def)
  then obtain pb5 gb5 where pb5: "h (Adam_params A) ''b5'' = Some pb5"
    and gb5: "grads ''db5'' = Some gb5"
    and sb5: "shape (Adam_vdb5 A) = shape pb5" "shape (Adam_sdb5 A) = shape pb5"
    by blast
  show ?thesis
  proof (cases "\<forall>k\<in>set tracked.
      bshape (shape (the (h (Adam_params A) k))) (shape (the (grads (''d'' @ k)))) \<noteq> None")
    case True
    from True have "bshape (shape pW1) (shape gW1) \<noteq> None"
      by (simp add: tracked_def pW1 gW1)
    then obtain cW1 where cW1: "bshape (shape pW1) (shape gW1) = Some cW1"
      by blast
    note aW1 = bshape_absorb [OF cW1]
    from True have "bshape (shape pW2) (shape gW2) \<noteq> None"
      by (simp add: tracked_def pW2 gW2)
    then obtain cW2 where cW2: "bshape (shape pW2) (shape gW2) = Some cW2"
      by blast
    note aW2 = bshape_absorb [OF cW2]
    from True have "bshape (shape pW3) (shape gW3) \<noteq> None"
      by (simp add: tracked_def pW3 gW3)
    then obtain cW3 where cW3: "bshape (shape pW3) (shape gW3) = Some cW3"
      by blast
    note aW3 = bshape_absorb [OF cW3]
    from True have "bshape (shape pW4) (shape gW4) \<noteq> None"
      by (simp add: tracked_def pW4 gW4)
    then obtain cW4 where cW4: "bshape (shape pW4) (shape gW4) = Some cW4"
      by blast
    note aW4 = bshape_absorb [OF cW4]
    from True have "bshape (shape pW5) (shape gW5) \<noteq> None"
      by (simp add: tracked_def pW5 gW5)
    then obtain cW5 where cW5: "bshape (shape pW5) (shape gW5) = Some cW5"
      by blast
    note aW5 = bshape_absorb [OF cW5]
    from True have "bshape (shape pb1) (shape gb1) \<noteq> None"
      by (simp add: tracked_def pb1 gb1)
    then obtain cb1 where cb1: "bshape (shape pb1) (shape gb1) = Some cb1"
      by blast
    note ab1 = bshape_absorb [OF cb1]
    from True have "bshape (shape pb2) (shape gb2) \<noteq> None"
      by (simp add: tracked_def pb2 gb2)
    then obtain cb2 where cb2: "bshape (shape pb2) (shape gb2) = Some cb2"
      by blast
    note ab2 = bshape_absorb [OF cb2]
    from True have "bshape (shape pb3) (shape gb3) \<noteq> None"
      by (simp add: tracked_def pb3 gb3)
    then obtain cb3 where cb3: "bshape (shape pb3) (shape gb3) = Some cb3"
      by blast
    note ab3 = bshape_absorb [OF cb3]
    from True have "bshape (shape pb4) (shape gb4) \<noteq> None"
      by (simp add: tracked_def pb4 gb4)
    then obtain cb4 where cb4: "bshape (shape pb4) (shape gb4) = Some cb4"
      by blast
    note ab4 = bshape_absorb [OF cb4]
    from True have "bshape (shape pb5) (shape gb5) \<noteq> None"
      by (simp add: tracked_def pb5 gb5)
    then obtain cb5 where cb5: "bshape (shape pb5) (shape gb5) = Some cb5"
      by blast
    note ab5 = bshape_absorb [OF cb5]
    define A' where "A' = A\<lparr>Adam_vdW1 := mom (Adam_beta1 A) (Adam_vdW1 A) gW1,
        Adam_vdW2 := mom (Adam_beta1 A) (Adam_vdW2 A) gW2,
        Adam_vdW3 := mom (Adam_beta1 A) (Adam_vdW3 A) gW3,
        Adam_vdW4 := mom (Adam_beta1 A) (Adam_vdW4 A) gW4,
        Adam_vdW5 := mom (Adam_beta1 A) (Adam_vdW5 A) gW5,
        Adam_vdb1 := mom (Adam_beta1 A) (Adam_vdb1 A) gb1,
        Adam_vdb2 := mom (Adam_beta1 A) (Adam_vdb2 A) gb2,
        Adam_vdb3 := mom (Adam_beta1 A) (Adam_vdb3 A) gb3,
        Adam_vdb4 := mom (Adam_beta1 A) (Adam_vdb4 A) gb4,
        Adam_vdb5 := mom (Adam_beta1 A) (Adam_vdb5 A) gb5,
        Adam_sdW1 := rms (Adam_beta2 A) (Adam_sdW1 A) gW1,
        Adam_sdW2 := rms (Adam_beta2 A) (Adam_sdW2 A) gW2,
        Adam_sdW3 := rms (Adam_beta2 A) (Adam_sdW3 A) gW3,
        Adam_sdW4 := rms (Adam_beta2 A) (Adam_sdW4 A) gW4,
        Adam_sdW5 := rms (Adam_beta2 A) (Adam_sdW5 A) gW5,
        Adam_sdb1 := rms (Adam_beta2 A) (Adam_sdb1 A) gb1,
        Adam_sdb2 := rms (Adam_beta2 A) (Adam_sdb2 A) gb2,
        Adam_sdb3 := rms (Adam_beta2 A) (Adam_sdb3 A) gb3,
        Adam_sdb4 := rms (Adam_beta2 A) (Adam_sdb4 A) gb4,
        Adam_sdb5 := rms (Adam_beta2 A) (Adam_sdb5 A) gb5\<rparr>"
    define h' where "h' = h(Adam_params A := (h (Adam_params A))
          (''W1'' \<mapsto> desc (Adam_lr A) (Adam_epsilon A) pW1 (mom (Adam_beta1 A) (Adam_vdW1 A) gW1) (rms (Adam_beta2 A) (Adam_sdW1 A) gW1),
           ''W2'' \<mapsto> desc (Adam_lr A) (Adam_epsilon A) pW2 (mom (Adam_beta1 A) (Adam_vdW2 A) gW2) (rms (Adam_beta2 A) (Adam_sdW2 A) gW2),
           ''W3'' \<mapsto> desc (Adam_lr A) (Adam_epsilon A) pW3 (mom (Adam_beta1 A) (Adam_vdW3 A) gW3) (rms (Adam_beta2 A) (Adam_sdW3 A) gW3),
           ''W4'' \<mapsto> desc (Adam_lr A) (Adam_epsilon A) pW4 (mom (Adam_beta1 A) (Adam_vdW4 A) gW4) (rms (Adam_beta2 A) (Adam_sdW4 A) gW4),
           ''W5'' \<mapsto> desc (Adam_lr A) (Adam_epsilon A) pW5 (mom (Adam_beta1 A) (Adam_vdW5 A) gW5) (rms (Adam_beta2 A) (Adam_sdW5 A) gW5),
           ''b1'' \<mapsto> desc (Adam_lr A) (Adam_epsilon A) pb1 (mom (Adam_beta1 A) (Adam_vdb1 A) gb1) (rms (Adam_beta2 A) (Adam_sdb1 A) gb1),
           ''b2'' \<mapsto> desc (Adam_lr A) (Adam_epsilon A) pb2 (mom (Adam_beta1 A) (Adam_vdb2 A) gb2) (rms (Adam_beta2 A) (Adam_sdb2 A) gb2),
           ''b3'' \<mapsto> desc (Adam_lr A) (Adam_epsilon A) pb3 (mom (Adam_beta1 A) (Adam_vdb3 A) gb3) (rms (Adam_beta2 A) (Adam_sdb3 A) gb3),
           ''b4'' \<mapsto> desc (Adam_lr A) (Adam_epsilon A) pb4 (mom (Adam_beta1 A) (Adam_vdb4 A) gb4) (rms (Adam_beta2 A) (Adam_sdb4 A) gb4),
           ''b5'' \<mapsto> desc (Adam_lr A) (Adam_epsilon A) pb5 (mom (Adam_beta1 A) (Adam_vdb5 A) gb5) (rms (Adam_beta2 A) (Adam_sdb5 A) gb5)))"
    have r: "update_params A grads h = Inr (A', Adam_params A, h')"
      unfolding A'_def h'_def
      by (rule update_params_broadcast; fact)
    have par: "Adam_params A' = Adam_params A"
      by (simp add: A'_def)
    have other: "h' r = h r" if "r \<noteq> Adam_params A" for r
      using that by (simp add: h'_def)
    have untracked: "h' (Adam_params A) k = h (Adam_params A) k" if "k \<notin> set tracked" for k
      using that by (simp add: h'_def tracked_def)
    have kW1: "\<exists>p'. h' (Adam_params A) ''W1'' = Some p'
            \<and> bshape (shape (the (h (Adam_params A) ''W1''))) (shape (the (grads (''d'' @ ''W1''))))
                = Some (shape p')
            \<and> shape (first_moment A' ''W1'') = shape p' \<and> shape (second_moment A' ''W1'') = shape p'
            \<and> (\<forall>idx. in_shape (shape p') idx \<longrightarrow>
                 entry (first_moment A' ''W1'') idx =
                   Adam_beta1 A * bcast (first_moment A ''W1'') idx
                   + (1 - Adam_beta1 A) * bcast (the (grads (''d'' @ ''W1''))) idx
               \<and> entry (second_moment A' ''W1'') idx =
                   Adam_beta2 A * bcast (second_moment A ''W1'') idx
                   + (1 - Adam_beta2 A) * (bcast (the (grads (''d'' @ ''W1''))) idx)\<^sup>2
               \<and> entry p' idx =
                   bcast (the (h (Adam_params A) ''W1'')) idx
                   - Adam_lr A * entry (first_moment A' ''W1'') idx
                     / (sqrt (entry (second_moment A' ''W1'') idx) + Adam_epsilon A))"
    proof -
      define v' where "v' = mom (Adam_beta1 A) (Adam_vdW1 A) gW1"
      define s' where "s' = rms (Adam_beta2 A) (Adam_sdW1 A) gW1"
      define q where "q = desc (Adam_lr A) (Adam_epsilon A) pW1 v' s'"
      have sv: "shape v' = cW1" and ss: "shape s' = cW1"
        by (simp_all add: v'_def s'_def momentum_bc(2) rmsprop_bc(2) sW1 cW1)
      have sq: "shape q = cW1"
        unfolding q_def using descent_bc(2) [of s' v' pW1] sv ss aW1 by simp
      have m: "entry v' idx =
          Adam_beta1 A * bcast (Adam_vdW1 A) idx + (1 - Adam_beta1 A) * bcast gW1 idx" for idx
        by (simp add: v'_def momentum_bc(3) sW1 cW1)
      have e: "entry s' idx =
          Adam_beta2 A * bcast (Adam_sdW1 A) idx + (1 - Adam_beta2 A) * (bcast gW1 idx)\<^sup>2" for idx
        by (simp add: s'_def rmsprop_bc(3) sW1 cW1)
      have d: "entry q idx =
          bcast pW1 idx - Adam_lr A * entry v' idx / (sqrt (entry s' idx) + Adam_epsilon A)"
        if "in_shape cW1 idx" for idx
        unfolding q_def using descent_bc(3) [of s' v' pW1 idx] sv ss aW1 that by simp
      have hq: "h' (Adam_params A) ''W1'' = Some q"
        by (simp add: h'_def q_def v'_def s'_def)
      have fm: "first_moment A' ''W1'' = v'" "second_moment A' ''W1'' = s'"
        "first_moment A ''W1'' = Adam_vdW1 A" "second_moment A ''W1'' = Adam_sdW1 A"
        by (simp_all add: A'_def v'_def s'_def first_moment_def second_moment_def)
      have t: "the (h (Adam_params A) ''W1'') = pW1" "the (grads (''d'' @ ''W1'')) = gW1"
        by (simp_all add: pW1 gW1)
      show ?thesis
        unfolding fm t
        using hq sq sv ss cW1 m e d by (intro exI [of _ q]) simp
    qed
    have kW2: "\<exists>p'. h' (Adam_params A) ''W2'' = Some p'
            \<and> bshape (shape (the (h (Adam_params A) ''W2''))) (shape (the (grads (''d'' @ ''W2''))))
                = Some (shape p')
            \<and> shape (first_moment A' ''W2'') = shape p' \<and> shape (second_moment A' ''W2'') = shape p'
            \<and> (\<forall>idx. in_shape (shape p') idx \<longrightarrow>
                 entry (first_moment A' ''W2'') idx =
                   Adam_beta1 A * bcast (first_moment A ''W2'') idx
                   + (1 - Adam_beta1 A) * bcast (the (grads (''d'' @ ''W2''))) idx
               \<and> entry (second_moment A' ''W2'') idx =
                   Adam_beta2 A * bcast (second_moment A ''W2'') idx
                   + (1 - Adam_beta2 A) * (bcast (the (grads (''d'' @ ''W2''))) idx)\<^sup>2
               \<and> entry p' idx =
                   bcast (the (h (Adam_params A) ''W2'')) idx
                   - Adam_lr A * entry (first_moment A' ''W2'') idx
                     / (sqrt (entry (second_moment A' ''W2'') idx) + Adam_epsilon A))"
    proof -
      define v' where "v' = mom (Adam_beta1 A) (Adam_vdW2 A) gW2"
      define s' where "s' = rms (Adam_beta2 A) (Adam_sdW2 A) gW2"
      define q where "q = desc (Adam_lr A) (Adam_epsilon A) pW2 v' s'"
      have sv: "shape v' = cW2" and ss: "shape s' = cW2"
        by (simp_all add: v'_def s'_def momentum_bc(2) rmsprop_bc(2) sW2 cW2)
      have sq: "shape q = cW2"
        unfolding q_def using descent_bc(2) [of s' v' pW2] sv ss aW2 by simp
      have m: "entry v' idx =
          Adam_beta1 A * bcast (Adam_vdW2 A) idx + (1 - Adam_beta1 A) * bcast gW2 idx" for idx
        by (simp add: v'_def momentum_bc(3) sW2 cW2)
      have e: "entry s' idx =
          Adam_beta2 A * bcast (Adam_sdW2 A) idx + (1 - Adam_beta2 A) * (bcast gW2 idx)\<^sup>2" for idx
        by (simp add: s'_def rmsprop_bc(3) sW2 cW2)
      have d: "entry q idx =
          bcast pW2 idx - Adam_lr A * entry v' idx / (sqrt (entry s' idx) + Adam_epsilon A)"
        if "in_shape cW2 idx" for idx
        unfolding q_def using descent_bc(3) [of s' v' pW2 idx] sv ss aW2 that by simp
      have hq: "h' (Adam_params A) ''W2'' = Some q"
        by (simp add: h'_def q_def v'_def s'_def)
      have fm: "first_moment A' ''W2'' = v'" "second_moment A' ''W2'' = s'"
        "first_moment A ''W2'' = Adam_vdW2 A" "second_moment A ''W2'' = Adam_sdW2 A"
        by (simp_all add: A'_def v'_def s'_def first_moment_def second_moment_def)
      have t: "the (h (Adam_params A) ''W2'') = pW2" "the (grads (''d'' @ ''W2'')) = gW2"
        by (simp_all add: pW2 gW2)
      show ?thesis
        unfolding fm t
        using hq sq sv ss cW2 m e d by (intro exI [of _ q]) simp
    qed
    have kW3: "\<exists>p'. h' (Adam_params A) ''W3'' = Some p'
            \<and> bshape (shape (the (h (Adam_params A) ''W3''))) (shape (the (grads (''d'' @ ''W3''))))
                = Some (shape p')
            \<and> shape (first_moment A' ''W3'') = shape p' \<and> shape (second_moment A' ''W3'') = shape p'
            \<and> (\<forall>idx. in_shape (shape p') idx \<longrightarrow>
                 entry (first_moment A' ''W3'') idx =
                   Adam_beta1 A * bcast (first_moment A ''W3'') idx
                   + (1 - Adam_beta1 A) * bcast (the (grads (''d'' @ ''W3''))) idx
               \<and> entry (second_moment A' ''W3'') idx =
                   Adam_beta2 A * bcast (second_moment A ''W3'') idx
                   + (1 - Adam_beta2 A) * (bcast (the (grads (''d'' @ ''W3''))) idx)\<^sup>2
               \<and> entry p' idx =
                   bcast (the (h (Adam_params A) ''W3'')) idx
                   - Adam_lr A * entry (first_moment A' ''W3'') idx
                     / (sqrt (entry (second_moment A' ''W3'') idx) + Adam_epsilon A))"
    proof -
      define v' where "v' = mom (Adam_beta1 A) (Adam_vdW3 A) gW3"
      define s' where "s' = rms (Adam_beta2 A) (Adam_sdW3 A) gW3"
      define q where "q = desc (Adam_lr A) (Adam_epsilon A) pW3 v' s'"
      have sv: "shape v' = cW3" and ss: "shape s' = cW3"
        by (simp_all add: v'_def s'_def momentum_bc(2) rmsprop_bc(2) sW3 cW3)
      have sq: "shape q = cW3"
        unfolding q_def using descent_bc(2) [of s' v' pW3] sv ss aW3 by simp
      have m: "entry v' idx =
          Adam_beta1 A * bcast (Adam_vdW3 A) idx + (1 - Adam_beta1 A) * bcast gW3 idx" for idx
        by (simp add: v'_def momentum_bc(3) sW3 cW3)
      have e: "entry s' idx =
          Adam_beta2 A * bcast (Adam_sdW3 A) idx + (1 - Adam_beta2 A) * (bcast gW3 idx)\<^sup>2" for idx
        by (simp add: s'_def rmsprop_bc(3) sW3 cW3)
      have d: "entry q idx =
          bcast pW3 idx - Adam_lr A * entry v' idx / (sqrt (entry s' idx) + Adam_epsilon A)"
        if "in_shape cW3 idx" for idx
        unfolding q_def using descent_bc(3) [of s' v' pW3 idx] sv ss aW3 that by simp
      have hq: "h' (Adam_params A) ''W3'' = Some q"
        by (simp add: h'_def q_def v'_def s'_def)
      have fm: "first_moment A' ''W3'' = v'" "second_moment A' ''W3'' = s'"
        "first_moment A ''W3'' = Adam_vdW3 A" "second_moment A ''W3'' = Adam_sdW3 A"
        by (simp_all add: A'_def v'_def s'_def first_moment_def second_moment_def)
      have t: "the (h (Adam_params A) ''W3'') = pW3" "the (grads (''d'' @ ''W3'')) = gW3"
        by (simp_all add: pW3 gW3)
      show ?thesis
        unfolding fm t
        using hq sq sv ss cW3 m e d by (intro exI [of _ q]) simp
    qed
    have kW4: "\<exists>p'. h' (Adam_params A) ''W4'' = Some p'
            \<and> bshape (shape (the (h (Adam_params A) ''W4''))) (shape (the (grads (''d'' @ ''W4''))))
                = Some (shape p')
            \<and> shape (first_moment A' ''W4'') = shape p' \<and> shape (second_moment A' ''W4'') = shape p'
            \<and> (\<forall>idx. in_shape (shape p') idx \<longrightarrow>
                 entry (first_moment A' ''W4'') idx =
                   Adam_beta1 A * bcast (first_moment A ''W4'') idx
                   + (1 - Adam_beta1 A) * bcast (the (grads (''d'' @ ''W4''))) idx
               \<and> entry (second_moment A' ''W4'') idx =
                   Adam_beta2 A * bcast (second_moment A ''W4'') idx
                   + (1 - Adam_beta2 A) * (bcast (the (grads (''d'' @ ''W4''))) idx)\<^sup>2
               \<and> entry p' idx =
                   bcast (the (h (Adam_params A) ''W4'')) idx
                   - Adam_lr A * entry (first_moment A' ''W4'') idx
                     / (sqrt (entry (second_moment A' ''W4'') idx) + Adam_epsilon A))"
    proof -
      define v' where "v' = mom (Adam_beta1 A) (Adam_vdW4 A) gW4"
      define s' where "s' = rms (Adam_beta2 A) (Adam_sdW4 A) gW4"
      define q where "q = desc (Adam_lr A) (Adam_epsilon A) pW4 v' s'"
      have sv: "shape v' = cW4" and ss: "shape s' = cW4"
        by (simp_all add: v'_def s'_def momentum_bc(2) rmsprop_bc(2) sW4 cW4)
      have sq: "shape q = cW4"
        unfolding q_def using descent_bc(2) [of s' v' pW4] sv ss aW4 by simp
      have m: "entry v' idx =
          Adam_beta1 A * bcast (Adam_vdW4 A) idx + (1 - Adam_beta1 A) * bcast gW4 idx" for idx
        by (simp add: v'_def momentum_bc(3) sW4 cW4)
      have e: "entry s' idx =
          Adam_beta2 A * bcast (Adam_sdW4 A) idx + (1 - Adam_beta2 A) * (bcast gW4 idx)\<^sup>2" for idx
        by (simp add: s'_def rmsprop_bc(3) sW4 cW4)
      have d: "entry q idx =
          bcast pW4 idx - Adam_lr A * entry v' idx / (sqrt (entry s' idx) + Adam_epsilon A)"
        if "in_shape cW4 idx" for idx
        unfolding q_def using descent_bc(3) [of s' v' pW4 idx] sv ss aW4 that by simp
      have hq: "h' (Adam_params A) ''W4'' = Some q"
        by (simp add: h'_def q_def v'_def s'_def)
      have fm: "first_moment A' ''W4'' = v'" "second_moment A' ''W4'' = s'"
        "first_moment A ''W4'' = Adam_vdW4 A" "second_moment A ''W4'' = Adam_sdW4 A"
        by (simp_all add: A'_def v'_def s'_def first_moment_def second_moment_def)
      have t: "the (h (Adam_params A) ''W4'') = pW4" "the (grads (''d'' @ ''W4'')) = gW4"
        by (simp_all add: pW4 gW4)
      show ?thesis
        unfolding fm t
        using hq sq sv ss cW4 m e d by (intro exI [of _ q]) simp
    qed
    have kW5: "\<exists>p'. h' (Adam_params A) ''W5'' = Some p'
            \<and> bshape (shape (the (h (Adam_params A) ''W5''))) (shape (the (grads (''d'' @ ''W5''))))
                = Some (shape p')
            \<and> shape (first_moment A' ''W5'') = shape p' \<and> shape (second_moment A' ''W5'') = shape p'
            \<and> (\<forall>idx. in_shape (shape p') idx \<longrightarrow>
                 entry (first_moment A' ''W5'') idx =
                   Adam_beta1 A * bcast (first_moment A ''W5'') idx
                   + (1 - Adam_beta1 A) * bcast (the (grads (''d'' @ ''W5''))) idx
               \<and> entry (second_moment A' ''W5'') idx =
                   Adam_beta2 A * bcast (second_moment A ''W5'') idx
                   + (1 - Adam_beta2 A) * (bcast (the (grads (''d'' @ ''W5''))) idx)\<^sup>2
               \<and> entry p' idx =
                   bcast (the (h (Adam_params A) ''W5'')) idx
                   - Adam_lr A * entry (first_moment A' ''W5'') idx
                     / (sqrt (entry (second_moment A' ''W5'') idx) + Adam_epsilon A))"
    proof -
      define v' where "v' = mom (Adam_beta1 A) (Adam_vdW5 A) gW5"
      define s' where "s' = rms (Adam_beta2 A) (Adam_sdW5 A) gW5"
      define q where "q = desc (Adam_lr A) (Adam_epsilon A) pW5 v' s'"
      have sv: "shape v' = cW5" and ss: "shape s' = cW5"
        by (simp_all add: v'_def s'_def momentum_bc(2) rmsprop_bc(2) sW5 cW5)
      have sq: "shape q = cW5"
        unfolding q_def using descent_bc(2) [of s' v' pW5] sv ss aW5 by simp
      have m: "entry v' idx =
          Adam_beta1 A * bcast (Adam_vdW5 A) idx + (1 - Adam_beta1 A) * bcast gW5 idx" for idx
        by (simp add: v'_def momentum_bc(3) sW5 cW5)
      have e: "entry s' idx =
          Adam_beta2 A * bcast (Adam_sdW5 A) idx + (1 - Adam_beta2 A) * (bcast gW5 idx)\<^sup>2" for idx
        by (simp add: s'_def rmsprop_bc(3) sW5 cW5)
      have d: "entry q idx =
          bcast pW5 idx - Adam_lr A * entry v' idx / (sqrt (entry s' idx) + Adam_epsilon A)"
        if "in_shape cW5 idx" for idx
        unfolding q_def using descent_bc(3) [of s' v' pW5 idx] sv ss aW5 that by simp
      have hq: "h' (Adam_params A) ''W5'' = Some q"
        by (simp add: h'_def q_def v'_def s'_def)
      have fm: "first_moment A' ''W5'' = v'" "second_moment A' ''W5'' = s'"
        "first_moment A ''W5'' = Adam_vdW5 A" "second_moment A ''W5'' = Adam_sdW5 A"
        by (simp_all add: A'_def v'_def s'_def first_moment_def second_moment_def)
      have t: "the (h (Adam_params A) ''W5'') = pW5" "the (grads (''d'' @ ''W5'')) = gW5"
        by (simp_all add: pW5 gW5)
      show ?thesis
        unfolding fm t
        using hq sq sv ss cW5 m e d by (intro exI [of _ q]) simp
    qed
    have kb1: "\<exists>p'. h' (Adam_params A) ''b1'' = Some p'
            \<and> bshape (shape (the (h (Adam_params A) ''b1''))) (shape (the (grads (''d'' @ ''b1''))))
                = Some (shape p')
            \<and> shape (first_moment A' ''b1'') = shape p' \<and> shape (second_moment A' ''b1'') = shape p'
            \<and> (\<forall>idx. in_shape (shape p') idx \<longrightarrow>
                 entry (first_moment A' ''b1'') idx =
                   Adam_beta1 A * bcast (first_moment A ''b1'') idx
                   + (1 - Adam_beta1 A) * bcast (the (grads (''d'' @ ''b1''))) idx
               \<and> entry (second_moment A' ''b1'') idx =
                   Adam_beta2 A * bcast (second_moment A ''b1'') idx
                   + (1 - Adam_beta2 A) * (bcast (the (grads (''d'' @ ''b1''))) idx)\<^sup>2
               \<and> entry p' idx =
                   bcast (the (h (Adam_params A) ''b1'')) idx
                   - Adam_lr A * entry (first_moment A' ''b1'') idx
                     / (sqrt (entry (second_moment A' ''b1'') idx) + Adam_epsilon A))"
    proof -
      define v' where "v' = mom (Adam_beta1 A) (Adam_vdb1 A) gb1"
      define s' where "s' = rms (Adam_beta2 A) (Adam_sdb1 A) gb1"
      define q where "q = desc (Adam_lr A) (Adam_epsilon A) pb1 v' s'"
      have sv: "shape v' = cb1" and ss: "shape s' = cb1"
        by (simp_all add: v'_def s'_def momentum_bc(2) rmsprop_bc(2) sb1 cb1)
      have sq: "shape q = cb1"
        unfolding q_def using descent_bc(2) [of s' v' pb1] sv ss ab1 by simp
      have m: "entry v' idx =
          Adam_beta1 A * bcast (Adam_vdb1 A) idx + (1 - Adam_beta1 A) * bcast gb1 idx" for idx
        by (simp add: v'_def momentum_bc(3) sb1 cb1)
      have e: "entry s' idx =
          Adam_beta2 A * bcast (Adam_sdb1 A) idx + (1 - Adam_beta2 A) * (bcast gb1 idx)\<^sup>2" for idx
        by (simp add: s'_def rmsprop_bc(3) sb1 cb1)
      have d: "entry q idx =
          bcast pb1 idx - Adam_lr A * entry v' idx / (sqrt (entry s' idx) + Adam_epsilon A)"
        if "in_shape cb1 idx" for idx
        unfolding q_def using descent_bc(3) [of s' v' pb1 idx] sv ss ab1 that by simp
      have hq: "h' (Adam_params A) ''b1'' = Some q"
        by (simp add: h'_def q_def v'_def s'_def)
      have fm: "first_moment A' ''b1'' = v'" "second_moment A' ''b1'' = s'"
        "first_moment A ''b1'' = Adam_vdb1 A" "second_moment A ''b1'' = Adam_sdb1 A"
        by (simp_all add: A'_def v'_def s'_def first_moment_def second_moment_def)
      have t: "the (h (Adam_params A) ''b1'') = pb1" "the (grads (''d'' @ ''b1'')) = gb1"
        by (simp_all add: pb1 gb1)
      show ?thesis
        unfolding fm t
        using hq sq sv ss cb1 m e d by (intro exI [of _ q]) simp
    qed
    have kb2: "\<exists>p'. h' (Adam_params A) ''b2'' = Some p'
            \<and> bshape (shape (the (h (Adam_params A) ''b2''))) (shape (the (grads (''d'' @ ''b2''))))
                = Some (shape p')
            \<and> shape (first_moment A' ''b2'') = shape p' \<and> shape (second_moment A' ''b2'') = shape p'
            \<and> (\<forall>idx. in_shape (shape p') idx \<longrightarrow>
                 entry (first_moment A' ''b2'') idx =
                   Adam_beta1 A * bcast (first_moment A ''b2'') idx
                   + (1 - Adam_beta1 A) * bcast (the (grads (''d'' @ ''b2''))) idx
               \<and> entry (second_moment A' ''b2'') idx =
                   Adam_beta2 A * bcast (second_moment A ''b2'') idx
                   + (1 - Adam_beta2 A) * (bcast (the (grads (''d'' @ ''b2''))) idx)\<^sup>2
               \<and> entry p' idx =
                   bcast (the (h (Adam_params A) ''b2'')) idx
                   - Adam_lr A * entry (first_moment A' ''b2'') idx
                     / (sqrt (entry (second_moment A' ''b2'') idx) + Adam_epsilon A))"
    proof -
      define v' where "v' = mom (Adam_beta1 A) (Adam_vdb2 A) gb2"
      define s' where "s' = rms (Adam_beta2 A) (Adam_sdb2 A) gb2"
      define q where "q = desc (Adam_lr A) (Adam_epsilon A) pb2 v' s'"
      have sv: "shape v' = cb2" and ss: "shape s' = cb2"
        by (simp_all add: v'_def s'_def momentum_bc(2) rmsprop_bc(2) sb2 cb2)
      have sq: "shape q = cb2"
        unfolding q_def using descent_bc(2) [of s' v' pb2] sv ss ab2 by simp
      have m: "entry v' idx =
          Adam_beta1 A * bcast (Adam_vdb2 A) idx + (1 - Adam_beta1 A) * bcast gb2 idx" for idx
        by (simp add: v'_def momentum_bc(3) sb2 cb2)
      have e: "entry s' idx =
          Adam_beta2 A * bcast (Adam_sdb2 A) idx + (1 - Adam_beta2 A) * (bcast gb2 idx)\<^sup>2" for idx
        by (simp add: s'_def rmsprop_bc(3) sb2 cb2)
      have d: "entry q idx =
          bcast pb2 idx - Adam_lr A * entry v' idx / (sqrt (entry s' idx) + Adam_epsilon A)"
        if "in_shape cb2 idx" for idx
        unfolding q_def using descent_bc(3) [of s' v' pb2 idx] sv ss ab2 that by simp
      have hq: "h' (Adam_params A) ''b2'' = Some q"
        by (simp add: h'_def q_def v'_def s'_def)
      have fm: "first_moment A' ''b2'' = v'" "second_moment A' ''b2'' = s'"
        "first_moment A ''b2'' = Adam_vdb2 A" "second_moment A ''b2'' = Adam_sdb2 A"
        by (simp_all add: A'_def v'_def s'_def first_moment_def second_moment_def)
      have t: "the (h (Adam_params A) ''b2'') = pb2" "the (grads (''d'' @ ''b2'')) = gb2"
        by (simp_all add: pb2 gb2)
      show ?thesis
        unfolding fm t
        using hq sq sv ss cb2 m e d by (intro exI [of _ q]) simp
    qed
    have kb3: "\<exists>p'. h' (Adam_params A) ''b3'' = Some p'
            \<and> bshape (shape (the (h (Adam_params A) ''b3''))) (shape (the (grads (''d'' @ ''b3''))))
                = Some (shape p')
            \<and> shape (first_moment A' ''b3'') = shape p' \<and> shape (second_moment A' ''b3'') = shape p'
            \<and> (\<forall>idx. in_shape (shape p') idx \<longrightarrow>
                 entry (first_moment A' ''b3'') idx =
                   Adam_beta1 A * bcast (first_moment A ''b3'') idx
                   + (1 - Adam_beta1 A) * bcast (the (grads (''d'' @ ''b3''))) idx
               \<and> entry (second_moment A' ''b3'') idx =
                   Adam_beta2 A * bcast (second_moment A ''b3'') idx
                   + (1 - Adam_beta2 A) * (bcast (the (grads (''d'' @ ''b3''))) idx)\<^sup>2
               \<and> entry p' idx =
                   bcast (the (h (Adam_params A) ''b3'')) idx
                   - Adam_lr A * entry (first_moment A' ''b3'') idx
                     / (sqrt (entry (second_moment A' ''b3'') idx) + Adam_epsilon A))"
    proof -
      define v' where "v' = mom (Adam_beta1 A) (Adam_vdb3 A) gb3"
      define s' where "s' = rms (Adam_beta2 A) (Adam_sdb3 A) gb3"
      define q where "q = desc (Adam_lr A) (Adam_epsilon A) pb3 v' s'"
      have sv: "shape v' = cb3" and ss: "shape s' = cb3"
        by (simp_all add: v'_def s'_def momentum_bc(2) rmsprop_bc(2) sb3 cb3)
      have sq: "shape q = cb3"
        unfolding q_def using descent_bc(2) [of s' v' pb3] sv ss ab3 by simp
      have m: "entry v' idx =
          Adam_beta1 A * bcast (Adam_vdb3 A) idx + (1 - Adam_beta1 A) * bcast gb3 idx" for idx
        by (simp add: v'_def momentum_bc(3) sb3 cb3)
      have e: "entry s' idx =
          Adam_beta2 A * bcast (Adam_sdb3 A) idx + (1 - Adam_beta2 A) * (bcast gb3 idx)\<^sup>2" for idx
        by (simp add: s'_def rmsprop_bc(3) sb3 cb3)
      have d: "entry q idx =
          bcast pb3 idx - Adam_lr A * entry v' idx / (sqrt (entry s' idx) + Adam_epsilon A)"
        if "in_shape cb3 idx" for idx
        unfolding q_def using descent_bc(3) [of s' v' pb3 idx] sv ss ab3 that by simp
      have hq: "h' (Adam_params A) ''b3'' = Some q"
        by (simp add: h'_def q_def v'_def s'_def)
      have fm: "first_moment A' ''b3'' = v'" "second_moment A' ''b3'' = s'"
        "first_moment A ''b3'' = Adam_vdb3 A" "second_moment A ''b3'' = Adam_sdb3 A"
        by (simp_all add: A'_def v'_def s'_def first_moment_def second_moment_def)
      have t: "the (h (Adam_params A) ''b3'') = pb3" "the (grads (''d'' @ ''b3'')) = gb3"
        by (simp_all add: pb3 gb3)
      show ?thesis
        unfolding fm t
        using hq sq sv ss cb3 m e d by (intro exI [of _ q]) simp
    qed
    have kb4: "\<exists>p'. h' (Adam_params A) ''b4'' = Some p'
            \<and> bshape (shape (the (h (Adam_params A) ''b4''))) (shape (the (grads (''d'' @ ''b4''))))
                = Some (shape p')
            \<and> shape (first_moment A' ''b4'') = shape p' \<and> shape (second_moment A' ''b4'') = shape p'
            \<and> (\<forall>idx. in_shape (shape p') idx \<longrightarrow>
                 entry (first_moment A' ''b4'') idx =
                   Adam_beta1 A * bcast (first_moment A ''b4'') idx
                   + (1 - Adam_beta1 A) * bcast (the (grads (''d'' @ ''b4''))) idx
               \<and> entry (second_moment A' ''b4'') idx =
                   Adam_beta2 A * bcast (second_moment A ''b4'') idx
                   + (1 - Adam_beta2 A) * (bcast (the (grads (''d'' @ ''b4''))) idx)\<^sup>2
               \<and> entry p' idx =
                   bcast (the (h (Adam_params A) ''b4'')) idx
                   - Adam_lr A * entry (first_moment A' ''b4'') idx
                     / (sqrt (entry (second_moment A' ''b4'') idx) + Adam_epsilon A))"
    proof -
      define v' where "v' = mom (Adam_beta1 A) (Adam_vdb4 A) gb4"
      define s' where "s' = rms (Adam_beta2 A) (Adam_sdb4 A) gb4"
      define q where "q = desc (Adam_lr A) (Adam_epsilon A) pb4 v' s'"
      have sv: "shape v' = cb4" and ss: "shape s' = cb4"
        by (simp_all add: v'_def s'_def momentum_bc(2) rmsprop_bc(2) sb4 cb4)
      have sq: "shape q = cb4"
        unfolding q_def using descent_bc(2) [of s' v' pb4] sv ss ab4 by simp
      have m: "entry v' idx =
          Adam_beta1 A * bcast (Adam_vdb4 A) idx + (1 - Adam_beta1 A) * bcast gb4 idx" for idx
        by (simp add: v'_def momentum_bc(3) sb4 cb4)
      have e: "entry s' idx =
          Adam_beta2 A * bcast (Adam_sdb4 A) idx + (1 - Adam_beta2 A) * (bcast gb4 idx)\<^sup>2" for idx
        by (simp add: s'_def rmsprop_bc(3) sb4 cb4)
      have d: "entry q idx =
          bcast pb4 idx - Adam_lr A * entry v' idx / (sqrt (entry s' idx) + Adam_epsilon A)"
        if "in_shape cb4 idx" for idx
        unfolding q_def using descent_bc(3) [of s' v' pb4 idx] sv ss ab4 that by simp
      have hq: "h' (Adam_params A) ''b4'' = Some q"
        by (simp add: h'_def q_def v'_def s'_def)
      have fm: "first_moment A' ''b4'' = v'" "second_moment A' ''b4'' = s'"
        "first_moment A ''b4'' = Adam_vdb4 A" "second_moment A ''b4'' = Adam_sdb4 A"
        by (simp_all add: A'_def v'_def s'_def first_moment_def second_moment_def)
      have t: "the (h (Adam_params A) ''b4'') = pb4" "the (grads (''d'' @ ''b4'')) = gb4"
        by (simp_all add: pb4 gb4)
      show ?thesis
        unfolding fm t
        using hq sq sv ss cb4 m e d by (intro exI [of _ q]) simp
    qed
    have kb5: "\<exists>p'. h' (Adam_params A) ''b5'' = Some p'
            \<and> bshape (shape (the (h (Adam_params A) ''b5''))) (shape (the (grads (''d'' @ ''b5''))))
                = Some (shape p')
            \<and> shape (first_moment A' ''b5'') = shape p' \<and> shape (second_moment A' ''b5'') = shape p'
            \<and> (\<forall>idx. in_shape (shape p') idx \<longrightarrow>
                 entry (first_moment A' ''b5'') idx =
                   Adam_beta1 A * bcast (first_moment A ''b5'') idx
                   + (1 - Adam_beta1 A) * bcast (the (grads (''d'' @ ''b5''))) idx
               \<and> entry (second_moment A' ''b5'') idx =
                   Adam_beta2 A * bcast (second_moment A ''b5'') idx
                   + (1 - Adam_beta2 A) * (bcast (the (grads (''d'' @ ''b5''))) idx)\<^sup>2
               \<and> entry p' idx =
                   bcast (the (h (Adam_params A) ''b5'')) idx
                   - Adam_lr A * entry (first_moment A' ''b5'') idx
                     / (sqrt (entry (second_moment A' ''b5'') idx) + Adam_epsilon A))"
    proof -
      define v' where "v' = mom (Adam_beta1 A) (Adam_vdb5 A) gb5"
      define s' where "s' = rms (Adam_beta2 A) (Adam_sdb5 A) gb5"
      define q where "q = desc (Adam_lr A) (Adam_epsilon A) pb5 v' s'"
      have sv: "shape v' = cb5" and ss: "shape s' = cb5"
        by (simp_all add: v'_def s'_def momentum_bc(2) rmsprop_bc(2) sb5 cb5)
      have sq: "shape q = cb5"
        unfolding q_def using descent_bc(2) [of s' v' pb5] sv ss ab5 by simp
      have m: "entry v' idx =
          Adam_beta1 A * bcast (Adam_vdb5 A) idx + (1 - Adam_beta1 A) * bcast gb5 idx" for idx
        by (simp add: v'_def momentum_bc(3) sb5 cb5)
      have e: "entry s' idx =
          Adam_beta2 A * bcast (Adam_sdb5 A) idx + (1 - Adam_beta2 A) * (bcast gb5 idx)\<^sup>2" for idx
        by (simp add: s'_def rmsprop_bc(3) sb5 cb5)
      have d: "entry q idx =
          bcast pb5 idx - Adam_lr A * entry v' idx / (sqrt (entry s' idx) + Adam_epsilon A)"
        if "in_shape cb5 idx" for idx
        unfolding q_def using descent_bc(3) [of s' v' pb5 idx] sv ss ab5 that by simp
      have hq: "h' (Adam_params A) ''b5'' = Some q"
        by (simp add: h'_def q_def v'_def s'_def)
      have fm: "first_moment A' ''b5'' = v'" "second_moment A' ''b5'' = s'"
        "first_moment A ''b5'' = Adam_vdb5 A" "second_moment A ''b5'' = Adam_sdb5 A"
        by (simp_all add: A'_def v'_def s'_def first_moment_def second_moment_def)
      have t: "the (h (Adam_params A) ''b5'') = pb5" "the (grads (''d'' @ ''b5'')) = gb5"
        by (simp_all add: pb5 gb5)
      show ?thesis
        unfolding fm t
        using hq sq sv ss cb5 m e d by (intro exI [of _ q]) simp
    qed
    have init: "Adam_params A' = r" if "AdamGD_init lr b1 b2 e r h0 = Inr A" for lr b1 b2 e r h0
      using AdamGD_init_params [OF that] par by simp
    have all: "\<forall>k\<in>set tracked. \<exists>p'. h' (Adam_params A) k = Some p'
            \<and> bshape (shape (the (h (Adam_params A) k))) (shape (the (grads (''d'' @ k))))
                = Some (shape p')
            \<and> shape (first_moment A' k) = shape p' \<and> shape (second_moment A' k) = shape p'
            \<and> (\<forall>idx. in_shape (shape p') idx \<longrightarrow>
                 entry (first_moment A' k) idx =
                   Adam_beta1 A * bcast (first_moment A k) idx
                   + (1 - Adam_beta1 A) * bcast (the (grads (''d'' @ k))) idx
               \<and> entry (second_moment A' k) idx =
                   Adam_beta2 A * bcast (second_moment A k) idx
                   + (1 - Adam_beta2 A) * (bcast (the (grads (''d'' @ k))) idx)\<^sup>2
               \<and> entry p' idx =
                   bcast (the (h (Adam_params A) k)) idx
                   - Adam_lr A * entry (first_moment A' k) idx
                     / (sqrt (entry (second_moment A' k) idx) + Adam_epsilon A))"
      unfolding tracked_def
      using kW1 kW2 kW3 kW4 kW5 kb1 kb2 kb3 kb4 kb5
      by (simp del: append.simps)
    show ?thesis
      unfolding if_P [OF True]
      using r par init other untracked all by blast
  next
    case False
    then have "bshape (shape (Adam_vdW1 A)) (shape gW1) = None
      \<or> bshape (shape (Adam_vdW2 A)) (shape gW2) = None
      \<or> bshape (shape (Adam_vdW3 A)) (shape gW3) = None
      \<or> bshape (shape (Adam_vdW4 A)) (shape gW4) = None
      \<or> bshape (shape (Adam_vdW5 A)) (shape gW5) = None
      \<or> bshape (shape (Adam_vdb1 A)) (shape gb1) = None
      \<or> bshape (shape (Adam_vdb2 A)) (shape gb2) = None
      \<or> bshape (shape (Adam_vdb3 A)) (shape gb3) = None
      \<or> bshape (shape (Adam_vdb4 A)) (shape gb4) = None
      \<or> bshape (shape (Adam_vdb5 A)) (shape gb5) = None"
      by (auto simp add: tracked_def pW1 gW1 sW1 pW2 gW2 sW2 pW3 gW3 sW3 pW4 gW4 sW4 pW5 gW5 sW5 pb1 gb1 sb1 pb2 gb2 sb2 pb3 gb3 sb3 pb4 gb4 sb4 pb5 gb5 sb5)
    then have "update_params A grads h = Inl ValueError"
      by (rule update_params_ValueError [OF gW1 gW2 gW3 gW4 gW5 gb1 gb2 gb3 gb4 gb5])
    then show ?thesis
      unfolding if_not_P [OF False] .
  qed
qed

text \<open>
  The theorem at the example. The moments of \<open>W1\<close> become \<open>1/2 * 0 + 1/2 * 2 = 1\<close> and
  \<open>3/4 * 0 + 1/4 * 4 = 1\<close>, the parameter \<open>1 - 1 * 1 / (sqrt 1 + 1) = 1/2\<close>. The bias \<open>b5\<close> of shape
  \<open>[2, 1]\<close> and its moments take the shape \<open>[2, 3]\<close>; at \<open>[1, 2]\<close> the gradient is read at \<open>[2]\<close> and the
  parameter at \<open>[1, 0]\<close>. With a gradient of shape \<open>[3, 2]\<close> for \<open>b2\<close>, \<open>update_params\<close> raises
  ValueError.
\<close>

theorem AdamGD_update_params_witness:
  "(\<exists>A' h'. AdamGD_init 1 (1 / 2) (3 / 4) 1 0 (\<lambda>r. ex_params) = Inr ex_adam
      \<and> update_params ex_adam ex_grads (\<lambda>r. ex_params) = Inr (A', 0, h')
      \<and> Adam_params A' = 0
      \<and> h' 1 = ex_params
      \<and> h' 0 ''W6'' = None
      \<and> (\<exists>p'. h' 0 ''W1'' = Some p' \<and> shape p' = [2] \<and> shape (first_moment A' ''W1'') = [2]
            \<and> entry (first_moment A' ''W1'') [0] = 1
            \<and> entry (second_moment A' ''W1'') [0] = 1
            \<and> entry p' [0] = 1 / 2)
      \<and> (\<exists>p'. h' 0 ''b5'' = Some p' \<and> shape p' = [2, 3] \<and> shape (first_moment A' ''b5'') = [2, 3]
            \<and> entry (first_moment A' ''b5'') [1, 2] = 1
            \<and> entry (second_moment A' ''b5'') [1, 2] = 1
            \<and> entry p' [1, 2] = 1 / 2
            \<and> entry p' [1, 0] = 1 / 3))
   \<and> update_params ex_adam (ex_grads(''db2'' \<mapsto> \<lparr>shape = [3, 2], entry = (\<lambda>idx. 0)\<rparr>))
        (\<lambda>r. ex_params) = Inl ValueError"
proof -
  have i: "AdamGD_init 1 (1 / 2) (3 / 4) 1 0 (\<lambda>r. ex_params) = Inr ex_adam"
    by (simp add: ex_adam_def ex_adam_init)
  have f: "Adam_params ex_adam = 0" "Adam_lr ex_adam = 1" "Adam_beta1 ex_adam = 1 / 2"
    "Adam_beta2 ex_adam = 3 / 4" "Adam_epsilon ex_adam = 1"
    by (simp_all add: ex_adam_def ex_adam_init)
  have m: "first_moment ex_adam k =
      (if k \<in> set [''W1'', ''W2'', ''W3'', ''W4'', ''W5''] then zeros [2] else zeros [2, 1])"
    "second_moment ex_adam k =
      (if k \<in> set [''W1'', ''W2'', ''W3'', ''W4'', ''W5''] then zeros [2] else zeros [2, 1])" for k
    by (simp_all add: ex_adam_def ex_adam_init first_moment_def second_moment_def)
  have keys: "\<forall>k\<in>set tracked. \<exists>p g. ex_params k = Some p \<and> G (''d'' @ k) = Some g
      \<and> shape (first_moment ex_adam k) = shape p \<and> shape (second_moment ex_adam k) = shape p"
    if "\<forall>k\<in>set tracked. G (''d'' @ k) \<noteq> None" for G
    using that by (auto simp add: m zeros_def ex_params_def tracked_def array2_def)
  have k1: "\<forall>k\<in>set tracked. ex_grads (''d'' @ k) \<noteq> None"
    by (simp add: ex_grads_def tracked_def)
  have k2: "\<forall>k\<in>set tracked.
      (ex_grads(''db2'' \<mapsto> \<lparr>shape = [3, 2], entry = (\<lambda>idx. 0)\<rparr>)) (''d'' @ k) \<noteq> None"
    by (simp add: ex_grads_def tracked_def)
  have good: "\<forall>k\<in>set tracked.
      bshape (shape (the (ex_params k))) (shape (the (ex_grads (''d'' @ k)))) \<noteq> None"
    by (simp add: ex_params_def ex_grads_def tracked_def array2_def bshape_def)
  have bad: "\<not> (\<forall>k\<in>set tracked.
      bshape (shape (the (ex_params k)))
        (shape (the ((ex_grads(''db2'' \<mapsto> \<lparr>shape = [3, 2], entry = (\<lambda>idx. 0)\<rparr>)) (''d'' @ k))))
      \<noteq> None)"
    by (simp add: ex_params_def ex_grads_def tracked_def array2_def bshape_def)
  from AdamGD_update_params [of "\<lambda>r. ex_params" ex_adam
      "ex_grads(''db2'' \<mapsto> \<lparr>shape = [3, 2], entry = (\<lambda>idx. 0)\<rparr>)", OF keys [OF k2]] bad
  have second: "update_params ex_adam (ex_grads(''db2'' \<mapsto> \<lparr>shape = [3, 2], entry = (\<lambda>idx. 0)\<rparr>))
      (\<lambda>r. ex_params) = Inl ValueError"
    by (simp only: if_False)
  from AdamGD_update_params [of "\<lambda>r. ex_params" ex_adam ex_grads, OF keys [OF k1],
      unfolded if_P [OF good]]
  obtain A' h' where
    r: "update_params ex_adam ex_grads (\<lambda>r. ex_params) = Inr (A', Adam_params ex_adam, h')"
    and p: "Adam_params A' = Adam_params ex_adam"
    and o: "\<forall>r. r \<noteq> Adam_params ex_adam \<longrightarrow> h' r = ex_params"
    and u: "\<forall>k. k \<notin> set tracked \<longrightarrow> h' (Adam_params ex_adam) k = ex_params k"
    and e: "\<forall>k\<in>set tracked. \<exists>p'. h' (Adam_params ex_adam) k = Some p'
            \<and> bshape (shape (the (ex_params k))) (shape (the (ex_grads (''d'' @ k))))
                = Some (shape p')
            \<and> shape (first_moment A' k) = shape p' \<and> shape (second_moment A' k) = shape p'
            \<and> (\<forall>idx. in_shape (shape p') idx \<longrightarrow>
                 entry (first_moment A' k) idx =
                   Adam_beta1 ex_adam * bcast (first_moment ex_adam k) idx
                   + (1 - Adam_beta1 ex_adam) * bcast (the (ex_grads (''d'' @ k))) idx
               \<and> entry (second_moment A' k) idx =
                   Adam_beta2 ex_adam * bcast (second_moment ex_adam k) idx
                   + (1 - Adam_beta2 ex_adam) * (bcast (the (ex_grads (''d'' @ k))) idx)\<^sup>2
               \<and> entry p' idx =
                   bcast (the (ex_params k)) idx
                   - Adam_lr ex_adam * entry (first_moment A' k) idx
                     / (sqrt (entry (second_moment A' k) idx) + Adam_epsilon ex_adam))"
    by blast
  have w: "''W1'' \<in> set tracked" and b: "''b5'' \<in> set tracked"
    by (simp_all add: tracked_def)
  have o1: "h' 1 = ex_params"
    using o by (simp add: f)
  have u1: "h' 0 ''W6'' = None"
    using u [rule_format, of "''W6''"] by (simp add: f tracked_def ex_params_def)
  from e [rule_format, OF w] obtain pw where
    pw: "h' 0 ''W1'' = Some pw"
    and sw: "bshape (shape (the (ex_params ''W1''))) (shape (the (ex_grads (''d'' @ ''W1''))))
        = Some (shape pw)"
    and mw: "shape (first_moment A' ''W1'') = shape pw"
    and ew: "\<forall>idx. in_shape (shape pw) idx \<longrightarrow>
                 entry (first_moment A' ''W1'') idx =
                   Adam_beta1 ex_adam * bcast (first_moment ex_adam ''W1'') idx
                   + (1 - Adam_beta1 ex_adam) * bcast (the (ex_grads (''d'' @ ''W1''))) idx
               \<and> entry (second_moment A' ''W1'') idx =
                   Adam_beta2 ex_adam * bcast (second_moment ex_adam ''W1'') idx
                   + (1 - Adam_beta2 ex_adam) * (bcast (the (ex_grads (''d'' @ ''W1''))) idx)\<^sup>2
               \<and> entry pw idx =
                   bcast (the (ex_params ''W1'')) idx
                   - Adam_lr ex_adam * entry (first_moment A' ''W1'') idx
                     / (sqrt (entry (second_moment A' ''W1'') idx) + Adam_epsilon ex_adam)"
    unfolding f by blast
  have sw': "shape pw = [2]"
    using sw by (simp add: ex_params_def ex_grads_def bshape_def)
  have "in_shape (shape pw) [0]"
    by (simp add: sw')
  from ew [rule_format, OF this]
  have vw: "entry (first_moment A' ''W1'') [0] = 1"
    "entry (second_moment A' ''W1'') [0] = 1"
    "entry pw [0] = 1 / 2"
    by (simp_all add: f m zeros_def ex_params_def ex_grads_def bcast_def bidx_def)
  from e [rule_format, OF b] obtain pb where
    pb: "h' 0 ''b5'' = Some pb"
    and sb: "bshape (shape (the (ex_params ''b5''))) (shape (the (ex_grads (''d'' @ ''b5''))))
        = Some (shape pb)"
    and mb: "shape (first_moment A' ''b5'') = shape pb"
    and eb: "\<forall>idx. in_shape (shape pb) idx \<longrightarrow>
                 entry (first_moment A' ''b5'') idx =
                   Adam_beta1 ex_adam * bcast (first_moment ex_adam ''b5'') idx
                   + (1 - Adam_beta1 ex_adam) * bcast (the (ex_grads (''d'' @ ''b5''))) idx
               \<and> entry (second_moment A' ''b5'') idx =
                   Adam_beta2 ex_adam * bcast (second_moment ex_adam ''b5'') idx
                   + (1 - Adam_beta2 ex_adam) * (bcast (the (ex_grads (''d'' @ ''b5''))) idx)\<^sup>2
               \<and> entry pb idx =
                   bcast (the (ex_params ''b5'')) idx
                   - Adam_lr ex_adam * entry (first_moment A' ''b5'') idx
                     / (sqrt (entry (second_moment A' ''b5'') idx) + Adam_epsilon ex_adam)"
    unfolding f by blast
  have sb': "shape pb = [2, 3]"
    using sb by (auto simp add: ex_params_def ex_grads_def bshape_def array2_def numeral_2_eq_2)
  have "in_shape (shape pb) [1, 2]" "in_shape (shape pb) [1, 0]"
    by (simp_all add: sb')
  from this [THEN eb [rule_format]]
  have vb: "entry (first_moment A' ''b5'') [1, 2] = 1"
    "entry (second_moment A' ''b5'') [1, 2] = 1"
    "entry pb [1, 2] = 1 / 2"
    "entry pb [1, 0] = 1 / 3"
    by (simp_all add: f m zeros_def ex_params_def ex_grads_def bcast_def bidx_def array2_def
        eval_nat_numeral)
  have W: "\<exists>p'. h' 0 ''W1'' = Some p' \<and> shape p' = [2] \<and> shape (first_moment A' ''W1'') = [2]
            \<and> entry (first_moment A' ''W1'') [0] = 1
            \<and> entry (second_moment A' ''W1'') [0] = 1
            \<and> entry p' [0] = 1 / 2"
    using pw sw' mw vw by simp
  have B: "\<exists>p'. h' 0 ''b5'' = Some p' \<and> shape p' = [2, 3] \<and> shape (first_moment A' ''b5'') = [2, 3]
            \<and> entry (first_moment A' ''b5'') [1, 2] = 1
            \<and> entry (second_moment A' ''b5'') [1, 2] = 1
            \<and> entry p' [1, 2] = 1 / 2
            \<and> entry p' [1, 0] = 1 / 3"
    using pb sb' mb vb by simp
  have first: "\<exists>A' h'. AdamGD_init 1 (1 / 2) (3 / 4) 1 0 (\<lambda>r. ex_params) = Inr ex_adam
      \<and> update_params ex_adam ex_grads (\<lambda>r. ex_params) = Inr (A', 0, h')
      \<and> Adam_params A' = 0
      \<and> h' 1 = ex_params
      \<and> h' 0 ''W6'' = None
      \<and> (\<exists>p'. h' 0 ''W1'' = Some p' \<and> shape p' = [2] \<and> shape (first_moment A' ''W1'') = [2]
            \<and> entry (first_moment A' ''W1'') [0] = 1
            \<and> entry (second_moment A' ''W1'') [0] = 1
            \<and> entry p' [0] = 1 / 2)
      \<and> (\<exists>p'. h' 0 ''b5'' = Some p' \<and> shape p' = [2, 3] \<and> shape (first_moment A' ''b5'') = [2, 3]
            \<and> entry (first_moment A' ''b5'') [1, 2] = 1
            \<and> entry (second_moment A' ''b5'') [1, 2] = 1
            \<and> entry p' [1, 2] = 1 / 2
            \<and> entry p' [1, 0] = 1 / 3)"
    using i r p o1 u1 W B unfolding f by blast
  with second show ?thesis
    by (rule conjI [rotated])
qed

text \<open>
  C7 as stated fails: not for every gradient mapping with the ten keys. With the parameter
  \<open>W1\<close> of shape \<open>[2]\<close> and a gradient \<open>dW1\<close> of shape \<open>[3]\<close>, \<open>update_params\<close> raises ValueError on the
  first statement and returns nothing.
\<close>

theorem AdamGD_update_params_counterexample:
  "map_sum id Adam_params (AdamGD_init 1 (1 / 2) (3 / 4) 1 0 (\<lambda>r. ex_params)) = Inr 0
   \<and> map_option shape (ex_params ''W1'') = Some [2]
   \<and> map_option shape (ex_grads_bad ''dW1'') = Some [3]
   \<and> list_all (\<lambda>k. ex_grads_bad (''d'' @ k) \<noteq> None) tracked
   \<and> map_sum id (\<lambda>r. fst (snd r)) (update_params ex_adam ex_grads_bad (\<lambda>r. ex_params))
      = Inl ValueError"
  by (simp add: ex_adam_def ex_adam_init ex_params_def ex_grads_bad_def ex_grads_def tracked_def
      update_params_def momentum_stmt_def lookup_def momentum_def ew2_def ew1_def bshape_def
      zeros_def)

end
